theory Spec2Isabelle
  imports Complex_Main
begin

section \<open>JavaScript values\<close>

text \<open>
  The two handlers (\<^verbatim>\<open>src/unnamed/part_000\<close>, the signed proxy endpoint, and
  \<^verbatim>\<open>src/app/proxy/save/route.js\<close>, the origin-checked direct endpoint) work on
  untyped values that come out of \<^verbatim>\<open>JSON.parse\<close>. The model keeps them untyped.

  A number is a double: a finite one is written by its exact rational value (both zeros
  are the one \<open>Fin 0\<close>; \<^verbatim>\<open>===\<close> does not tell them apart), and NaN and the two
  infinities are values of their own. No arithmetic is done on numbers by the handlers.

  A string value is a sequence of UTF-16 code units, written here as a HOL string with
  one character per code unit (code units below 256). The text of a request body, and
  any text handed to \<^verbatim>\<open>JSON.parse\<close>, is a list of code units as numbers: decoding
  a body can put U+FFFD there. \<open>units\<close> is the text of a string; for an ASCII string
  it is also the list of its bytes.

  An object is the list of its own properties, in the order of its own keys.
\<close>

type_synonym utf16 = "nat list"

definition units :: "string \<Rightarrow> utf16" where
  "units s = map of_char s"

datatype jsnum = Fin rat | NaN | PosInf | NegInf

datatype jsval =
    JUndefined
  | JNull
  | JBool bool
  | JNum jsnum
  | JStr string
  | JArr "jsval list"
  | JObj "(string \<times> jsval) list"

text \<open>What a handler can throw.\<close>

datatype js_error =
    TypeError
  | RangeError
  | SyntaxError
  | NetworkError
  | RemoteError jsval

definition ebind :: "'e + 'a \<Rightarrow> ('a \<Rightarrow> 'e + 'b) \<Rightarrow> 'e + 'b" where
  "ebind m f = (case m of Inl e \<Rightarrow> Inl e | Inr x \<Rightarrow> f x)"

text \<open>
  The functions of the JavaScript platform that the handlers call and that are not part
  of the repository: the keyed digest of a sequence of bytes,
  \<^verbatim>\<open>crypto.createHmac("sha256", key).update(bytes).digest("base64")\<close>,
  the conversion of a string to a number inside \<^verbatim>\<open>Number(s)\<close>, the conversion of a
  number to a string inside \<^verbatim>\<open>String(n)\<close> and template literals,
  \<^verbatim>\<open>String.prototype.toLowerCase\<close>, and \<^verbatim>\<open>JSON.parse\<close> (\<open>None\<close> when it
  throws).
\<close>

record platform =
  hmac_sha256_base64 :: "string \<Rightarrow> nat list \<Rightarrow> string"
  StringToNumber :: "string \<Rightarrow> jsnum"
  NumberToString :: "jsnum \<Rightarrow> string"
  toLowerCase :: "string \<Rightarrow> string"
  JSON_parse :: "utf16 \<Rightarrow> jsval option"

text \<open>Truthiness, as \<^verbatim>\<open>!x\<close>, \<^verbatim>\<open>x || y\<close> and \<^verbatim>\<open>if (x)\<close> test it.\<close>

fun truthy :: "jsval \<Rightarrow> bool" where
  "truthy JUndefined = False"
| "truthy JNull = False"
| "truthy (JBool b) = b"
| "truthy (JNum n) = (n \<noteq> NaN \<and> n \<noteq> Fin 0)"
| "truthy (JStr s) = (s \<noteq> [])"
| "truthy (JArr xs) = True"
| "truthy (JObj fs) = True"

definition or_else :: "jsval \<Rightarrow> jsval \<Rightarrow> jsval" where
  "or_else a b = (if truthy a then a else b)"

text \<open>
  Property read \<^verbatim>\<open>o.k\<close>: a TypeError on \<^verbatim>\<open>undefined\<close> and \<^verbatim>\<open>null\<close>; an own
  property of an object; \<^verbatim>\<open>length\<close> of an array or string; \<^verbatim>\<open>undefined\<close> otherwise
  (none of the names the handlers read is inherited from a prototype).
  \<^verbatim>\<open>o?.k\<close> is the same read, with \<^verbatim>\<open>undefined\<close> in place of the TypeError.
\<close>

fun opt_prop :: "jsval \<Rightarrow> string \<Rightarrow> jsval" where
  "opt_prop (JObj fs) k = (case map_of fs k of None \<Rightarrow> JUndefined | Some v \<Rightarrow> v)"
| "opt_prop (JArr xs) k = (if k = ''length'' then JNum (Fin (of_nat (length xs))) else JUndefined)"
| "opt_prop (JStr s) k = (if k = ''length'' then JNum (Fin (of_nat (length s))) else JUndefined)"
| "opt_prop v k = JUndefined"

definition get_prop :: "jsval \<Rightarrow> string \<Rightarrow> js_error + jsval" where
  "get_prop v k = (if v = JUndefined \<or> v = JNull then Inl TypeError else Inr (opt_prop v k))"

text \<open>
  Strict equality \<^verbatim>\<open>===\<close>. NaN equals nothing. Arrays and objects are compared by
  reference; wherever the handlers compare, one side comes from the stored document and
  the other from the request, so two of them are never the same object.
\<close>

fun strict_eq :: "jsval \<Rightarrow> jsval \<Rightarrow> bool" where
  "strict_eq JUndefined JUndefined = True"
| "strict_eq JNull JNull = True"
| "strict_eq (JBool a) (JBool b) = (a = b)"
| "strict_eq (JNum a) (JNum b) = (a \<noteq> NaN \<and> b \<noteq> NaN \<and> a = b)"
| "strict_eq (JStr a) (JStr b) = (a = b)"
| "strict_eq a b = False"

text \<open>\<^verbatim>\<open>Array.prototype.join\<close> on strings already converted.\<close>

fun join :: "string \<Rightarrow> string list \<Rightarrow> string" where
  "join sep [] = []"
| "join sep [s] = s"
| "join sep (s # t # ss) = s @ sep @ join sep (t # ss)"

text \<open>The first error of a list of results, or all the values.\<close>

fun sequence :: "('e + 'a) list \<Rightarrow> 'e + 'a list" where
  "sequence [] = Inr []"
| "sequence (r # rs) = ebind r (\<lambda>x. ebind (sequence rs) (\<lambda>xs. Inr (x # xs)))"

text \<open>
  \<^verbatim>\<open>String(v)\<close>, also what a template literal does to \<^verbatim>\<open>${v}\<close>. An array is joined
  with commas, \<^verbatim>\<open>null\<close> and \<^verbatim>\<open>undefined\<close> elements giving the empty string and every
  other element converted in turn. An object is converted by its \<^verbatim>\<open>toString\<close>: the
  inherited one gives \<^verbatim>\<open>[object Object]\<close>; an own property of that name, which in a
  value parsed from JSON is never a function, leaves only the inherited
  \<^verbatim>\<open>valueOf\<close>, which returns the object, and the conversion throws a TypeError.
\<close>

fun ToString :: "platform \<Rightarrow> jsval \<Rightarrow> js_error + string" where
  "ToString pf JUndefined = Inr ''undefined''"
| "ToString pf JNull = Inr ''null''"
| "ToString pf (JBool b) = Inr (if b then ''true'' else ''false'')"
| "ToString pf (JNum n) = Inr (NumberToString pf n)"
| "ToString pf (JStr s) = Inr s"
| "ToString pf (JArr xs) =
     ebind (sequence (map (\<lambda>x. if x = JUndefined \<or> x = JNull then Inr [] else ToString pf x) xs))
       (\<lambda>ss. Inr (join '','' ss))"
| "ToString pf (JObj fs) =
     (if map_of fs ''toString'' \<noteq> None then Inl TypeError else Inr ''[object Object]'')"

text \<open>
  \<^verbatim>\<open>Number(v)\<close>: an array or object goes through its string (the inherited
  \<^verbatim>\<open>valueOf\<close> returns the object itself), and throws where that conversion throws.
\<close>

fun ToNumber :: "platform \<Rightarrow> jsval \<Rightarrow> js_error + jsnum" where
  "ToNumber pf JUndefined = Inr NaN"
| "ToNumber pf JNull = Inr (Fin 0)"
| "ToNumber pf (JBool b) = Inr (if b then Fin 1 else Fin 0)"
| "ToNumber pf (JNum n) = Inr n"
| "ToNumber pf (JStr s) = Inr (StringToNumber pf s)"
| "ToNumber pf (JArr xs) = ebind (ToString pf (JArr xs)) (\<lambda>s. Inr (StringToNumber pf s))"
| "ToNumber pf (JObj fs) = ebind (ToString pf (JObj fs)) (\<lambda>s. Inr (StringToNumber pf s))"

text \<open>
  \<^verbatim>\<open>xs.findIndex(p)\<close>, with \<open>None\<close> for \<^verbatim>\<open>-1\<close>; \<^verbatim>\<open>xs.find(p)\<close> is the element at
  that index. The callback can throw, which ends the scan.
\<close>

fun findIndex :: "(jsval \<Rightarrow> js_error + bool) \<Rightarrow> jsval list \<Rightarrow> js_error + nat option" where
  "findIndex p [] = Inr None"
| "findIndex p (x # xs) =
     ebind (p x) (\<lambda>b.
       if b then Inr (Some 0)
       else ebind (findIndex p xs) (\<lambda>r. Inr (map_option Suc r)))"

text \<open>
  \<^verbatim>\<open>v.slice(0, 2000)\<close>: strings and arrays have the method, nothing else does.
\<close>

fun slice_0_2000 :: "jsval \<Rightarrow> js_error + jsval" where
  "slice_0_2000 (JStr s) = Inr (JStr (take 2000 s))"
| "slice_0_2000 (JArr xs) = Inr (JArr (take 2000 xs))"
| "slice_0_2000 v = Inl TypeError"

text \<open>
  Writing a property of an object that is reachable from the store. The handlers only
  mutate arrays in place (\<^verbatim>\<open>push\<close>, \<^verbatim>\<open>wines[idx] = entry\<close>); the model rebuilds the
  objects on the path to the array, keeping every property at its position.
\<close>

fun upd_field :: "string \<Rightarrow> jsval \<Rightarrow> (string \<times> jsval) list \<Rightarrow> (string \<times> jsval) list" where
  "upd_field k v [] = [(k, v)]"
| "upd_field k v ((k', v') # fs) =
     (if k' = k then (k, v) # fs else (k', v') # upd_field k v fs)"

fun set_prop :: "jsval \<Rightarrow> string \<Rightarrow> jsval \<Rightarrow> jsval" where
  "set_prop (JObj fs) k v = JObj (upd_field k v fs)"
| "set_prop x k v = x"

section \<open>The merge of a submission into the stored document\<close>

text \<open>
  Both handlers end with the same merge (part_000 lines 72-87, route.js lines 79-94).
  They differ in one expression: what a stored \<^verbatim>\<open>product_id\<close> is compared with. The
  proxy handler compares with \<^verbatim>\<open>product.product_id\<close> as submitted (line 78), the
  direct handler with \<^verbatim>\<open>Number(product.product_id)\<close> (line 85).
\<close>

datatype handler = Proxy | Direct

definition comparand :: "platform \<Rightarrow> handler \<Rightarrow> jsval \<Rightarrow> js_error + jsval" where
  "comparand pf h pid =
     (case h of Proxy \<Rightarrow> Inr pid | Direct \<Rightarrow> ebind (ToNumber pf pid) (\<lambda>n. Inr (JNum n)))"

text \<open>The callbacks of \<^verbatim>\<open>find\<close> and \<^verbatim>\<open>findIndex\<close>.\<close>

definition event_matches :: "jsval \<Rightarrow> jsval \<Rightarrow> js_error + bool" where
  "event_matches event_handle e =
     ebind (get_prop e ''collection_handle'') (\<lambda>c. Inr (strict_eq c event_handle))"

definition wine_matches :: "platform \<Rightarrow> handler \<Rightarrow> jsval \<Rightarrow> jsval \<Rightarrow> js_error + bool" where
  "wine_matches pf h product w =
     ebind (get_prop w ''product_id'') (\<lambda>p.
     ebind (get_prop product ''product_id'') (\<lambda>pid.
     ebind (comparand pf h pid) (\<lambda>c.
       Inr (strict_eq p c))))"

text \<open>The entry literal (part_000 lines 79-86, route.js lines 86-93).\<close>

definition make_entry :: "platform \<Rightarrow> string \<Rightarrow> jsval \<Rightarrow> js_error + jsval" where
  "make_entry pf now product =
     ebind (get_prop product ''product_id'') (\<lambda>pid.
     ebind (ToNumber pf pid) (\<lambda>n.
     ebind (get_prop product ''handle'') (\<lambda>handle.
     ebind (get_prop product ''title'') (\<lambda>title.
     ebind (get_prop product ''rating'') (\<lambda>rating.
     ebind (get_prop product ''note'') (\<lambda>note.
     ebind (slice_0_2000 (or_else note (JStr ''''))) (\<lambda>note'.
       Inr (JObj
         [(''product_id'', JNum n),
          (''handle'', or_else handle (JStr '''')),
          (''title'', or_else title (JStr '''')),
          (''rating'', (case rating of JNum r \<Rightarrow> JNum r | _ \<Rightarrow> JNull)),
          (''note'', note'),
          (''updated_at'', JStr now)]))))))))"

text \<open>The event literal (part_000 line 75, route.js line 82), its wine list still empty.\<close>

definition new_event :: "string \<Rightarrow> jsval \<Rightarrow> jsval \<Rightarrow> jsval" where
  "new_event now event_handle event_name =
     JObj
       [(''id'', event_handle),
        (''name'', or_else event_name event_handle),
        (''date'', JStr (take 10 now)),
        (''collection_handle'', event_handle),
        (''wines'', JArr [])]"

text \<open>
  The merge. \<open>now\<close> is \<^verbatim>\<open>new Date().toISOString()\<close>. \<open>found\<close> is what
  \<^verbatim>\<open>find\<close> returns, tested by \<^verbatim>\<open>if (!evt)\<close>. The result is the store as it is
  handed to \<^verbatim>\<open>JSON.stringify\<close>.
\<close>

definition merge ::
  "platform \<Rightarrow> handler \<Rightarrow> string \<Rightarrow> jsval \<Rightarrow> jsval \<Rightarrow> jsval \<Rightarrow> jsval \<Rightarrow> js_error + jsval" where
  "merge pf h now store event_handle event_name product =
     ebind (get_prop store ''events'') (\<lambda>events.
       case events of
         JArr es \<Rightarrow>
           ebind (findIndex (event_matches event_handle) es) (\<lambda>r.
             let found = (case r of Some k \<Rightarrow> es ! k | None \<Rightarrow> JUndefined);
                 i = (case r of Some k \<Rightarrow> if truthy found then k else length es
                      | None \<Rightarrow> length es);
                 es1 = (if truthy found then es
                        else es @ [new_event now event_handle event_name]);
                 evt = es1 ! i
             in ebind (get_prop evt ''wines'') (\<lambda>wines.
               case wines of
                 JArr ws \<Rightarrow>
                   ebind (findIndex (wine_matches pf h product) ws) (\<lambda>idx.
                   ebind (make_entry pf now product) (\<lambda>entry.
                     let ws' = (case idx of None \<Rightarrow> ws @ [entry] | Some j \<Rightarrow> ws[j := entry])
                     in Inr (set_prop store ''events''
                               (JArr (es1[i := set_prop evt ''wines'' (JArr ws')])))))
               | _ \<Rightarrow> Inl TypeError))
       | _ \<Rightarrow> Inl TypeError)"

text \<open>
  Between two requests the store goes through \<^verbatim>\<open>JSON.stringify\<close> and
  \<^verbatim>\<open>JSON.parse\<close>: a number that is NaN or infinite comes back as \<^verbatim>\<open>null\<close>, a
  property whose value is \<^verbatim>\<open>undefined\<close> is gone, and \<^verbatim>\<open>undefined\<close> in an array
  comes back as \<^verbatim>\<open>null\<close>.
\<close>

fun stored :: "jsval \<Rightarrow> jsval" where
  "stored (JNum n) = (case n of Fin q \<Rightarrow> JNum (Fin q) | _ \<Rightarrow> JNull)"
| "stored (JArr xs) = JArr (map (\<lambda>x. if x = JUndefined then JNull else stored x) xs)"
| "stored (JObj fs) =
     JObj (concat (map (\<lambda>(k, v). if v = JUndefined then [] else [(k, stored v)]) fs))"
| "stored v = v"

text \<open>
  The same submission made \<open>n\<close> times in a row, the clock held fixed: the stored
  document as the next request reads it.
\<close>

fun merge_times ::
  "nat \<Rightarrow> platform \<Rightarrow> handler \<Rightarrow> string \<Rightarrow> jsval \<Rightarrow> jsval \<Rightarrow> jsval \<Rightarrow> jsval \<Rightarrow> js_error + jsval" where
  "merge_times 0 pf h now store event_handle event_name product = Inr store"
| "merge_times (Suc n) pf h now store event_handle event_name product =
     ebind (merge pf h now store event_handle event_name product) (\<lambda>store'.
       merge_times n pf h now (stored store') event_handle event_name product)"

subsection \<open>The stored document and its uniqueness invariants\<close>

text \<open>
  A store document: an object whose \<^verbatim>\<open>events\<close> is an array of objects, each with a
  string \<^verbatim>\<open>collection_handle\<close> and a \<^verbatim>\<open>wines\<close> array of objects, each with a
  number other than NaN as \<^verbatim>\<open>product_id\<close>; no two events with the same
  \<^verbatim>\<open>collection_handle\<close>, and within an event no two entries with the same
  \<^verbatim>\<open>product_id\<close>.
\<close>

fun is_object :: "jsval \<Rightarrow> bool" where
  "is_object (JObj fs) = True"
| "is_object v = False"

fun is_string :: "jsval \<Rightarrow> bool" where
  "is_string (JStr s) = True"
| "is_string v = False"

fun is_id :: "jsval \<Rightarrow> bool" where
  "is_id (JNum n) = (n \<noteq> NaN)"
| "is_id v = False"

definition event_handles :: "jsval list \<Rightarrow> jsval list" where
  "event_handles es = map (\<lambda>e. opt_prop e ''collection_handle'') es"

definition product_ids :: "jsval list \<Rightarrow> jsval list" where
  "product_ids ws = map (\<lambda>w. opt_prop w ''product_id'') ws"

definition wines_invariant :: "jsval \<Rightarrow> bool" where
  "wines_invariant v =
     (case v of
        JArr ws \<Rightarrow> list_all is_object ws \<and> list_all is_id (product_ids ws)
                   \<and> distinct (product_ids ws)
      | _ \<Rightarrow> False)"

definition store_invariant :: "jsval \<Rightarrow> bool" where
  "store_invariant store =
     (case opt_prop store ''events'' of
        JArr es \<Rightarrow> list_all is_object es \<and> list_all is_string (event_handles es)
                   \<and> distinct (event_handles es)
                   \<and> list_all (\<lambda>e. wines_invariant (opt_prop e ''wines'')) es
      | _ \<Rightarrow> False)"

section \<open>The remote data client\<close>

text \<open>
  \<^verbatim>\<open>shopifyGraphQL(query, variables)\<close> is called with three queries: the customer's
  e-mail (route.js q1), the customer's \<^verbatim>\<open>tasting.events\<close> metafield (part_000 q1,
  route.js q2) and the \<^verbatim>\<open>metafieldsSet\<close> mutation (part_000 q2, route.js q3). A call
  is recorded with its variables; the store of the mutation is recorded as the value
  handed to \<^verbatim>\<open>JSON.stringify\<close>.

  The remote service is a function from the call to what \<^verbatim>\<open>fetch\<close> gives back: a
  rejected promise, or a response with its \<^verbatim>\<open>ok\<close> flag and the value of
  \<^verbatim>\<open>r.json()\<close> (\<open>None\<close> when the body is not JSON and \<^verbatim>\<open>r.json()\<close> throws).
\<close>

datatype call =
    CustomerEmail string
  | CustomerMetafield string
  | MetafieldsSet string jsval

datatype fetch_result = Rejected | Replied bool "jsval option"

definition shopifyGraphQL :: "(call \<Rightarrow> fetch_result) \<Rightarrow> call \<Rightarrow> js_error + jsval" where
  "shopifyGraphQL remote c =
     (case remote c of
        Rejected \<Rightarrow> Inl NetworkError
      | Replied ok None \<Rightarrow> Inl SyntaxError
      | Replied ok (Some json) \<Rightarrow>
          ebind (get_prop json ''errors'') (\<lambda>errors.
            if \<not> ok \<or> truthy errors then Inl (RemoteError (or_else errors json))
            else get_prop json ''data''))"

section \<open>Responses\<close>

text \<open>
  A response: its status, the value handed to \<^verbatim>\<open>JSON.stringify\<close> for the body, and
  the Content-Type header when the handler sets one.
\<close>

record response =
  status :: nat
  body :: jsval
  content_type :: "string option"

text \<open>\<^verbatim>\<open>bad(resMsg, code)\<close> of route.js.\<close>

definition bad :: "string \<Rightarrow> nat \<Rightarrow> response" where
  "bad resMsg code =
     \<lparr>status = code,
      body = JObj [(''ok'', JBool False), (''error'', JStr resMsg)],
      content_type = Some ''application/json''\<rparr>"

text \<open>The error responses of part_000 are built in place, with no header.\<close>

definition proxy_error :: "string \<Rightarrow> nat \<Rightarrow> response" where
  "proxy_error msg code =
     \<lparr>status = code,
      body = JObj [(''ok'', JBool False), (''error'', JStr msg)],
      content_type = None\<rparr>"

definition ok_response :: response where
  "ok_response =
     \<lparr>status = 200, body = JObj [(''ok'', JBool True)], content_type = Some ''application/json''\<rparr>"

section \<open>The shared tail of the handlers: read, merge, write\<close>

definition empty_store :: jsval where
  "empty_store = JObj [(''events'', JArr [])]"

text \<open>
  part_000 lines 65-69, route.js lines 74-76: the stored document, or the empty store
  when the metafield has no value or \<^verbatim>\<open>JSON.parse\<close> throws, which it also does
  when its argument cannot be converted to a string.
\<close>

definition load_store :: "platform \<Rightarrow> jsval \<Rightarrow> jsval" where
  "load_store pf d =
     (let mf = opt_prop (opt_prop d ''customer'') ''metafield'';
          v = opt_prop mf ''value''
      in if truthy v
         then (case ToString pf v of
                 Inl e \<Rightarrow> empty_store
               | Inr t \<Rightarrow> (case JSON_parse pf (units t) of Some s \<Rightarrow> s | None \<Rightarrow> empty_store))
         else empty_store)"

fun map_err :: "('a \<Rightarrow> 'e + 'b) \<Rightarrow> 'a list \<Rightarrow> 'e + 'b list" where
  "map_err f [] = Inr []"
| "map_err f (x # xs) = ebind (f x) (\<lambda>y. ebind (map_err f xs) (\<lambda>ys. Inr (y # ys)))"

text \<open>
  part_000 lines 107-112, route.js lines 111-116: the response after the write came
  back. \<^verbatim>\<open>errs.map\<close> exists on arrays only; \<^verbatim>\<open>join\<close> turns \<^verbatim>\<open>null\<close> and
  \<^verbatim>\<open>undefined\<close> messages into the empty string and converts the others.
\<close>

definition save_result :: "platform \<Rightarrow> handler \<Rightarrow> jsval \<Rightarrow> js_error + response" where
  "save_result pf h d =
     (let errs = or_else (opt_prop (opt_prop d ''metafieldsSet'') ''userErrors'') (JArr [])
      in if truthy (opt_prop errs ''length'')
         then (case errs of
                 JArr xs \<Rightarrow>
                   ebind (map_err (\<lambda>e. get_prop e ''message'') xs) (\<lambda>ms.
                   ebind (sequence (map (\<lambda>m. if m = JUndefined \<or> m = JNull then Inr []
                                               else ToString pf m) ms)) (\<lambda>ss.
                     let msg = join ''; '' ss
                     in Inr (case h of Proxy \<Rightarrow> proxy_error msg 500 | Direct \<Rightarrow> bad msg 500)))
               | _ \<Rightarrow> Inl TypeError)
         else Inr ok_response)"

text \<open>part_000 line 54, route.js line 53: the template literal, its argument already a string.\<close>

definition customerGID :: "string \<Rightarrow> string" where
  "customerGID customer_id = ''gid://shopify/Customer/'' @ customer_id"

text \<open>
  part_000 lines 56-112, route.js lines 65-116. The result is what the handler returns
  or throws, with the remote calls it issued, in order.
\<close>

definition read_merge_write ::
  "platform \<Rightarrow> handler \<Rightarrow> (call \<Rightarrow> fetch_result) \<Rightarrow> string \<Rightarrow> string \<Rightarrow> jsval \<Rightarrow> jsval \<Rightarrow> jsval
     \<Rightarrow> (js_error + response) \<times> call list" where
  "read_merge_write pf h remote now gid event_handle event_name product =
     (let c1 = CustomerMetafield gid in
      case shopifyGraphQL remote c1 of
        Inl e \<Rightarrow> (Inl e, [c1])
      | Inr d \<Rightarrow>
          (case merge pf h now (load_store pf d) event_handle event_name product of
             Inl e \<Rightarrow> (Inl e, [c1])
           | Inr store' \<Rightarrow>
               (let c2 = MetafieldsSet gid store' in
                case shopifyGraphQL remote c2 of
                  Inl e \<Rightarrow> (Inl e, [c1, c2])
                | Inr d' \<Rightarrow> (save_result pf h d', [c1, c2]))))"

section \<open>The proxy handler (part_000)\<close>

record config =
  SHOP :: "string option"
  APP_SECRET :: "string option"

text \<open>\<^verbatim>\<open>Buffer.from(s)\<close>: the UTF-8 bytes of a string of code units below 256.\<close>

definition utf8 :: "string \<Rightarrow> nat list" where
  "utf8 s =
     concat (map (\<lambda>c. let n = of_char c :: nat
                       in if n < 128 then [n] else [192 + n div 64, 128 + n mod 64]) s)"

text \<open>
  The UTF-8 bytes of a text, as \<^verbatim>\<open>update(rawBody)\<close> takes them from a string: a
  pair of surrogates is one code point, a surrogate on its own is written as U+FFFD.
\<close>

definition encode_code_point :: "nat \<Rightarrow> nat list" where
  "encode_code_point c =
     (if c < 128 then [c]
      else if c < 2048 then [192 + c div 64, 128 + c mod 64]
      else if c < 65536 then [224 + c div 4096, 128 + c div 64 mod 64, 128 + c mod 64]
      else [240 + c div 262144, 128 + c div 4096 mod 64, 128 + c div 64 mod 64, 128 + c mod 64])"

fun utf8_encode :: "utf16 \<Rightarrow> nat list" where
  "utf8_encode [] = []"
| "utf8_encode [u] = encode_code_point (if 55296 \<le> u \<and> u < 57344 then 65533 else u)"
| "utf8_encode (u # v # us) =
     (if 55296 \<le> u \<and> u < 56320 \<and> 56320 \<le> v \<and> v < 57344
      then encode_code_point (65536 + (u - 55296) * 1024 + (v - 56320)) @ utf8_encode us
      else encode_code_point (if 55296 \<le> u \<and> u < 57344 then 65533 else u)
           @ utf8_encode (v # us))"

text \<open>
  \<^verbatim>\<open>request.text()\<close> decodes the bytes of the body as UTF-8. The decoder reads a
  sequence byte by byte: \<open>cp\<close> is the code point read so far, \<open>needed\<close> the number
  of continuation bytes still to come, \<open>lower\<close> and \<open>upper\<close> the range allowed for
  the next one. A byte that cannot start a sequence is replaced by U+FFFD; a sequence
  that is cut short, by another byte or by the end of the body, is replaced by one
  U+FFFD, and the byte that cut it short is read again as the start of a sequence. A
  code point above FFFF becomes a pair of surrogates. A byte order mark at the start of
  the body is dropped.
\<close>

definition code_units :: "nat \<Rightarrow> utf16" where
  "code_units c =
     (if c < 65536 then [c]
      else [55296 + (c - 65536) div 1024, 56320 + (c - 65536) mod 1024])"

function utf8_decode_from :: "nat \<Rightarrow> nat \<Rightarrow> nat \<Rightarrow> nat \<Rightarrow> nat list \<Rightarrow> utf16" where
  "utf8_decode_from cp needed lower upper [] = (if needed = 0 then [] else [65533])"
| "utf8_decode_from cp needed lower upper (b # bs) =
     (if needed = 0 then
        (if b < 128 then b # utf8_decode_from 0 0 128 191 bs
         else if 194 \<le> b \<and> b \<le> 223 then utf8_decode_from (b mod 32) 1 128 191 bs
         else if 224 \<le> b \<and> b \<le> 239
           then utf8_decode_from (b mod 16) 2
                  (if b = 224 then 160 else 128) (if b = 237 then 159 else 191) bs
         else if 240 \<le> b \<and> b \<le> 244
           then utf8_decode_from (b mod 8) 3
                  (if b = 240 then 144 else 128) (if b = 244 then 143 else 191) bs
         else 65533 # utf8_decode_from 0 0 128 191 bs)
      else if b < lower \<or> upper < b then 65533 # utf8_decode_from 0 0 128 191 (b # bs)
      else if needed = 1
        then code_units (64 * cp + b mod 64) @ utf8_decode_from 0 0 128 191 bs
      else utf8_decode_from (64 * cp + b mod 64) (needed - 1) 128 191 bs)"
  by pat_completeness auto

termination
  by (relation "measure (\<lambda>(cp, needed, lower, upper, bs).
        2 * length bs + (if needed = 0 then 0 else 1))") auto

definition utf8_decode :: "nat list \<Rightarrow> utf16" where
  "utf8_decode bytes =
     utf8_decode_from 0 0 128 191 (if take 3 bytes = [239, 187, 191] then drop 3 bytes else bytes)"

text \<open>\<^verbatim>\<open>crypto.timingSafeEqual\<close> throws on buffers of different lengths.\<close>

definition timingSafeEqual :: "nat list \<Rightarrow> nat list \<Rightarrow> js_error + bool" where
  "timingSafeEqual a b = (if length a \<noteq> length b then Inl RangeError else Inr (a = b))"

text \<open>
  part_000 lines 8-17. The header is \<open>None\<close> when the request has none.
  \<^verbatim>\<open>createHmac\<close> throws a TypeError when the secret is not configured.
\<close>

definition verifyProxySignature ::
  "config \<Rightarrow> platform \<Rightarrow> string option \<Rightarrow> utf16 \<Rightarrow> js_error + bool" where
  "verifyProxySignature cfg pf header rawBody =
     (let sig = (case header of None \<Rightarrow> [] | Some s \<Rightarrow> s) in
      case APP_SECRET cfg of
        None \<Rightarrow> Inl TypeError
      | Some secret \<Rightarrow>
          (let digest = hmac_sha256_base64 pf secret (utf8_encode rawBody) in
           case timingSafeEqual (utf8 digest) (utf8 sig) of
             Inr b \<Rightarrow> Inr b
           | Inl e \<Rightarrow> Inr (digest = sig)))"

text \<open>
  A proxy request: the signature header, the query parameter, and the bytes of the
  body. \<open>raw\<close> is \<^verbatim>\<open>await request.text()\<close> (part_000 line 38).
\<close>

record proxy_request =
  signature_header :: "string option"
  logged_in_customer_id :: "string option"
  raw_bytes :: "nat list"

definition raw :: "proxy_request \<Rightarrow> utf16" where
  "raw request = utf8_decode (raw_bytes request)"

text \<open>part_000 lines 35-113.\<close>

definition POST_proxy ::
  "config \<Rightarrow> platform \<Rightarrow> (call \<Rightarrow> fetch_result) \<Rightarrow> string \<Rightarrow> proxy_request
     \<Rightarrow> (js_error + response) \<times> call list" where
  "POST_proxy cfg pf remote now request =
     (case verifyProxySignature cfg pf (signature_header request) (raw request) of
        Inl e \<Rightarrow> (Inl e, [])
      | Inr verified \<Rightarrow>
          if \<not> verified then (Inr (proxy_error ''Bad signature'' 401), [])
          else
          (case logged_in_customer_id request of
             None \<Rightarrow> (Inr (proxy_error ''Not logged in'' 401), [])
           | Some loggedInCustomerId \<Rightarrow>
               if loggedInCustomerId = [] then (Inr (proxy_error ''Not logged in'' 401), [])
               else
                 (let payload = (case JSON_parse pf (raw request) of Some v \<Rightarrow> v | None \<Rightarrow> JObj []);
                      fields = or_else payload (JObj []);
                      event_handle = opt_prop fields ''event_handle'';
                      event_name = opt_prop fields ''event_name'';
                      product = opt_prop fields ''product''
                  in if \<not> truthy event_handle \<or> \<not> truthy (opt_prop product ''product_id'')
                     then (Inr (proxy_error ''Missing event or product'' 400), [])
                     else read_merge_write pf Proxy remote now (customerGID loggedInCustomerId)
                            event_handle event_name product)))"

section \<open>The direct handler (route.js)\<close>

definition ALLOWED_ORIGINS :: "config \<Rightarrow> string set" where
  "ALLOWED_ORIGINS cfg =
     {''https://'' @ (case SHOP cfg of None \<Rightarrow> ''undefined'' | Some s \<Rightarrow> s),
      ''https://famelia.com'',
      ''https://www.famelia.com''}"

text \<open>
  route.js lines 60-63: \<open>True\<close> when the customer is verified. \<^verbatim>\<open>toLowerCase\<close>
  exists on strings only, and \<^verbatim>\<open>String(customer_email)\<close> can throw.
\<close>

definition email_verified :: "platform \<Rightarrow> jsval \<Rightarrow> jsval \<Rightarrow> js_error + bool" where
  "email_verified pf d customer_email =
     (let realEmail = opt_prop (opt_prop d ''customer'') ''email''
      in if \<not> truthy realEmail then Inr False
         else (case realEmail of
                 JStr s \<Rightarrow>
                   ebind (ToString pf customer_email) (\<lambda>t.
                     Inr (toLowerCase pf s = toLowerCase pf t))
               | _ \<Rightarrow> Inl TypeError))"

record direct_request =
  origin_header :: "string option"
  json_body :: "jsval option"

text \<open>
  route.js lines 36-117. \<open>json_body\<close> is the value of \<^verbatim>\<open>request.json()\<close>, \<open>None\<close>
  when it throws.
\<close>

definition POST_direct ::
  "config \<Rightarrow> platform \<Rightarrow> (call \<Rightarrow> fetch_result) \<Rightarrow> string \<Rightarrow> direct_request
     \<Rightarrow> (js_error + response) \<times> call list" where
  "POST_direct cfg pf remote now request =
     (case origin_header request of
        None \<Rightarrow> (Inr (bad ''Origin not allowed'' 401), [])
      | Some origin \<Rightarrow>
          if origin \<notin> ALLOWED_ORIGINS cfg then (Inr (bad ''Origin not allowed'' 401), [])
          else
            (case json_body request of
               None \<Rightarrow> (Inr (bad ''Invalid JSON'' 400), [])
             | Some b \<Rightarrow>
                 (let fields = or_else b (JObj []);
                      shop = opt_prop fields ''shop'';
                      customer_id = opt_prop fields ''customer_id'';
                      customer_email = opt_prop fields ''customer_email'';
                      event_handle = opt_prop fields ''event_handle'';
                      event_name = opt_prop fields ''event_name'';
                      product = opt_prop fields ''product''
                  in if \<not> truthy shop \<or> \<not> truthy customer_id \<or> \<not> truthy customer_email
                        \<or> \<not> truthy event_handle \<or> \<not> truthy (opt_prop product ''product_id'')
                     then (Inr (bad ''Missing required fields'' 400), [])
                     else
                       (case ToString pf customer_id of
                          Inl e \<Rightarrow> (Inl e, [])
                        | Inr id_text \<Rightarrow>
                        let gid = customerGID id_text;
                            c1 = CustomerEmail gid
                        in case shopifyGraphQL remote c1 of
                             Inl e \<Rightarrow> (Inl e, [c1])
                           | Inr d1 \<Rightarrow>
                               (case email_verified pf d1 customer_email of
                                  Inl e \<Rightarrow> (Inl e, [c1])
                                | Inr verified \<Rightarrow>
                                    if \<not> verified
                                    then (Inr (bad ''Customer verification failed'' 401), [c1])
                                    else
                                      (case read_merge_write pf Direct remote now gid
                                              event_handle event_name product of
                                         (r, cs) \<Rightarrow> (r, c1 # cs)))))))"

section \<open>A concrete platform and concrete requests\<close>

text \<open>
  The properties below hold for every platform. To evaluate the handlers on concrete
  requests, the platform functions are fixed here on the arguments that occur:
  decimal digit strings for \<^verbatim>\<open>Number(s)\<close> (the empty string gives 0, any other
  string NaN), non-negative integers for \<^verbatim>\<open>String(n)\<close> (other finite numbers do not occur), ASCII letters for
  \<^verbatim>\<open>toLowerCase\<close>, and the texts listed in \<open>sample_JSON_parse\<close> for
  \<^verbatim>\<open>JSON.parse\<close> (every other text used below is not JSON). The digest is a
  stand-in that tells any two messages apart: the handlers only compare its results.
\<close>

fun decimal :: "string \<Rightarrow> nat \<Rightarrow> nat option" where
  "decimal [] acc = Some acc"
| "decimal (c # cs) acc =
     (let n = of_char c :: nat
      in if 48 \<le> n \<and> n \<le> 57 then decimal cs (10 * acc + (n - 48)) else None)"

definition sample_StringToNumber :: "string \<Rightarrow> jsnum" where
  "sample_StringToNumber s =
     (if s = [] then Fin 0
      else case decimal s 0 of Some n \<Rightarrow> Fin (of_nat n) | None \<Rightarrow> NaN)"

fun show_nat :: "nat \<Rightarrow> string" where
  "show_nat n =
     (if n < 10 then [char_of (48 + n)] else show_nat (n div 10) @ [char_of (48 + n mod 10)])"

definition sample_NumberToString :: "jsnum \<Rightarrow> string" where
  "sample_NumberToString n =
     (case n of
        NaN \<Rightarrow> ''NaN''
      | PosInf \<Rightarrow> ''Infinity''
      | NegInf \<Rightarrow> ''-Infinity''
      | Fin q \<Rightarrow> (if 0 \<le> q \<and> q = of_int \<lfloor>q\<rfloor> then show_nat (nat \<lfloor>q\<rfloor>) else ''NaN''))"

definition sample_toLowerCase :: "string \<Rightarrow> string" where
  "sample_toLowerCase s =
     map (\<lambda>c. case map_of (zip ''ABCDEFGHIJKLMNOPQRSTUVWXYZ'' ''abcdefghijklmnopqrstuvwxyz'') c of
                 Some d \<Rightarrow> d | None \<Rightarrow> c) s"

definition sample_hmac :: "string \<Rightarrow> nat list \<Rightarrow> string" where
  "sample_hmac key bytes = ''mac('' @ key @ '','' @ map char_of bytes @ '')''"

text \<open>The request bodies used below, and what \<^verbatim>\<open>JSON.parse\<close> makes of them.\<close>

definition numeric_id_text :: string where
  \<open>numeric_id_text =
     ''{"event_handle":"spring-2024","product":{"product_id":101,"note":"nice"}}''\<close>

definition numeric_id_product :: jsval where
  "numeric_id_product = JObj [(''product_id'', JNum (Fin 101)), (''note'', JStr ''nice'')]"

definition string_id_text :: string where
  \<open>string_id_text =
     ''{"event_handle":"spring-2024","product":{"product_id":"101","note":"nicer"}}''\<close>

definition string_id_product :: jsval where
  "string_id_product = JObj [(''product_id'', JStr ''101''), (''note'', JStr ''nicer'')]"

text \<open>The body \<open>numeric_id_text\<close> with one byte changed: product 107 for product 101.\<close>

definition changed_id_text :: string where
  \<open>changed_id_text =
     ''{"event_handle":"spring-2024","product":{"product_id":107,"note":"nice"}}''\<close>

definition changed_id_product :: jsval where
  "changed_id_product = JObj [(''product_id'', JNum (Fin 107)), (''note'', JStr ''nice'')]"

text \<open>
  The text of the stored document after \<open>numeric_id_product\<close> was submitted for the
  event \<^verbatim>\<open>spring-2024\<close>, and its value.
\<close>

definition stored_spring_text :: string where
  \<open>stored_spring_text =
     ''{"events":[{"id":"spring-2024","name":"spring-2024","date":"2024-03-09","collection_handle":"spring-2024","wines":[{"product_id":101,"handle":"","title":"","rating":null,"note":"nice","updated_at":"2024-03-09T10:15:30.000Z"}]}]}''\<close>

definition stored_spring_value :: jsval where
  "stored_spring_value =
     JObj [(''events'', JArr
       [JObj [(''id'', JStr ''spring-2024''), (''name'', JStr ''spring-2024''),
              (''date'', JStr ''2024-03-09''), (''collection_handle'', JStr ''spring-2024''),
              (''wines'', JArr
                [JObj [(''product_id'', JNum (Fin 101)), (''handle'', JStr []),
                       (''title'', JStr []), (''rating'', JNull), (''note'', JStr ''nice''),
                       (''updated_at'', JStr ''2024-03-09T10:15:30.000Z'')]])]])]"

definition sample_JSON_parse :: "utf16 \<Rightarrow> jsval option" where
  \<open>sample_JSON_parse t =
     (if t = units ''{}'' then Some (JObj [])
      else if t = units ''{"events":[]}'' then Some (JObj [(''events'', JArr [])])
      else if t = units numeric_id_text
        then Some (JObj [(''event_handle'', JStr ''spring-2024''), (''product'', numeric_id_product)])
      else if t = units string_id_text
        then Some (JObj [(''event_handle'', JStr ''spring-2024''), (''product'', string_id_product)])
      else if t = units changed_id_text
        then Some (JObj [(''event_handle'', JStr ''spring-2024''), (''product'', changed_id_product)])
      else if t = units stored_spring_text then Some stored_spring_value
      else None)\<close>

definition sample_platform :: platform where
  "sample_platform =
     \<lparr>hmac_sha256_base64 = sample_hmac,
      StringToNumber = sample_StringToNumber,
      NumberToString = sample_NumberToString,
      toLowerCase = sample_toLowerCase,
      JSON_parse = sample_JSON_parse\<rparr>"

definition sample_config :: config where
  "sample_config = \<lparr>SHOP = Some ''famelia-wine.myshopify.com'', APP_SECRET = Some ''s3cret''\<rparr>"

definition sample_now :: string where
  "sample_now = ''2024-03-09T10:15:30.000Z''"

text \<open>
  A remote service that answers every call: the customer's e-mail is
  \<^verbatim>\<open>Ann@Example.com\<close>, the metafield holds the given text (no metafield for
  \<open>None\<close>), and a write reports no user errors.
\<close>

definition answering_remote :: "string option \<Rightarrow> call \<Rightarrow> fetch_result" where
  "answering_remote stored_text c =
     (case c of
        CustomerEmail gid \<Rightarrow>
          Replied True (Some (JObj [(''data'', JObj [(''customer'',
            JObj [(''id'', JStr gid), (''email'', JStr ''Ann@Example.com'')])])]))
      | CustomerMetafield gid \<Rightarrow>
          Replied True (Some (JObj [(''data'', JObj [(''customer'',
            JObj [(''metafield'',
              (case stored_text of
                 None \<Rightarrow> JNull
               | Some t \<Rightarrow>
                   JObj [(''id'', JStr ''gid://shopify/Metafield/1''), (''type'', JStr ''json''),
                         (''value'', JStr t)]))])])]))
      | MetafieldsSet gid store \<Rightarrow>
          Replied True (Some (JObj [(''data'', JObj [(''metafieldsSet'',
            JObj [(''userErrors'', JArr [])])])])))"

text \<open>A remote service that answers every call with a non-success status.\<close>

definition refusing_remote :: "call \<Rightarrow> fetch_result" where
  "refusing_remote c = Replied False (Some (JObj [(''errors'', JStr ''Not Found'')]))"

text \<open>
  A remote service that answers the reads in the same way and reports two user errors
  for a write.
\<close>

definition complaining_remote :: "call \<Rightarrow> fetch_result" where
  "complaining_remote c =
     (case c of
        MetafieldsSet gid store \<Rightarrow>
          Replied True (Some (JObj [(''data'', JObj [(''metafieldsSet'',
            JObj [(''userErrors'',
              JArr [JObj [(''field'', JNull), (''message'', JStr ''Value is too long'')],
                    JObj [(''field'', JNull), (''message'', JStr ''Owner is invalid'')]])])])]))
      | _ \<Rightarrow> answering_remote None c)"

text \<open>
  A proxy request whose body is the given ASCII text, signed with the secret of
  \<open>sample_config\<close>, and one with the given bytes and the given signature.
\<close>

definition proxy_submission :: "string \<Rightarrow> proxy_request" where
  "proxy_submission body_text =
     \<lparr>signature_header = Some (sample_hmac ''s3cret'' (units body_text)),
      logged_in_customer_id = Some ''7'',
      raw_bytes = units body_text\<rparr>"

definition signed_request :: "string \<Rightarrow> nat list \<Rightarrow> proxy_request" where
  "signed_request signature bytes =
     \<lparr>signature_header = Some signature,
      logged_in_customer_id = Some ''7'',
      raw_bytes = bytes\<rparr>"

text \<open>
  Two bodies of the same length that differ in one byte only: the bytes of
  \<open>numeric_id_text\<close> followed by EF BF BD, which is the character U+FFFD in UTF-8,
  and followed by F1 BF BD, which is the start of a sequence of four bytes.
\<close>

definition body_with_FFFD :: "nat list" where
  "body_with_FFFD = units numeric_id_text @ [239, 191, 189]"

definition body_cut_short :: "nat list" where
  "body_cut_short = units numeric_id_text @ [241, 191, 189]"

definition direct_submission :: "string \<Rightarrow> string \<Rightarrow> jsval \<Rightarrow> direct_request" where
  "direct_submission origin email product =
     \<lparr>origin_header = Some origin,
      json_body = Some (JObj
        [(''shop'', JStr ''famelia-wine.myshopify.com''),
         (''customer_id'', JStr ''7''),
         (''customer_email'', JStr email),
         (''event_handle'', JStr ''spring-2024''),
         (''product'', product)])\<rparr>"

text \<open>Stored documents: an event, a wine entry, and the stores used below.\<close>

definition tasting_event :: "string \<Rightarrow> string \<Rightarrow> string \<Rightarrow> jsval list \<Rightarrow> jsval" where
  "tasting_event handle name date wines =
     JObj [(''id'', JStr handle), (''name'', JStr name), (''date'', JStr date),
           (''collection_handle'', JStr handle), (''wines'', JArr wines)]"

definition wine_entry :: "rat \<Rightarrow> string \<Rightarrow> string \<Rightarrow> jsval" where
  "wine_entry product_id note updated_at =
     JObj [(''product_id'', JNum (Fin product_id)), (''handle'', JStr []), (''title'', JStr []),
           (''rating'', JNull), (''note'', JStr note), (''updated_at'', JStr updated_at)]"

definition spring_entry :: "string \<Rightarrow> jsval" where
  "spring_entry note = wine_entry 101 note sample_now"

definition spring_event :: "jsval list \<Rightarrow> jsval" where
  "spring_event wines = tasting_event ''spring-2024'' ''spring-2024'' ''2024-03-09'' wines"

definition autumn_event :: jsval where
  "autumn_event =
     tasting_event ''autumn-2023'' ''Autumn'' ''2023-10-01''
       [wine_entry 55 ''dry'' ''2023-10-01T18:00:00.000Z'']"

definition spring_store :: "jsval list \<Rightarrow> jsval" where
  "spring_store wines = JObj [(''events'', JArr [spring_event wines])]"

definition long_note :: string where
  "long_note = replicate 2001 (CHR ''x'')"

definition long_note_product :: jsval where
  "long_note_product =
     JObj [(''product_id'', JStr ''101''), (''handle'', JStr ''merlot''),
           (''rating'', JStr ''5''), (''note'', JStr long_note)]"

section \<open>Facts about the JavaScript layer\<close>

lemma ebind_Inl [simp]: "ebind (Inl e) f = Inl e"
  by (simp add: ebind_def)

lemma ebind_Inr [simp]: "ebind (Inr x) f = f x"
  by (simp add: ebind_def)

lemma ebind_eq_Inr: "(ebind m f = Inr y) = (\<exists>x. m = Inr x \<and> f x = Inr y)"
  by (cases m) simp_all

text \<open>\<open>findIndex\<close> returns no index exactly when the callback says no on every element.\<close>

lemma findIndex_None:
  "findIndex p xs = Inr None \<longleftrightarrow> (\<forall>x\<in>set xs. p x = Inr False)"
proof (induction xs)
  case Nil
  show ?case by simp
next
  case (Cons x xs)
  show ?case
  proof (cases "p x")
    case (Inl e)
    then show ?thesis by simp
  next
    case (Inr b)
    show ?thesis
    proof (cases b)
      case True
      with Inr show ?thesis by simp
    next
      case False
      with Inr Cons show ?thesis
        by (cases "findIndex p xs") (auto simp: ebind_eq_Inr)
    qed
  qed
qed

text \<open>It returns the first index at which the callback says yes.\<close>

lemma findIndex_Some:
  "findIndex p xs = Inr (Some i) \<longleftrightarrow>
     (i < length xs \<and> p (xs ! i) = Inr True \<and> (\<forall>j<i. p (xs ! j) = Inr False))"
proof (induction xs arbitrary: i)
  case Nil
  show ?case by simp
next
  case (Cons x xs)
  show ?case
  proof (cases "p x")
    case (Inl e)
    then show ?thesis by (cases i) auto
  next
    case (Inr b)
    show ?thesis
    proof (cases b)
      case True
      with Inr show ?thesis by (cases i) auto
    next
      case False
      show ?thesis
      proof (cases i)
        case 0
        with Inr False show ?thesis by (auto simp: ebind_eq_Inr)
      next
        case (Suc k)
        have "findIndex p (x # xs) = Inr (Some (Suc k)) \<longleftrightarrow> findIndex p xs = Inr (Some k)"
          using Inr False by (auto simp: ebind_eq_Inr)
        also have "\<dots> \<longleftrightarrow> (k < length xs \<and> p (xs ! k) = Inr True \<and> (\<forall>j<k. p (xs ! j) = Inr False))"
          by (rule Cons.IH)
        also have "\<dots> \<longleftrightarrow> (Suc k < length (x # xs) \<and> p ((x # xs) ! Suc k) = Inr True
                       \<and> (\<forall>j<Suc k. p ((x # xs) ! j) = Inr False))"
          using Inr False by (auto simp: less_Suc_eq_0_disj)
        finally show ?thesis using Suc by simp
      qed
    qed
  qed
qed

lemma sequence_map_Inr: "sequence (map Inr xs) = Inr xs"
  by (induction xs) simp_all

lemma map_of_upd_field: "map_of (upd_field k v fs) = (map_of fs)(k \<mapsto> v)"
  by (induction fs) (auto simp: fun_eq_iff)

lemma upd_field_same: "map_of fs k = Some v \<Longrightarrow> upd_field k v fs = fs"
  by (induction fs) (auto split: if_splits)

lemma get_prop_JArr_obj:
  "get_prop v k = Inr (JArr xs) \<Longrightarrow> k \<noteq> ''length'' \<Longrightarrow> \<exists>fs. v = JObj fs \<and> map_of fs k = Some (JArr xs)"
  by (cases v) (auto simp: get_prop_def split: option.splits if_splits)

lemma event_matches_iff:
  "event_matches eh e = Inr b \<longleftrightarrow>
     (e \<noteq> JUndefined \<and> e \<noteq> JNull \<and> b = strict_eq (opt_prop e ''collection_handle'') eh)"
  by (auto simp: event_matches_def get_prop_def)

lemma matched_event_truthy:
  assumes "event_matches event_handle e = Inr True" and "truthy event_handle"
  shows "truthy e"
  using assms by (cases e; cases event_handle) (auto simp: event_matches_iff split: if_splits)

section \<open>The merge\<close>

subsection \<open>The three ways through the merge\<close>

lemma merge_not_found:
  assumes ev: "get_prop store ''events'' = Inr (JArr es)"
    and nf: "findIndex (event_matches event_handle) es = Inr None"
  shows "merge pf h now store event_handle event_name product =
     ebind (make_entry pf now product) (\<lambda>entry.
       Inr (set_prop store ''events''
         (JArr (es @ [JObj
            [(''id'', event_handle),
             (''name'', or_else event_name event_handle),
             (''date'', JStr (take 10 now)),
             (''collection_handle'', event_handle),
             (''wines'', JArr [entry])]]))))"
  using ev nf by (simp add: merge_def new_event_def get_prop_def)

lemma merge_found_falsy:
  assumes ev: "get_prop store ''events'' = Inr (JArr es)"
    and f: "findIndex (event_matches event_handle) es = Inr (Some i)"
    and t: "\<not> truthy (es ! i)"
  shows "merge pf h now store event_handle event_name product =
     ebind (make_entry pf now product) (\<lambda>entry.
       Inr (set_prop store ''events''
         (JArr (es @ [JObj
            [(''id'', event_handle),
             (''name'', or_else event_name event_handle),
             (''date'', JStr (take 10 now)),
             (''collection_handle'', event_handle),
             (''wines'', JArr [entry])]]))))"
  using ev f t by (simp add: merge_def new_event_def get_prop_def)

lemma merge_found:
  assumes ev: "get_prop store ''events'' = Inr (JArr es)"
    and f: "findIndex (event_matches event_handle) es = Inr (Some i)"
    and t: "truthy (es ! i)"
  shows "merge pf h now store event_handle event_name product =
     ebind (get_prop (es ! i) ''wines'') (\<lambda>wines.
       case wines of
         JArr ws \<Rightarrow>
           ebind (findIndex (wine_matches pf h product) ws) (\<lambda>idx.
           ebind (make_entry pf now product) (\<lambda>entry.
             Inr (set_prop store ''events''
               (JArr (es[i := set_prop (es ! i) ''wines''
                  (JArr (case idx of None \<Rightarrow> ws @ [entry] | Some j \<Rightarrow> ws[j := entry]))])))))
       | _ \<Rightarrow> Inl TypeError)"
  using ev f t by (simp add: merge_def Let_def)

text \<open>A merge that returns has read an array of events from an object.\<close>

lemma merge_events_array:
  assumes "merge pf h now store event_handle event_name product = Inr store'"
  obtains fs es found where "store = JObj fs" "map_of fs ''events'' = Some (JArr es)"
    "findIndex (event_matches event_handle) es = Inr found"
proof -
  from assms obtain events where g: "get_prop store ''events'' = Inr events"
    by (auto simp: merge_def ebind_eq_Inr)
  with assms obtain es where e: "events = JArr es"
    by (cases events) (auto simp: merge_def)
  from g e obtain fs where s: "store = JObj fs" "map_of fs ''events'' = Some (JArr es)"
    using get_prop_JArr_obj by fastforce
  from assms g e obtain found where "findIndex (event_matches event_handle) es = Inr found"
    by (auto simp: merge_def ebind_eq_Inr)
  with s show thesis by (rule that)
qed

text \<open>What a merge into an existing event returns.\<close>

lemma merge_found_result:
  assumes ev: "get_prop store ''events'' = Inr (JArr es)"
    and f: "findIndex (event_matches event_handle) es = Inr (Some i)"
    and t: "truthy (es ! i)"
    and m: "merge pf h now store event_handle event_name product = Inr store'"
  obtains efs ws idx entry where
    "es ! i = JObj efs" "map_of efs ''wines'' = Some (JArr ws)"
    "findIndex (wine_matches pf h product) ws = Inr idx"
    "make_entry pf now product = Inr entry"
    "store' = set_prop store ''events''
       (JArr (es[i := JObj (upd_field ''wines''
          (JArr (case idx of None \<Rightarrow> ws @ [entry] | Some j \<Rightarrow> ws[j := entry])) efs)]))"
proof -
  note mf = merge_found[OF ev f t, of pf h now event_name product]
  from m mf obtain wines where w: "get_prop (es ! i) ''wines'' = Inr wines"
    by (auto simp: ebind_eq_Inr)
  with m mf obtain ws where ws: "wines = JArr ws"
    by (cases wines) auto
  from w ws obtain efs where efs: "es ! i = JObj efs" "map_of efs ''wines'' = Some (JArr ws)"
    using get_prop_JArr_obj by fastforce
  from m mf w ws obtain idx entry where
    r: "findIndex (wine_matches pf h product) ws = Inr idx"
       "make_entry pf now product = Inr entry"
       "store' = set_prop store ''events''
         (JArr (es[i := set_prop (es ! i) ''wines''
           (JArr (case idx of None \<Rightarrow> ws @ [entry] | Some j \<Rightarrow> ws[j := entry]))]))"
    by (auto simp: ebind_eq_Inr)
  show thesis
    using efs r by (intro that[of efs ws idx entry]) simp_all
qed

subsection \<open>The entry\<close>

lemma make_entry_Inr:
  assumes "make_entry pf now product = Inr entry"
  obtains n note' where
    "product \<noteq> JUndefined" "product \<noteq> JNull"
    "ToNumber pf (opt_prop product ''product_id'') = Inr n"
    "slice_0_2000 (or_else (opt_prop product ''note'') (JStr '''')) = Inr note'"
    "entry = JObj
       [(''product_id'', JNum n),
        (''handle'', or_else (opt_prop product ''handle'') (JStr '''')),
        (''title'', or_else (opt_prop product ''title'') (JStr '''')),
        (''rating'', (case opt_prop product ''rating'' of JNum n \<Rightarrow> JNum n | _ \<Rightarrow> JNull)),
        (''note'', note'),
        (''updated_at'', JStr now)]"
  using assms
  by (auto simp: make_entry_def get_prop_def ebind_eq_Inr split: if_splits)

lemma slice_note_string:
  "slice_0_2000 (or_else (JStr s) (JStr '''')) = Inr (JStr (take 2000 s))"
  by (simp add: or_else_def)

lemma slice_note_falsy:
  "\<not> truthy v \<Longrightarrow> slice_0_2000 (or_else v (JStr '''')) = Inr (JStr '''')"
  by (simp add: or_else_def)

lemma make_entry_fields:
  assumes "make_entry pf now product = Inr entry"
  shows "(\<exists>n. ToNumber pf (opt_prop product ''product_id'') = Inr n
            \<and> opt_prop entry ''product_id'' = JNum n)
    \<and> opt_prop entry ''handle''
        = (if truthy (opt_prop product ''handle'') then opt_prop product ''handle'' else JStr '''')
    \<and> opt_prop entry ''title''
        = (if truthy (opt_prop product ''title'') then opt_prop product ''title'' else JStr '''')
    \<and> opt_prop entry ''rating''
        = (case opt_prop product ''rating'' of JNum n \<Rightarrow> JNum n | _ \<Rightarrow> JNull)
    \<and> (\<forall>s. opt_prop product ''note'' = JStr s \<longrightarrow>
          opt_prop entry ''note'' = JStr (take 2000 s)
          \<and> length (take 2000 s) \<le> 2000
          \<and> (2000 < length s \<longrightarrow> length (take 2000 s) = 2000)
          \<and> (length s \<le> 2000 \<longrightarrow> take 2000 s = s))
    \<and> (\<not> truthy (opt_prop product ''note'') \<longrightarrow> opt_prop entry ''note'' = JStr '''')
    \<and> opt_prop entry ''updated_at'' = JStr now"
proof -
  from assms obtain num note' where
    num: "ToNumber pf (opt_prop product ''product_id'') = Inr num"
    and n: "slice_0_2000 (or_else (opt_prop product ''note'') (JStr '''')) = Inr note'"
    and e: "entry = JObj
       [(''product_id'', JNum num),
        (''handle'', or_else (opt_prop product ''handle'') (JStr '''')),
        (''title'', or_else (opt_prop product ''title'') (JStr '''')),
        (''rating'', (case opt_prop product ''rating'' of JNum n \<Rightarrow> JNum n | _ \<Rightarrow> JNull)),
        (''note'', note'),
        (''updated_at'', JStr now)]"
    by (rule make_entry_Inr)
  have a: "\<forall>s. opt_prop product ''note'' = JStr s \<longrightarrow> note' = JStr (take 2000 s)"
    using n by (auto simp: slice_note_string)
  have b: "\<not> truthy (opt_prop product ''note'') \<longrightarrow> note' = JStr ''''"
    using n by (auto simp: slice_note_falsy)
  show ?thesis
    using a b num by (simp add: e or_else_def)
qed

subsection \<open>Evaluation on the concrete platform\<close>

lemmas sample_defs =
  sample_platform_def sample_config_def sample_now_def sample_hmac_def
  units_def complaining_remote_def signed_request_def
  sample_StringToNumber_def sample_NumberToString_def sample_toLowerCase_def
  sample_JSON_parse_def numeric_id_text_def numeric_id_product_def
  string_id_text_def string_id_product_def changed_id_text_def changed_id_product_def
  stored_spring_text_def stored_spring_value_def
  answering_remote_def refusing_remote_def proxy_submission_def direct_submission_def
  spring_entry_def spring_store_def empty_store_def tasting_event_def wine_entry_def
  spring_event_def autumn_event_def

lemmas handler_defs =
  POST_proxy_def POST_direct_def read_merge_write_def customerGID_def
  verifyProxySignature_def timingSafeEqual_def utf8_def
  raw_def utf8_decode_def code_units_def encode_code_point_def
  shopifyGraphQL_def load_store_def save_result_def email_verified_def
  ALLOWED_ORIGINS_def bad_def proxy_error_def ok_response_def

lemmas merge_defs =
  merge_def event_matches_def wine_matches_def make_entry_def new_event_def
  comparand_def get_prop_def or_else_def

lemma make_entry_numeric:
  "make_entry sample_platform sample_now numeric_id_product = Inr (spring_entry ''nice'')"
  by (simp add: merge_defs sample_defs)

subsection \<open>A submission for a new event\<close>

text \<open>
  Claim C4. When the store holds no event whose \<^verbatim>\<open>collection_handle\<close> equals the
  submission's \<^verbatim>\<open>event_handle\<close>, the merge appends exactly one event: its \<^verbatim>\<open>id\<close>
  and \<^verbatim>\<open>collection_handle\<close> are the event handle, its \<^verbatim>\<open>name\<close> is the supplied
  event name when there is one (a truthy value) and the event handle otherwise, its
  \<^verbatim>\<open>date\<close> is the first ten characters of the current instant in ISO form, and its
  wine list holds the new entry and nothing else. The events already stored stay as they
  are, in their order, and so does every other property of the store. This holds for
  both handlers.
\<close>

theorem merge_new_event:
  assumes "get_prop store ''events'' = Inr (JArr es)"
    and "\<forall>e\<in>set es. e \<noteq> JUndefined \<and> e \<noteq> JNull
           \<and> \<not> strict_eq (opt_prop e ''collection_handle'') event_handle"
    and "make_entry pf now product = Inr entry"
  shows "merge pf h now store event_handle event_name product =
     Inr (set_prop store ''events''
       (JArr (es @ [JObj
          [(''id'', event_handle),
           (''name'', if truthy event_name then event_name else event_handle),
           (''date'', JStr (take 10 now)),
           (''collection_handle'', event_handle),
           (''wines'', JArr [entry])]])))"
proof -
  have "event_matches event_handle e = Inr False" if "e \<in> set es" for e
    using assms(2) that by (simp add: event_matches_iff)
  then have "findIndex (event_matches event_handle) es = Inr None"
    by (simp add: findIndex_None)
  from merge_not_found[OF assms(1) this] assms(3) show ?thesis
    by (simp add: or_else_def)
qed

theorem merge_new_event_witness:
  "merge sample_platform Direct sample_now (JObj [(''events'', JArr [autumn_event])])
     (JStr ''spring-2024'') (JStr ''Spring'') numeric_id_product
   = Inr (JObj [(''events'', JArr
       [autumn_event,
        tasting_event ''spring-2024'' ''Spring'' ''2024-03-09'' [spring_entry ''nice'']])])"
proof -
  have h1: "get_prop (JObj [(''events'', JArr [autumn_event])]) ''events'' = Inr (JArr [autumn_event])"
    by (simp add: get_prop_def)
  have h2: "\<forall>e\<in>set [autumn_event]. e \<noteq> JUndefined \<and> e \<noteq> JNull
      \<and> \<not> strict_eq (opt_prop e ''collection_handle'') (JStr ''spring-2024'')"
    by (simp add: autumn_event_def tasting_event_def)
  show ?thesis
    using merge_new_event[OF h1 h2 make_entry_numeric, of Direct "JStr ''Spring''"]
    by (simp add: tasting_event_def sample_now_def)
qed

subsection \<open>A submission for an existing event\<close>

text \<open>
  Claim C10. When the store holds an event whose \<^verbatim>\<open>collection_handle\<close> equals the
  submission's (truthy) \<^verbatim>\<open>event_handle\<close>, a merge that returns has changed the first
  such event in its \<^verbatim>\<open>wines\<close> property only: its \<^verbatim>\<open>id\<close>, \<^verbatim>\<open>name\<close>,
  \<^verbatim>\<open>date\<close>, \<^verbatim>\<open>collection_handle\<close> and any other property are as before. The
  number of events is the same, every other event is unchanged, every other property of
  the store is unchanged, and the supplied event name plays no part: the merge returns
  the same store for any event name. This holds for both handlers.
\<close>

theorem merge_existing_event_frame:
  assumes ev: "get_prop store ''events'' = Inr (JArr es)"
    and ex: "\<exists>e\<in>set es. e \<noteq> JUndefined \<and> e \<noteq> JNull
               \<and> strict_eq (opt_prop e ''collection_handle'') event_handle"
    and th: "truthy event_handle"
    and m: "merge pf h now store event_handle event_name product = Inr store'"
  shows "\<exists>i es'. i < length es
      \<and> strict_eq (opt_prop (es ! i) ''collection_handle'') event_handle
      \<and> (\<forall>j<i. \<not> strict_eq (opt_prop (es ! j) ''collection_handle'') event_handle)
      \<and> get_prop store' ''events'' = Inr (JArr es')
      \<and> length es' = length es
      \<and> (\<forall>j<length es. j \<noteq> i \<longrightarrow> es' ! j = es ! j)
      \<and> (\<forall>k. k \<noteq> ''wines'' \<longrightarrow> opt_prop (es' ! i) k = opt_prop (es ! i) k)
      \<and> (\<forall>k. k \<noteq> ''events'' \<longrightarrow> opt_prop store' k = opt_prop store k)
      \<and> (\<forall>other_name. merge pf h now store event_handle other_name product = Inr store')"
proof -
  from m obtain fs es0 found where s: "store = JObj fs" "map_of fs ''events'' = Some (JArr es0)"
    and fi0: "findIndex (event_matches event_handle) es0 = Inr found"
    by (rule merge_events_array)
  from s ev have "es0 = es" by (simp add: get_prop_def)
  with fi0 have fi: "findIndex (event_matches event_handle) es = Inr found" by simp
  have "found \<noteq> None"
  proof
    assume "found = None"
    with fi have "\<forall>e\<in>set es. event_matches event_handle e = Inr False"
      by (simp add: findIndex_None)
    with ex show False by (auto simp: event_matches_iff)
  qed
  then obtain i where i: "findIndex (event_matches event_handle) es = Inr (Some i)"
    using fi by auto
  then have il: "i < length es"
    and hit: "event_matches event_handle (es ! i) = Inr True"
    and miss: "\<forall>j<i. event_matches event_handle (es ! j) = Inr False"
    by (simp_all add: findIndex_Some)
  have t: "truthy (es ! i)"
    using hit th by (rule matched_event_truthy)
  from ev i t m obtain efs ws idx entry where
    e: "es ! i = JObj efs"
    and st: "store' = set_prop store ''events''
       (JArr (es[i := JObj (upd_field ''wines''
          (JArr (case idx of None \<Rightarrow> ws @ [entry] | Some j \<Rightarrow> ws[j := entry])) efs)]))"
    by (rule merge_found_result)
  define es' where "es' = es[i := JObj (upd_field ''wines''
          (JArr (case idx of None \<Rightarrow> ws @ [entry] | Some j \<Rightarrow> ws[j := entry])) efs)]"
  have st': "store' = JObj (upd_field ''events'' (JArr es') fs)"
    using st s by (simp add: es'_def)
  have 1: "strict_eq (opt_prop (es ! i) ''collection_handle'') event_handle"
    using hit by (simp add: event_matches_iff)
  have 2: "\<forall>j<i. \<not> strict_eq (opt_prop (es ! j) ''collection_handle'') event_handle"
    using miss by (simp add: event_matches_iff)
  have 3: "get_prop store' ''events'' = Inr (JArr es')"
    by (simp add: st' get_prop_def map_of_upd_field)
  have 4: "length es' = length es" by (simp add: es'_def)
  have 5: "\<forall>j<length es. j \<noteq> i \<longrightarrow> es' ! j = es ! j" by (simp add: es'_def)
  have 6: "\<forall>k. k \<noteq> ''wines'' \<longrightarrow> opt_prop (es' ! i) k = opt_prop (es ! i) k"
    using il e by (simp add: es'_def map_of_upd_field)
  have 7: "\<forall>k. k \<noteq> ''events'' \<longrightarrow> opt_prop store' k = opt_prop store k"
    using s by (simp add: st' map_of_upd_field)
  have 8: "\<forall>other_name. merge pf h now store event_handle other_name product = Inr store'"
    using m by (simp add: merge_found[OF ev i t])
  from il 1 2 3 4 5 6 7 8 show ?thesis by blast
qed

lemma renamed_resubmission:
  "merge sample_platform Direct sample_now
     (JObj [(''events'', JArr [autumn_event, spring_event [spring_entry ''nice'']])])
     (JStr ''spring-2024'') (JStr ''Renamed'') string_id_product
   = Inr (JObj [(''events'', JArr [autumn_event, spring_event [spring_entry ''nicer'']])])"
  by (simp add: merge_defs sample_defs)

theorem merge_existing_event_frame_witness:
  "merge sample_platform Direct sample_now
     (JObj [(''events'', JArr [autumn_event, spring_event [spring_entry ''nice'']])])
     (JStr ''spring-2024'') (JStr ''Renamed'') string_id_product
   = Inr (JObj [(''events'', JArr [autumn_event, spring_event [spring_entry ''nicer'']])])
   \<and> (\<exists>i es'. i < length [autumn_event, spring_event [spring_entry ''nice'']]
      \<and> strict_eq (opt_prop ([autumn_event, spring_event [spring_entry ''nice'']] ! i) ''collection_handle'') (JStr ''spring-2024'')
      \<and> (\<forall>j<i. \<not> strict_eq (opt_prop ([autumn_event, spring_event [spring_entry ''nice'']] ! j) ''collection_handle'') (JStr ''spring-2024''))
      \<and> get_prop (JObj [(''events'', JArr [autumn_event, spring_event [spring_entry ''nicer'']])]) ''events'' = Inr (JArr es')
      \<and> length es' = length [autumn_event, spring_event [spring_entry ''nice'']]
      \<and> (\<forall>j<length [autumn_event, spring_event [spring_entry ''nice'']]. j \<noteq> i \<longrightarrow> es' ! j = [autumn_event, spring_event [spring_entry ''nice'']] ! j)
      \<and> (\<forall>k. k \<noteq> ''wines'' \<longrightarrow> opt_prop (es' ! i) k = opt_prop ([autumn_event, spring_event [spring_entry ''nice'']] ! i) k)
      \<and> (\<forall>k. k \<noteq> ''events'' \<longrightarrow> opt_prop (JObj [(''events'', JArr [autumn_event, spring_event [spring_entry ''nicer'']])]) k = opt_prop (JObj [(''events'', JArr [autumn_event, spring_event [spring_entry ''nice'']])]) k)
      \<and> (\<forall>other_name. merge sample_platform Direct sample_now (JObj [(''events'', JArr [autumn_event, spring_event [spring_entry ''nice'']])]) (JStr ''spring-2024'') other_name string_id_product = Inr (JObj [(''events'', JArr [autumn_event, spring_event [spring_entry ''nicer'']])])))"
proof -
  have h1: "get_prop (JObj [(''events'', JArr [autumn_event, spring_event [spring_entry ''nice'']])]) ''events''
      = Inr (JArr [autumn_event, spring_event [spring_entry ''nice'']])"
    by (simp add: get_prop_def)
  have h2: "\<exists>e\<in>set [autumn_event, spring_event [spring_entry ''nice'']]. e \<noteq> JUndefined \<and> e \<noteq> JNull
      \<and> strict_eq (opt_prop e ''collection_handle'') (JStr ''spring-2024'')"
    by (simp add: spring_event_def tasting_event_def)
  have h3: "truthy (JStr ''spring-2024'')" by simp
  show ?thesis
    by (rule conjI[OF renamed_resubmission
          merge_existing_event_frame[OF h1 h2 h3 renamed_resubmission]])
qed

subsection \<open>The entry that is written\<close>

text \<open>
  Claim C5. A merge that returns has written one entry into the wine list of one event
  of the returned store, and that entry is the entry literal of the submission:
  \<^verbatim>\<open>product_id\<close> is the number that \<^verbatim>\<open>Number(product.product_id)\<close> returns;
  \<^verbatim>\<open>handle\<close> and
  \<^verbatim>\<open>title\<close> are the supplied values, or the empty string when the value is absent
  (or falsy); \<^verbatim>\<open>rating\<close> is the supplied rating when it is a number and
  \<^verbatim>\<open>null\<close> otherwise; \<^verbatim>\<open>note\<close> is the first 2000 code units of a supplied
  string, which is the whole note when it has at most 2000 and has exactly 2000
  otherwise, and the empty string when the note is absent (or falsy);
  \<^verbatim>\<open>updated_at\<close> is the current instant. This holds for both handlers.
\<close>

theorem merge_writes_entry:
  assumes m: "merge pf h now store event_handle event_name product = Inr store'"
  shows "\<exists>entry es' i ws' j.
      make_entry pf now product = Inr entry
    \<and> opt_prop store' ''events'' = JArr es' \<and> i < length es'
    \<and> opt_prop (es' ! i) ''wines'' = JArr ws' \<and> j < length ws' \<and> ws' ! j = entry
    \<and> (\<exists>n. ToNumber pf (opt_prop product ''product_id'') = Inr n
            \<and> opt_prop entry ''product_id'' = JNum n)
    \<and> opt_prop entry ''handle''
        = (if truthy (opt_prop product ''handle'') then opt_prop product ''handle'' else JStr '''')
    \<and> opt_prop entry ''title''
        = (if truthy (opt_prop product ''title'') then opt_prop product ''title'' else JStr '''')
    \<and> opt_prop entry ''rating''
        = (case opt_prop product ''rating'' of JNum n \<Rightarrow> JNum n | _ \<Rightarrow> JNull)
    \<and> (\<forall>s. opt_prop product ''note'' = JStr s \<longrightarrow>
          opt_prop entry ''note'' = JStr (take 2000 s)
          \<and> length (take 2000 s) \<le> 2000
          \<and> (2000 < length s \<longrightarrow> length (take 2000 s) = 2000)
          \<and> (length s \<le> 2000 \<longrightarrow> take 2000 s = s))
    \<and> (\<not> truthy (opt_prop product ''note'') \<longrightarrow> opt_prop entry ''note'' = JStr '''')
    \<and> opt_prop entry ''updated_at'' = JStr now"
proof -
  from m obtain fs es found where s: "store = JObj fs" "map_of fs ''events'' = Some (JArr es)"
    and fi: "findIndex (event_matches event_handle) es = Inr found"
    by (rule merge_events_array)
  have ev: "get_prop store ''events'' = Inr (JArr es)"
    using s by (simp add: get_prop_def)
  have fresh: "\<exists>entry es' i ws' j. make_entry pf now product = Inr entry
    \<and> opt_prop store' ''events'' = JArr es' \<and> i < length es'
    \<and> opt_prop (es' ! i) ''wines'' = JArr ws' \<and> j < length ws' \<and> ws' ! j = entry"
    if new: "merge pf h now store event_handle event_name product =
     ebind (make_entry pf now product) (\<lambda>entry.
       Inr (set_prop store ''events''
         (JArr (es @ [JObj
            [(''id'', event_handle),
             (''name'', or_else event_name event_handle),
             (''date'', JStr (take 10 now)),
             (''collection_handle'', event_handle),
             (''wines'', JArr [entry])]]))))"
  proof -
    from m new obtain entry where e: "make_entry pf now product = Inr entry"
      and st: "store' = set_prop store ''events''
         (JArr (es @ [JObj
            [(''id'', event_handle),
             (''name'', or_else event_name event_handle),
             (''date'', JStr (take 10 now)),
             (''collection_handle'', event_handle),
             (''wines'', JArr [entry])]]))"
      by (auto simp: ebind_eq_Inr)
    show ?thesis
      apply (rule exI[of _ entry])
      apply (rule exI[of _ "es @ [JObj
            [(''id'', event_handle),
             (''name'', or_else event_name event_handle),
             (''date'', JStr (take 10 now)),
             (''collection_handle'', event_handle),
             (''wines'', JArr [entry])]]"])
      apply (rule exI[of _ "length es"])
      apply (rule exI[of _ "[entry]"])
      apply (rule exI[of _ 0])
      using e st s by (simp add: map_of_upd_field)
  qed
  have "\<exists>entry es' i ws' j. make_entry pf now product = Inr entry
    \<and> opt_prop store' ''events'' = JArr es' \<and> i < length es'
    \<and> opt_prop (es' ! i) ''wines'' = JArr ws' \<and> j < length ws' \<and> ws' ! j = entry"
  proof (cases found)
    case None
    with fi have "findIndex (event_matches event_handle) es = Inr None" by simp
    from merge_not_found[OF ev this] show ?thesis by (rule fresh)
  next
    case (Some i)
    with fi have f: "findIndex (event_matches event_handle) es = Inr (Some i)" by simp
    then have il: "i < length es" by (simp add: findIndex_Some)
    show ?thesis
    proof (cases "truthy (es ! i)")
      case False
      from merge_found_falsy[OF ev f False] show ?thesis by (rule fresh)
    next
      case True
      from ev f True m obtain efs ws idx entry where
        e: "es ! i = JObj efs"
        and wi: "findIndex (wine_matches pf h product) ws = Inr idx"
        and me: "make_entry pf now product = Inr entry"
        and st: "store' = set_prop store ''events''
           (JArr (es[i := JObj (upd_field ''wines''
              (JArr (case idx of None \<Rightarrow> ws @ [entry] | Some j \<Rightarrow> ws[j := entry])) efs)]))"
        by (rule merge_found_result)
      define ws' where "ws' = (case idx of None \<Rightarrow> ws @ [entry] | Some j \<Rightarrow> ws[j := entry])"
      define j where "j = (case idx of None \<Rightarrow> length ws | Some j \<Rightarrow> j)"
      have jl: "j < length ws' \<and> ws' ! j = entry"
      proof (cases idx)
        case None
        then show ?thesis by (simp add: ws'_def j_def)
      next
        case (Some k)
        with wi have "k < length ws" by (simp add: findIndex_Some)
        with Some show ?thesis by (simp add: ws'_def j_def)
      qed
      show ?thesis
        apply (rule exI[of _ entry])
        apply (rule exI[of _ "es[i := JObj (upd_field ''wines'' (JArr ws') efs)]"])
        apply (rule exI[of _ i])
        apply (rule exI[of _ ws'])
        apply (rule exI[of _ j])
        using me st s il jl by (simp add: map_of_upd_field ws'_def)
    qed
  qed
  then obtain entry es' i ws' j where
    r: "make_entry pf now product = Inr entry"
       "opt_prop store' ''events'' = JArr es'" "i < length es'"
       "opt_prop (es' ! i) ''wines'' = JArr ws'" "j < length ws'" "ws' ! j = entry"
    by blast
  from make_entry_fields[OF r(1)] r show ?thesis by blast
qed

lemma length_long_note: "length long_note = 2001"
  by (simp add: long_note_def)

lemma long_note_resubmission:
  "merge sample_platform Direct sample_now (spring_store [spring_entry ''nice''])
     (JStr ''spring-2024'') JUndefined long_note_product
   = Inr (spring_store
       [JObj [(''product_id'', JNum (Fin 101)), (''handle'', JStr ''merlot''), (''title'', JStr []),
              (''rating'', JNull), (''note'', JStr (replicate 2000 (CHR ''x''))),
              (''updated_at'', JStr sample_now)]])"
  by (simp add: merge_defs sample_defs long_note_product_def long_note_def)

theorem merge_writes_entry_witness:
  "merge sample_platform Direct sample_now (spring_store [spring_entry ''nice''])
     (JStr ''spring-2024'') JUndefined long_note_product
   = Inr (spring_store
       [JObj [(''product_id'', JNum (Fin 101)), (''handle'', JStr ''merlot''), (''title'', JStr []),
              (''rating'', JNull), (''note'', JStr (replicate 2000 (CHR ''x''))),
              (''updated_at'', JStr sample_now)]])
   \<and> (\<exists>entry. make_entry sample_platform sample_now long_note_product = Inr entry
        \<and> opt_prop entry ''product_id'' = JNum (Fin 101)
        \<and> opt_prop entry ''handle'' = JStr ''merlot''
        \<and> opt_prop entry ''title'' = JStr []
        \<and> opt_prop entry ''rating'' = JNull
        \<and> opt_prop entry ''note'' = JStr (take 2000 long_note)
        \<and> length (take 2000 long_note) = 2000
        \<and> opt_prop entry ''updated_at'' = JStr sample_now)"
proof -
  from merge_writes_entry[OF long_note_resubmission] obtain entry where
    e: "make_entry sample_platform sample_now long_note_product = Inr entry"
      "\<exists>n. ToNumber sample_platform (opt_prop long_note_product ''product_id'') = Inr n
            \<and> opt_prop entry ''product_id'' = JNum n"
      "opt_prop entry ''handle''
        = (if truthy (opt_prop long_note_product ''handle'')
           then opt_prop long_note_product ''handle'' else JStr '''')"
      "opt_prop entry ''title''
        = (if truthy (opt_prop long_note_product ''title'')
           then opt_prop long_note_product ''title'' else JStr '''')"
      "opt_prop entry ''rating''
        = (case opt_prop long_note_product ''rating'' of JNum n \<Rightarrow> JNum n | _ \<Rightarrow> JNull)"
      "\<forall>s. opt_prop long_note_product ''note'' = JStr s \<longrightarrow>
          opt_prop entry ''note'' = JStr (take 2000 s)
          \<and> length (take 2000 s) \<le> 2000
          \<and> (2000 < length s \<longrightarrow> length (take 2000 s) = 2000)
          \<and> (length s \<le> 2000 \<longrightarrow> take 2000 s = s)"
      "opt_prop entry ''updated_at'' = JStr sample_now"
    by blast
  have n: "opt_prop long_note_product ''note'' = JStr long_note"
    by (simp add: long_note_product_def)
  from e(6) n have "opt_prop entry ''note'' = JStr (take 2000 long_note)" by blast
  moreover have "length (take 2000 long_note) = 2000" by (simp add: length_long_note)
  moreover have "opt_prop entry ''product_id'' = JNum (Fin 101)"
    using e(2) by (auto simp: long_note_product_def sample_platform_def sample_StringToNumber_def)
  moreover have "opt_prop entry ''handle'' = JStr ''merlot''"
    "opt_prop entry ''title'' = JStr []" "opt_prop entry ''rating'' = JNull"
    using e(3,4,5) by (simp_all add: long_note_product_def)
  ultimately show ?thesis using long_note_resubmission e(1,7) by blast
qed

section \<open>The handlers\<close>

subsection \<open>The remote data client and the responses\<close>

lemma shopifyGraphQL_throws:
  assumes "remote c = Replied ok (Some json)" "json \<noteq> JUndefined" "json \<noteq> JNull"
    and "\<not> ok \<or> truthy (opt_prop json ''errors'')"
  shows "shopifyGraphQL remote c = Inl (RemoteError (or_else (opt_prop json ''errors'') json))"
  using assms by (auto simp: shopifyGraphQL_def get_prop_def)

lemma shopifyGraphQL_returns:
  assumes "remote c = Replied True (Some json)" "json \<noteq> JUndefined" "json \<noteq> JNull"
    and "\<not> truthy (opt_prop json ''errors'')"
  shows "shopifyGraphQL remote c = Inr (opt_prop json ''data'')"
  using assms by (auto simp: shopifyGraphQL_def get_prop_def)

lemma save_result_shape:
  assumes "save_result pf h d = Inr r"
  shows "r = ok_response
    \<or> (status r = 500 \<and> (\<exists>msg. body r = JObj [(''ok'', JBool False), (''error'', JStr msg)]))"
proof -
  define errs where "errs = or_else (opt_prop (opt_prop d ''metafieldsSet'') ''userErrors'') (JArr [])"
  show ?thesis
  proof (cases "truthy (opt_prop errs ''length'')")
    case False
    with assms show ?thesis by (simp add: save_result_def errs_def Let_def)
  next
    case True
    with assms obtain xs where x: "errs = JArr xs"
      by (cases errs) (auto simp: save_result_def errs_def[symmetric] Let_def)
    with assms True obtain msg where
      "r = (case h of Proxy \<Rightarrow> proxy_error msg 500 | Direct \<Rightarrow> bad msg 500)"
      by (auto simp: save_result_def errs_def[symmetric] Let_def ebind_eq_Inr)
    then show ?thesis
      by (cases h) (simp_all add: proxy_error_def bad_def)
  qed
qed

lemma rmw_cases:
  "read_merge_write pf h remote now gid eh en product =
     (case shopifyGraphQL remote (CustomerMetafield gid) of
        Inl e \<Rightarrow> (Inl e, [CustomerMetafield gid])
      | Inr d \<Rightarrow>
          (case merge pf h now (load_store pf d) eh en product of
             Inl e \<Rightarrow> (Inl e, [CustomerMetafield gid])
           | Inr store' \<Rightarrow>
               (case shopifyGraphQL remote (MetafieldsSet gid store') of
                  Inl e \<Rightarrow> (Inl e, [CustomerMetafield gid, MetafieldsSet gid store'])
                | Inr d' \<Rightarrow> (save_result pf h d', [CustomerMetafield gid, MetafieldsSet gid store']))))"
  unfolding read_merge_write_def Let_def ..

lemma rmw_shape:
  assumes "read_merge_write pf h remote now gid eh en product = (Inr r, cs)"
  shows "r = ok_response
    \<or> (status r = 500 \<and> (\<exists>msg. body r = JObj [(''ok'', JBool False), (''error'', JStr msg)]))"
  using assms save_result_shape[of pf h _ r]
  by (auto simp: rmw_cases split: sum.splits)

lemma rmw_failed_call:
  assumes "read_merge_write pf h remote now gid eh en product = (res, cs)"
    and "c \<in> set cs" and "shopifyGraphQL remote c = Inl e"
  shows "res = Inl e \<and> last cs = c"
  using assms by (auto simp: rmw_cases split: sum.splits)

lemma rmw_calls_nonempty:
  "snd (read_merge_write pf h remote now gid eh en product) \<noteq> []"
  by (auto simp: rmw_cases split: sum.splits)

lemma rmw_calls_not_email:
  "read_merge_write pf h remote now gid eh en product = (res, cs) \<Longrightarrow> CustomerEmail g \<notin> set cs"
  by (auto simp: rmw_cases split: sum.splits)

lemma rmw_status:
  assumes "read_merge_write pf h remote now gid eh en product = (Inr r, cs)"
  shows "status r = 200 \<or> status r = 500"
  using rmw_shape[OF assms] by (auto simp: ok_response_def)

lemma map_err_all:
  "\<forall>x\<in>set xs. x \<noteq> JUndefined \<and> x \<noteq> JNull \<Longrightarrow>
     map_err (\<lambda>e. get_prop e k) xs = Inr (map (\<lambda>e. opt_prop e k) xs)"
  by (induction xs) (auto simp: get_prop_def)

lemma save_result_userErrors:
  assumes "opt_prop (opt_prop d ''metafieldsSet'') ''userErrors'' = JArr xs" and "xs \<noteq> []"
    and "\<forall>x\<in>set xs. x \<noteq> JUndefined \<and> x \<noteq> JNull"
    and "map (\<lambda>x. opt_prop x ''message'') xs = map JStr ms"
  shows "save_result pf h d =
     Inr (case h of Proxy \<Rightarrow> proxy_error (join ''; '' ms) 500 | Direct \<Rightarrow> bad (join ''; '' ms) 500)"
proof -
  have m: "map_err (\<lambda>e. get_prop e ''message'') xs = Inr (map JStr ms)"
    using map_err_all[OF assms(3), of "''message''"] assms(4) by simp
  have "map (\<lambda>m. if m = JUndefined \<or> m = JNull then Inr [] else ToString pf m) (map JStr ms)
      = map Inr ms"
    by simp
  then have q: "sequence (map (\<lambda>m. if m = JUndefined \<or> m = JNull then Inr [] else ToString pf m)
      (map JStr ms)) = Inr ms"
    by (simp only: sequence_map_Inr)
  show ?thesis
    using assms(1,2) m q by (simp add: save_result_def or_else_def Let_def)
qed

lemma save_result_no_errors:
  assumes "opt_prop (opt_prop d ''metafieldsSet'') ''userErrors'' = JArr []
           \<or> \<not> truthy (opt_prop (opt_prop d ''metafieldsSet'') ''userErrors'')"
  shows "save_result pf h d = Inr ok_response"
  using assms by (auto simp: save_result_def or_else_def Let_def)

text \<open>The write is the last call of the tail, and what it returns decides the response.\<close>

lemma rmw_write_result:
  assumes "read_merge_write pf h remote now gid eh en product = (res, cs)"
    and "MetafieldsSet g s \<in> set cs" and "shopifyGraphQL remote (MetafieldsSet g s) = Inr d"
  shows "res = save_result pf h d"
  using assms by (auto simp: rmw_cases split: sum.splits)

subsection \<open>The ways through the two handlers\<close>

lemma POST_proxy_cases:
  assumes P: "POST_proxy cfg pf remote now request = (res, cs)"
  obtains
    (secret) e where "verifyProxySignature cfg pf (signature_header request) (raw request) = Inl e"
      "res = Inl e" "cs = []"
  | (signature) "verifyProxySignature cfg pf (signature_header request) (raw request) = Inr False"
      "res = Inr (proxy_error ''Bad signature'' 401)" "cs = []"
  | (login) "verifyProxySignature cfg pf (signature_header request) (raw request) = Inr True"
      "res = Inr (proxy_error ''Not logged in'' 401)" "cs = []"
  | (missing) "verifyProxySignature cfg pf (signature_header request) (raw request) = Inr True"
      "res = Inr (proxy_error ''Missing event or product'' 400)" "cs = []"
  | (tail) gid eh en product where
      "verifyProxySignature cfg pf (signature_header request) (raw request) = Inr True"
      "read_merge_write pf Proxy remote now gid eh en product = (res, cs)"
proof (cases "verifyProxySignature cfg pf (signature_header request) (raw request)")
  case (Inl e)
  with P have "res = Inl e" "cs = []" by (simp_all add: POST_proxy_def)
  with Inl show thesis by (rule secret)
next
  case (Inr verified)
  show thesis
  proof (cases verified)
    case False
    with P Inr have "res = Inr (proxy_error ''Bad signature'' 401)" "cs = []"
      by (simp_all add: POST_proxy_def)
    with Inr False show thesis by (intro signature) simp_all
  next
    case True
    with Inr have v: "verifyProxySignature cfg pf (signature_header request) (raw request) = Inr True"
      by simp
    show thesis
    proof (cases "logged_in_customer_id request")
      case None
      with P v have "res = Inr (proxy_error ''Not logged in'' 401)" "cs = []"
        by (simp_all add: POST_proxy_def)
      with v show thesis by (rule login)
    next
      case (Some i)
      show thesis
      proof (cases "i = []")
        case True
        with P v Some have "res = Inr (proxy_error ''Not logged in'' 401)" "cs = []"
          by (simp_all add: POST_proxy_def)
        with v show thesis by (rule login)
      next
        case ne: False
        define fields where
          "fields = or_else (case JSON_parse pf (raw request) of Some v \<Rightarrow> v | None \<Rightarrow> JObj []) (JObj [])"
        show thesis
        proof (cases "\<not> truthy (opt_prop fields ''event_handle'')
                      \<or> \<not> truthy (opt_prop (opt_prop fields ''product'') ''product_id'')")
          case True
          with P v Some ne have "res = Inr (proxy_error ''Missing event or product'' 400)" "cs = []"
            by (simp_all add: POST_proxy_def Let_def fields_def)
          with v show thesis by (rule missing)
        next
          case False
          with P v Some ne have "read_merge_write pf Proxy remote now (customerGID i)
              (opt_prop fields ''event_handle'') (opt_prop fields ''event_name'')
              (opt_prop fields ''product'') = (res, cs)"
            by (simp add: POST_proxy_def Let_def fields_def)
          with v show thesis by (rule tail)
        qed
      qed
    qed
  qed
qed

lemma POST_direct_passed:
  assumes "origin_header request = Some origin" "origin \<in> ALLOWED_ORIGINS cfg"
    and "json_body request = Some b"
    and "truthy (opt_prop (or_else b (JObj [])) ''shop'')"
    and "truthy (opt_prop (or_else b (JObj [])) ''customer_id'')"
    and "truthy (opt_prop (or_else b (JObj [])) ''customer_email'')"
    and "truthy (opt_prop (or_else b (JObj [])) ''event_handle'')"
    and "truthy (opt_prop (opt_prop (or_else b (JObj [])) ''product'') ''product_id'')"
  shows "POST_direct cfg pf remote now request =
    (case ToString pf (opt_prop (or_else b (JObj [])) ''customer_id'') of
       Inl e \<Rightarrow> (Inl e, [])
     | Inr id_text \<Rightarrow>
    (case shopifyGraphQL remote (CustomerEmail (customerGID id_text)) of
       Inl e \<Rightarrow> (Inl e, [CustomerEmail (customerGID id_text)])
     | Inr d1 \<Rightarrow>
         (case email_verified pf d1 (opt_prop (or_else b (JObj [])) ''customer_email'') of
            Inl e \<Rightarrow> (Inl e, [CustomerEmail (customerGID id_text)])
          | Inr verified \<Rightarrow>
              if \<not> verified
              then (Inr (bad ''Customer verification failed'' 401),
                [CustomerEmail (customerGID id_text)])
              else
                (case read_merge_write pf Direct remote now (customerGID id_text)
                        (opt_prop (or_else b (JObj [])) ''event_handle'')
                        (opt_prop (or_else b (JObj [])) ''event_name'')
                        (opt_prop (or_else b (JObj [])) ''product'') of
                   (r, cs) \<Rightarrow> (r, CustomerEmail (customerGID id_text) # cs)))))"
  unfolding POST_direct_def Let_def using assms by simp

lemma POST_direct_cases:
  assumes P: "POST_direct cfg pf remote now request = (res, cs)"
  obtains
    (origin) "res = Inr (bad ''Origin not allowed'' 401)" "cs = []"
  | (json) "res = Inr (bad ''Invalid JSON'' 400)" "cs = []"
  | (missing) "res = Inr (bad ''Missing required fields'' 400)" "cs = []"
  | (id_text) e where "res = Inl e" "cs = []"
  | (email_query) gid e where "shopifyGraphQL remote (CustomerEmail gid) = Inl e"
      "res = Inl e" "cs = [CustomerEmail gid]"
  | (email_type) gid d1 e where "shopifyGraphQL remote (CustomerEmail gid) = Inr d1"
      "res = Inl e" "cs = [CustomerEmail gid]"
  | (unverified) gid d1 where "shopifyGraphQL remote (CustomerEmail gid) = Inr d1"
      "res = Inr (bad ''Customer verification failed'' 401)" "cs = [CustomerEmail gid]"
  | (tail) gid d1 eh en product cs' where "shopifyGraphQL remote (CustomerEmail gid) = Inr d1"
      "read_merge_write pf Direct remote now gid eh en product = (res, cs')"
      "cs = CustomerEmail gid # cs'"
proof (cases "origin_header request")
  case None
  with P have "res = Inr (bad ''Origin not allowed'' 401)" "cs = []"
    by (simp_all add: POST_direct_def)
  then show thesis by (rule origin)
next
  case (Some org)
  show thesis
  proof (cases "org \<in> ALLOWED_ORIGINS cfg")
    case False
    with P Some have "res = Inr (bad ''Origin not allowed'' 401)" "cs = []"
      by (simp_all add: POST_direct_def)
    then show thesis by (rule origin)
  next
    case allowed: True
    show thesis
    proof (cases "json_body request")
      case None
      with P Some allowed have "res = Inr (bad ''Invalid JSON'' 400)" "cs = []"
        by (simp_all add: POST_direct_def)
      then show thesis by (rule json)
    next
      case (Some b)
      define fields where "fields = or_else b (JObj [])"
      show thesis
      proof (cases "truthy (opt_prop fields ''shop'') \<and> truthy (opt_prop fields ''customer_id'')
                \<and> truthy (opt_prop fields ''customer_email'') \<and> truthy (opt_prop fields ''event_handle'')
                \<and> truthy (opt_prop (opt_prop fields ''product'') ''product_id'')")
        case False
        with P \<open>origin_header request = Some org\<close> allowed Some
        have "res = Inr (bad ''Missing required fields'' 400) \<and> cs = []"
          unfolding POST_direct_def Let_def fields_def by auto
        then show thesis using missing by blast
      next
        case True
        note pass = POST_direct_passed[OF \<open>origin_header request = Some org\<close> allowed Some,
            folded fields_def, of pf remote now]
        from True have eq: "POST_direct cfg pf remote now request =
          (case ToString pf (opt_prop fields ''customer_id'') of
             Inl e \<Rightarrow> (Inl e, [])
           | Inr id_text \<Rightarrow>
          (case shopifyGraphQL remote (CustomerEmail (customerGID id_text)) of
             Inl e \<Rightarrow> (Inl e, [CustomerEmail (customerGID id_text)])
           | Inr d1 \<Rightarrow>
               (case email_verified pf d1 (opt_prop fields ''customer_email'') of
                  Inl e \<Rightarrow> (Inl e, [CustomerEmail (customerGID id_text)])
                | Inr verified \<Rightarrow>
                    if \<not> verified
                    then (Inr (bad ''Customer verification failed'' 401),
                      [CustomerEmail (customerGID id_text)])
                    else
                      (case read_merge_write pf Direct remote now (customerGID id_text)
                              (opt_prop fields ''event_handle'')
                              (opt_prop fields ''event_name'')
                              (opt_prop fields ''product'') of
                         (r, cs) \<Rightarrow> (r, CustomerEmail (customerGID id_text) # cs)))))"
          by (intro pass) simp_all
        show thesis
        proof (cases "ToString pf (opt_prop fields ''customer_id'')")
          case (Inl e)
          with P eq have "res = Inl e" "cs = []" by simp_all
          then show thesis by (rule id_text)
        next
          case t: (Inr id_text)
          define gid where "gid = customerGID id_text"
          show thesis
          proof (cases "shopifyGraphQL remote (CustomerEmail gid)")
            case (Inl e)
            with P eq t have "res = Inl e" "cs = [CustomerEmail gid]" by (simp_all add: gid_def)
            with Inl show thesis by (rule email_query)
          next
            case (Inr d1)
            show thesis
            proof (cases "email_verified pf d1 (opt_prop fields ''customer_email'')")
              case (Inl e)
              with P eq t Inr have "res = Inl e" "cs = [CustomerEmail gid]"
                by (simp_all add: gid_def)
              with Inr show thesis by (rule email_type)
            next
              case v: (Inr verified)
              show thesis
              proof (cases verified)
                case False
                with P eq t Inr v have "res = Inr (bad ''Customer verification failed'' 401)"
                  "cs = [CustomerEmail gid]" by (simp_all add: gid_def)
                with Inr show thesis by (rule unverified)
              next
                case True
                obtain r cs' where rt: "read_merge_write pf Direct remote now gid
                                (opt_prop fields ''event_handle'')
                                (opt_prop fields ''event_name'')
                                (opt_prop fields ''product'') = (r, cs')"
                  by (cases "read_merge_write pf Direct remote now gid
                                (opt_prop fields ''event_handle'')
                                (opt_prop fields ''event_name'')
                                (opt_prop fields ''product'')") auto
                with P eq t Inr v True have "res = r" "cs = CustomerEmail gid # cs'"
                  by (simp_all add: gid_def)
                with Inr rt show thesis by (intro tail) simp_all
              qed
            qed
          qed
        qed
      qed
    qed
  qed
qed

lemma POST_proxy_shape:
  assumes "POST_proxy cfg pf remote now request = (Inr r, cs)"
  shows "r = ok_response
    \<or> (status r \<in> {400, 401, 500}
        \<and> (\<exists>msg. body r = JObj [(''ok'', JBool False), (''error'', JStr msg)]))"
  using assms
proof (cases rule: POST_proxy_cases)
  case (tail gid eh en product)
  from rmw_shape[OF tail(2)] show ?thesis by auto
qed (auto simp: proxy_error_def)

lemma POST_proxy_failed_call:
  assumes "POST_proxy cfg pf remote now request = (res, cs)"
    and "c \<in> set cs" and "shopifyGraphQL remote c = Inl e"
  shows "res = Inl e \<and> last cs = c"
  using assms(1)
proof (cases rule: POST_proxy_cases)
  case (tail gid eh en product)
  from rmw_failed_call[OF tail(2) assms(2,3)] show ?thesis .
qed (use assms(2) in auto)

lemma POST_direct_shape:
  assumes "POST_direct cfg pf remote now request = (Inr r, cs)"
  shows "r = ok_response
    \<or> (status r \<in> {400, 401, 500}
        \<and> (\<exists>msg. body r = JObj [(''ok'', JBool False), (''error'', JStr msg)]))"
  using assms
proof (cases rule: POST_direct_cases)
  case (tail gid d1 eh en product cs')
  from rmw_shape[OF tail(2)] show ?thesis by auto
qed (auto simp: bad_def)

lemma POST_direct_failed_call:
  assumes "POST_direct cfg pf remote now request = (res, cs)"
    and "c \<in> set cs" and "shopifyGraphQL remote c = Inl e"
  shows "res = Inl e \<and> last cs = c"
  using assms(1)
proof (cases rule: POST_direct_cases)
  case (tail gid d1 eh en product cs')
  have "c \<noteq> CustomerEmail gid" using tail(1) assms(3) by auto
  with assms(2) tail(3) have "c \<in> set cs'" by simp
  from rmw_failed_call[OF tail(2) this assms(3)] have "res = Inl e" "last cs' = c" by simp_all
  moreover have "cs' \<noteq> []" using \<open>c \<in> set cs'\<close> by auto
  ultimately show ?thesis using tail(3) by simp
qed (use assms(2,3) in auto)

lemma POST_proxy_write_result:
  assumes "POST_proxy cfg pf remote now request = (res, cs)"
    and "MetafieldsSet g s \<in> set cs" and "shopifyGraphQL remote (MetafieldsSet g s) = Inr d"
  shows "res = save_result pf Proxy d"
  using assms(1)
proof (cases rule: POST_proxy_cases)
  case (tail gid eh en product)
  from rmw_write_result[OF tail(2) assms(2,3)] show ?thesis .
qed (use assms(2) in auto)

lemma POST_direct_write_result:
  assumes "POST_direct cfg pf remote now request = (res, cs)"
    and "MetafieldsSet g s \<in> set cs" and "shopifyGraphQL remote (MetafieldsSet g s) = Inr d"
  shows "res = save_result pf Direct d"
  using assms(1)
proof (cases rule: POST_direct_cases)
  case (tail gid d1 eh en product cs')
  with assms(2) have "MetafieldsSet g s \<in> set cs'" by simp
  from rmw_write_result[OF tail(2) this assms(3)] show ?thesis .
qed (use assms(2) in auto)

subsection \<open>The signature check of the proxy handler\<close>

text \<open>\<^verbatim>\<open>Buffer.from\<close> loses nothing: two strings with the same bytes are the same string.\<close>

lemma utf8_Nil [simp]: "utf8 [] = []"
  by (simp add: utf8_def)

lemma utf8_Cons:
  "utf8 (c # cs) =
     (if (of_char c :: nat) < 128 then [of_char c]
      else [192 + of_char c div 64, 128 + of_char c mod 64]) @ utf8 cs"
  by (simp add: utf8_def Let_def)

lemma of_char_nat_eq: "(of_char c :: nat) = of_char d \<Longrightarrow> c = d"
  by (metis char_of_char)

lemma utf8_char_inj:
  fixes n m :: nat
  assumes "(if n < 128 then [n] else [192 + n div 64, 128 + n mod 64]) @ xs
         = (if m < 128 then [m] else [192 + m div 64, 128 + m mod 64]) @ ys"
  shows "n = m \<and> xs = ys"
proof (cases "n < 128")
  case True
  with assms show ?thesis by (cases "m < 128") auto
next
  case False
  show ?thesis
  proof (cases "m < 128")
    case True
    with assms False show ?thesis by auto
  next
    case m: False
    from assms False m have "n div 64 = m div 64" "n mod 64 = m mod 64" "xs = ys" by auto
    moreover have "n = 64 * (n div 64) + n mod 64" "m = 64 * (m div 64) + m mod 64" by simp_all
    ultimately show ?thesis by metis
  qed
qed

lemma utf8_inj: "utf8 a = utf8 b \<Longrightarrow> a = b"
proof (induction a arbitrary: b)
  case Nil
  then show ?case by (cases b) (auto simp: utf8_Cons split: if_splits)
next
  case (Cons c cs)
  show ?case
  proof (cases b)
    case Nil
    with Cons.prems show ?thesis by (auto simp: utf8_Cons split: if_splits)
  next
    case (Cons d ds)
    from Cons.prems Cons have "(of_char c :: nat) = of_char d \<and> utf8 cs = utf8 ds"
      by (intro utf8_char_inj) (simp add: utf8_Cons)
    then show ?thesis using Cons.IH Cons of_char_nat_eq by blast
  qed
qed

lemma verifyProxySignature_eq:
  assumes "APP_SECRET cfg = Some secret"
  shows "verifyProxySignature cfg pf header rawBody =
     Inr (hmac_sha256_base64 pf secret (utf8_encode rawBody)
            = (case header of None \<Rightarrow> [] | Some s \<Rightarrow> s))"
  using assms utf8_inj
  by (auto simp: verifyProxySignature_def timingSafeEqual_def Let_def)

lemma proxy_bad_signature_iff:
  assumes s: "APP_SECRET cfg = Some secret"
  shows "POST_proxy cfg pf remote now request = (Inr (proxy_error ''Bad signature'' 401), [])
     \<longleftrightarrow> (case signature_header request of None \<Rightarrow> [] | Some s \<Rightarrow> s)
           \<noteq> hmac_sha256_base64 pf secret (utf8_encode (utf8_decode (raw_bytes request)))"
proof
  assume P: "POST_proxy cfg pf remote now request = (Inr (proxy_error ''Bad signature'' 401), [])"
  then show "(case signature_header request of None \<Rightarrow> [] | Some s \<Rightarrow> s)
           \<noteq> hmac_sha256_base64 pf secret (utf8_encode (utf8_decode (raw_bytes request)))"
  proof (cases rule: POST_proxy_cases)
    case signature
    then show ?thesis by (auto simp: verifyProxySignature_eq[OF s] raw_def)
  next
    case (tail gid eh en product)
    with rmw_calls_nonempty[of pf Proxy remote now gid eh en product] show ?thesis by simp
  qed (simp_all add: proxy_error_def)
next
  assume "(case signature_header request of None \<Rightarrow> [] | Some s \<Rightarrow> s)
           \<noteq> hmac_sha256_base64 pf secret (utf8_encode (utf8_decode (raw_bytes request)))"
  then show "POST_proxy cfg pf remote now request = (Inr (proxy_error ''Bad signature'' 401), [])"
    by (auto simp: POST_proxy_def verifyProxySignature_eq[OF s] raw_def)
qed

text \<open>
  A body of ASCII bytes is the UTF-8 encoding of its text: the digest that the verifier
  computes for it is the digest of its bytes.
\<close>

lemma utf8_decode_from_ascii:
  "list_all (\<lambda>b. b < 128) bytes \<Longrightarrow> utf8_decode_from 0 0 128 191 bytes = bytes"
  by (induction bytes) simp_all

lemma utf8_decode_ascii:
  assumes "list_all (\<lambda>b. b < 128) bytes"
  shows "utf8_decode bytes = bytes"
proof -
  have "take 3 bytes \<noteq> [239, 187, 191]"
  proof
    assume "take 3 bytes = [239, 187, 191]"
    then have "239 \<in> set (take 3 bytes)" by simp
    then have "239 \<in> set bytes" by (rule in_set_takeD)
    with assms show False by (auto simp: list_all_iff)
  qed
  with assms show ?thesis by (simp add: utf8_decode_def utf8_decode_from_ascii)
qed

lemma utf8_encode_ascii:
  "list_all (\<lambda>u. u < 128) t \<Longrightarrow> utf8_encode t = t"
  by (induction t rule: utf8_encode.induct) (simp_all add: encode_code_point_def)

lemma ascii_round_trip:
  "list_all (\<lambda>b. b < 128) bytes \<Longrightarrow> utf8_encode (utf8_decode bytes) = bytes"
  by (simp add: utf8_decode_ascii utf8_encode_ascii)

text \<open>
  Claim C7, as the code has it. The verifier does not see the bytes of the body: it is
  given \<^verbatim>\<open>await request.text()\<close>, the body decoded as UTF-8 with every malformed
  sequence replaced by U+FFFD (part_000 line 38), and it computes the digest of the
  UTF-8 bytes of that text. With the app secret configured:
  \<^item> it accepts a request exactly when the value of the
    \<^verbatim>\<open>x-shopify-proxy-signature\<close> header (the empty string when the header is
    missing) equals the base64 HMAC-SHA256 digest of those bytes under the secret, so,
    a digest never being empty, exactly when the header is that digest;
  \<^item> the handler answers 401 \<^verbatim>\<open>Bad signature\<close>, with no remote call, exactly when
    the verifier does not accept;
  \<^item> for a body \<open>B\<close> that is the UTF-8 encoding of its own text (every ASCII body is),
    a signature computed over the bytes of \<open>B\<close> passes for \<open>B\<close>;
  \<^item> for another body \<open>B'\<close> that signature passes exactly when the bytes that the
    verifier digests for \<open>B'\<close> have the digest of \<open>B\<close>: for an ASCII body
    \<open>B'\<close>, exactly when \<open>B'\<close> itself has the digest of \<open>B\<close>; and for any
    \<open>B'\<close> that decodes to the same text as \<open>B\<close>, always.

  The claim as stated, that the signature of \<open>B\<close> fails for every body differing
  from \<open>B\<close> in one byte, fails for a body \<open>B\<close> that holds the character U+FFFD:
  changing one byte of that character can give a malformed sequence, which decodes to
  U+FFFD again. Two such bodies are evaluated below.
\<close>

theorem proxy_signature_verification:
  assumes "APP_SECRET cfg = Some secret"
  shows "verifyProxySignature cfg pf header t =
           Inr ((case header of None \<Rightarrow> [] | Some s \<Rightarrow> s)
                  = hmac_sha256_base64 pf secret (utf8_encode t))
    \<and> (hmac_sha256_base64 pf secret (utf8_encode t) \<noteq> [] \<longrightarrow>
           (verifyProxySignature cfg pf header t = Inr True
             \<longleftrightarrow> header = Some (hmac_sha256_base64 pf secret (utf8_encode t))))
    \<and> (POST_proxy cfg pf remote now request = (Inr (proxy_error ''Bad signature'' 401), [])
           \<longleftrightarrow> verifyProxySignature cfg pf (signature_header request)
                   (utf8_decode (raw_bytes request)) \<noteq> Inr True)
    \<and> status (proxy_error ''Bad signature'' 401) = 401
    \<and> (utf8_encode (utf8_decode B) = B \<longrightarrow>
           verifyProxySignature cfg pf (Some (hmac_sha256_base64 pf secret B)) (utf8_decode B)
             = Inr True)
    \<and> (list_all (\<lambda>b. b < 128) B \<longrightarrow>
           verifyProxySignature cfg pf (Some (hmac_sha256_base64 pf secret B)) (utf8_decode B)
             = Inr True)
    \<and> (verifyProxySignature cfg pf (Some (hmac_sha256_base64 pf secret B)) (utf8_decode B')
             = Inr True
           \<longleftrightarrow> hmac_sha256_base64 pf secret (utf8_encode (utf8_decode B'))
                 = hmac_sha256_base64 pf secret B)
    \<and> (list_all (\<lambda>b. b < 128) B' \<longrightarrow>
           (verifyProxySignature cfg pf (Some (hmac_sha256_base64 pf secret B)) (utf8_decode B')
              = Inr True
            \<longleftrightarrow> hmac_sha256_base64 pf secret B' = hmac_sha256_base64 pf secret B))
    \<and> (utf8_encode (utf8_decode B) = B \<and> utf8_decode B' = utf8_decode B \<longrightarrow>
           verifyProxySignature cfg pf (Some (hmac_sha256_base64 pf secret B)) (utf8_decode B')
             = Inr True)"
proof -
  note v = verifyProxySignature_eq[OF assms, of pf]
  have 1: "verifyProxySignature cfg pf header t =
           Inr ((case header of None \<Rightarrow> [] | Some s \<Rightarrow> s)
                  = hmac_sha256_base64 pf secret (utf8_encode t))"
    by (auto simp: v)
  have 2: "hmac_sha256_base64 pf secret (utf8_encode t) \<noteq> [] \<longrightarrow>
           (verifyProxySignature cfg pf header t = Inr True
             \<longleftrightarrow> header = Some (hmac_sha256_base64 pf secret (utf8_encode t)))"
    by (auto simp: v split: option.splits)
  have 3: "POST_proxy cfg pf remote now request = (Inr (proxy_error ''Bad signature'' 401), [])
           \<longleftrightarrow> verifyProxySignature cfg pf (signature_header request)
                   (utf8_decode (raw_bytes request)) \<noteq> Inr True"
    using proxy_bad_signature_iff[OF assms, of pf remote now request] by (auto simp: v)
  have 4: "status (proxy_error ''Bad signature'' 401) = 401"
    by (simp add: proxy_error_def)
  have 5: "utf8_encode (utf8_decode B) = B \<longrightarrow>
           verifyProxySignature cfg pf (Some (hmac_sha256_base64 pf secret B)) (utf8_decode B)
             = Inr True"
    by (simp add: v)
  have 6: "list_all (\<lambda>b. b < 128) B \<longrightarrow>
           verifyProxySignature cfg pf (Some (hmac_sha256_base64 pf secret B)) (utf8_decode B)
             = Inr True"
    by (simp add: v ascii_round_trip)
  have 7: "verifyProxySignature cfg pf (Some (hmac_sha256_base64 pf secret B)) (utf8_decode B')
             = Inr True
           \<longleftrightarrow> hmac_sha256_base64 pf secret (utf8_encode (utf8_decode B'))
                 = hmac_sha256_base64 pf secret B"
    by (auto simp: v)
  have 8: "list_all (\<lambda>b. b < 128) B' \<longrightarrow>
           (verifyProxySignature cfg pf (Some (hmac_sha256_base64 pf secret B)) (utf8_decode B')
              = Inr True
            \<longleftrightarrow> hmac_sha256_base64 pf secret B' = hmac_sha256_base64 pf secret B)"
    by (auto simp: v ascii_round_trip)
  have 9: "utf8_encode (utf8_decode B) = B \<and> utf8_decode B' = utf8_decode B \<longrightarrow>
           verifyProxySignature cfg pf (Some (hmac_sha256_base64 pf secret B)) (utf8_decode B')
             = Inr True"
    by (auto simp: v)
  from 1 2 3 4 5 6 7 8 9 show ?thesis by blast
qed

lemma sample_secret: "APP_SECRET sample_config = Some ''s3cret''"
  by (simp add: sample_config_def)

lemma sample_bodies_ascii:
  "list_all (\<lambda>b. b < 128) (units numeric_id_text)"
  "list_all (\<lambda>b. b < 128) (units changed_id_text)"
  by (simp_all add: units_def numeric_id_text_def changed_id_text_def)

text \<open>The two ASCII bodies differ in one byte, the byte at position 56.\<close>

lemma sample_bodies_one_byte:
  "units changed_id_text = (units numeric_id_text)[56 := 55]"
  "units numeric_id_text ! 56 = 49"
  by (simp_all add: units_def numeric_id_text_def changed_id_text_def)

lemma sample_digests_differ:
  "sample_hmac ''s3cret'' (units changed_id_text) \<noteq> sample_hmac ''s3cret'' (units numeric_id_text)"
  by (simp add: sample_hmac_def units_def numeric_id_text_def changed_id_text_def)

lemma utf8_decode_from_append_ascii:
  "list_all (\<lambda>b. b < 128) bytes \<Longrightarrow>
     utf8_decode_from 0 0 128 191 (bytes @ rest) = bytes @ utf8_decode_from 0 0 128 191 rest"
  by (induction bytes) simp_all

lemma utf8_decode_ascii_append:
  assumes "list_all (\<lambda>b. b < 128) bytes" and "3 \<le> length bytes"
  shows "utf8_decode (bytes @ rest) = bytes @ utf8_decode_from 0 0 128 191 rest"
proof -
  have "take 3 (bytes @ rest) = take 3 bytes" using assms(2) by simp
  moreover have "take 3 bytes \<noteq> [239, 187, 191]"
  proof
    assume "take 3 bytes = [239, 187, 191]"
    then have "239 \<in> set (take 3 bytes)" by simp
    then have "239 \<in> set bytes" by (rule in_set_takeD)
    with assms(1) show False by (auto simp: list_all_iff)
  qed
  ultimately have "take 3 (bytes @ rest) \<noteq> [239, 187, 191]" by (simp only: not_False_eq_True)
  then show ?thesis
    by (simp only: utf8_decode_def if_False utf8_decode_from_append_ascii[OF assms(1)])
qed

lemma utf8_encode_ascii_append:
  "list_all (\<lambda>u. u < 128) t \<Longrightarrow> utf8_encode (t @ [65533]) = t @ [239, 191, 189]"
  by (induction t rule: utf8_encode.induct) (simp_all add: encode_code_point_def)

text \<open>
  The two bodies decode to the same text, the text of \<open>numeric_id_text\<close> followed by
  U+FFFD, and the first body is the UTF-8 encoding of that text.
\<close>

lemma sample_bodies_decoded:
  "utf8_decode body_with_FFFD = units numeric_id_text @ [65533]"
  "utf8_decode body_cut_short = units numeric_id_text @ [65533]"
  "utf8_encode (utf8_decode body_with_FFFD) = body_with_FFFD"
proof -
  have l: "3 \<le> length (units numeric_id_text)"
    by (simp add: units_def numeric_id_text_def)
  show 1: "utf8_decode body_with_FFFD = units numeric_id_text @ [65533]"
    by (simp add: body_with_FFFD_def utf8_decode_ascii_append[OF sample_bodies_ascii(1) l]
          code_units_def)
  show "utf8_decode body_cut_short = units numeric_id_text @ [65533]"
    by (simp add: body_cut_short_def utf8_decode_ascii_append[OF sample_bodies_ascii(1) l])
  show "utf8_encode (utf8_decode body_with_FFFD) = body_with_FFFD"
    unfolding 1 by (simp add: utf8_encode_ascii_append[OF sample_bodies_ascii(1)] body_with_FFFD_def)
qed

theorem proxy_signature_verification_witness:
  "units changed_id_text = (units numeric_id_text)[56 := 55]
   \<and> verifyProxySignature sample_config sample_platform
     (Some (sample_hmac ''s3cret'' (units numeric_id_text))) (utf8_decode (units numeric_id_text))
     = Inr True
   \<and> verifyProxySignature sample_config sample_platform
     (Some (sample_hmac ''s3cret'' (units numeric_id_text))) (utf8_decode (units changed_id_text))
     = Inr False
   \<and> verifyProxySignature sample_config sample_platform None (utf8_decode (units numeric_id_text))
     = Inr False
   \<and> POST_proxy sample_config sample_platform (answering_remote None) sample_now
        (signed_request (sample_hmac ''s3cret'' (units numeric_id_text)) (units changed_id_text))
       = (Inr (proxy_error ''Bad signature'' 401), [])
   \<and> POST_proxy sample_config sample_platform (answering_remote None) sample_now
        (proxy_submission numeric_id_text)
       \<noteq> (Inr (proxy_error ''Bad signature'' 401), [])
   \<and> verifyProxySignature sample_config sample_platform
        (Some (sample_hmac ''s3cret'' body_with_FFFD)) (utf8_decode body_with_FFFD) = Inr True
   \<and> verifyProxySignature sample_config sample_platform
        (Some (sample_hmac ''s3cret'' body_with_FFFD)) (utf8_decode body_cut_short) = Inr True"
proof -
  have h: "hmac_sha256_base64 sample_platform = sample_hmac"
    by (simp add: sample_platform_def)
  note a = utf8_decode_ascii[OF sample_bodies_ascii(1)] utf8_decode_ascii[OF sample_bodies_ascii(2)]
    utf8_encode_ascii[OF sample_bodies_ascii(1)] utf8_encode_ascii[OF sample_bodies_ascii(2)]
  have 1: "verifyProxySignature sample_config sample_platform
     (Some (sample_hmac ''s3cret'' (units numeric_id_text))) (utf8_decode (units numeric_id_text))
     = Inr True"
    using proxy_signature_verification[where cfg = sample_config and secret = "''s3cret''"
        and pf = sample_platform and B = "units numeric_id_text",
        OF sample_secret, THEN conjunct2, THEN conjunct2, THEN conjunct2, THEN conjunct2,
        THEN conjunct2, THEN conjunct1] sample_bodies_ascii(1)
    by (simp add: h)
  have "verifyProxySignature sample_config sample_platform
     (Some (sample_hmac ''s3cret'' (units numeric_id_text))) (utf8_decode (units changed_id_text))
     \<noteq> Inr True"
    using proxy_signature_verification[where cfg = sample_config and secret = "''s3cret''"
        and pf = sample_platform and B = "units numeric_id_text" and B' = "units changed_id_text",
        OF sample_secret, THEN conjunct2, THEN conjunct2, THEN conjunct2, THEN conjunct2,
        THEN conjunct2, THEN conjunct2, THEN conjunct1] sample_digests_differ
    by (simp add: h a)
  then have 2: "verifyProxySignature sample_config sample_platform
     (Some (sample_hmac ''s3cret'' (units numeric_id_text))) (utf8_decode (units changed_id_text))
     = Inr False"
    using proxy_signature_verification[where cfg = sample_config and secret = "''s3cret''"
        and pf = sample_platform and header = "Some (sample_hmac ''s3cret'' (units numeric_id_text))"
        and t = "utf8_decode (units changed_id_text)",
        OF sample_secret, THEN conjunct1]
    by (simp add: h)
  have 3: "verifyProxySignature sample_config sample_platform None
     (utf8_decode (units numeric_id_text)) = Inr False"
    using proxy_signature_verification[where cfg = sample_config and secret = "''s3cret''"
        and pf = sample_platform and header = None and t = "utf8_decode (units numeric_id_text)",
        OF sample_secret, THEN conjunct1]
    by (simp add: h sample_hmac_def)
  have 4: "POST_proxy sample_config sample_platform (answering_remote None) sample_now
        (signed_request (sample_hmac ''s3cret'' (units numeric_id_text)) (units changed_id_text))
       = (Inr (proxy_error ''Bad signature'' 401), [])"
    using proxy_signature_verification[where cfg = sample_config and secret = "''s3cret''"
        and pf = sample_platform and remote = "answering_remote None" and now = sample_now and request =
          "signed_request (sample_hmac ''s3cret'' (units numeric_id_text)) (units changed_id_text)",
        OF sample_secret, THEN conjunct2, THEN conjunct2, THEN conjunct1] 2
    by (simp add: signed_request_def)
  have 5: "POST_proxy sample_config sample_platform (answering_remote None) sample_now
        (proxy_submission numeric_id_text)
       \<noteq> (Inr (proxy_error ''Bad signature'' 401), [])"
    using proxy_signature_verification[where cfg = sample_config and secret = "''s3cret''"
        and pf = sample_platform and remote = "answering_remote None" and now = sample_now
        and request = "proxy_submission numeric_id_text",
        OF sample_secret, THEN conjunct2, THEN conjunct2, THEN conjunct1] 1
    by (simp add: proxy_submission_def)
  have 6: "verifyProxySignature sample_config sample_platform
        (Some (sample_hmac ''s3cret'' body_with_FFFD)) (utf8_decode body_with_FFFD) = Inr True"
    using proxy_signature_verification[where cfg = sample_config and secret = "''s3cret''"
        and pf = sample_platform and B = body_with_FFFD,
        OF sample_secret, THEN conjunct2, THEN conjunct2, THEN conjunct2, THEN conjunct2,
        THEN conjunct1] sample_bodies_decoded(3)
    by (simp add: h)
  have 7: "verifyProxySignature sample_config sample_platform
        (Some (sample_hmac ''s3cret'' body_with_FFFD)) (utf8_decode body_cut_short) = Inr True"
    using proxy_signature_verification[where cfg = sample_config and secret = "''s3cret''"
        and pf = sample_platform and B = body_with_FFFD and B' = body_cut_short,
        OF sample_secret, THEN conjunct2, THEN conjunct2, THEN conjunct2, THEN conjunct2,
        THEN conjunct2, THEN conjunct2, THEN conjunct2, THEN conjunct2] sample_bodies_decoded
    by (simp add: h)
  from sample_bodies_one_byte(1) 1 2 3 4 5 6 7 show ?thesis by blast
qed

text \<open>
  Two bodies of one length that differ in one byte, EF and F1. The first is well-formed
  UTF-8 and ends with the character U+FFFD; in the second that character has become the
  start of a sequence of four bytes that the end of the body cuts short, which decodes
  to U+FFFD. The signature computed over the bytes of the first body is accepted for
  the first and for the second: for the second the handler goes on and answers 400, as
  the text is not JSON.
\<close>

theorem one_byte_changed_counterexample:
  "body_with_FFFD = units numeric_id_text @ [239, 191, 189]
   \<and> body_cut_short = units numeric_id_text @ [241, 191, 189]
   \<and> verifyProxySignature sample_config sample_platform
        (Some (hmac_sha256_base64 sample_platform ''s3cret'' body_with_FFFD))
        (utf8_decode body_with_FFFD) = Inr True
   \<and> verifyProxySignature sample_config sample_platform
        (Some (hmac_sha256_base64 sample_platform ''s3cret'' body_with_FFFD))
        (utf8_decode body_cut_short) = Inr True
   \<and> POST_proxy sample_config sample_platform (answering_remote None) sample_now
        (signed_request (hmac_sha256_base64 sample_platform ''s3cret'' body_with_FFFD)
           body_cut_short)
       = (Inr (proxy_error ''Missing event or product'' 400), [])"
proof -
  have e: "utf8_encode (units numeric_id_text @ [65533]) = body_with_FFFD"
    using sample_bodies_decoded by simp
  have j: "sample_JSON_parse (units numeric_id_text @ [65533]) = None"
    by (simp add: sample_JSON_parse_def units_def numeric_id_text_def string_id_text_def
          changed_id_text_def stored_spring_text_def)
  have v: "verifyProxySignature sample_config sample_platform
        (Some (sample_hmac ''s3cret'' body_with_FFFD)) (units numeric_id_text @ [65533]) = Inr True"
    by (simp add: verifyProxySignature_eq[OF sample_secret] e sample_platform_def)
  have p: "POST_proxy sample_config sample_platform (answering_remote None) sample_now
        (signed_request (sample_hmac ''s3cret'' body_with_FFFD) body_cut_short)
       = (Inr (proxy_error ''Missing event or product'' 400), [])"
    using v j
    by (simp add: POST_proxy_def raw_def signed_request_def sample_bodies_decoded or_else_def
          sample_platform_def Let_def)
  show ?thesis
    using v p
    by (simp add: sample_bodies_decoded body_with_FFFD_def[symmetric]
          body_cut_short_def[symmetric] sample_platform_def)
qed

subsection \<open>The origin check of the direct handler\<close>

text \<open>
  Claim C9. A direct request without an \<^verbatim>\<open>Origin\<close> header, or with one that is not
  in the allow-list, is answered with status 401 and the body
  \<^verbatim>\<open>{ok:false, error:"Origin not allowed"}\<close>, and the handler has issued no remote
  call: no read of the customer, no e-mail verification, no write.
\<close>

theorem origin_not_allowed:
  assumes "origin_header request = None
           \<or> (\<exists>origin. origin_header request = Some origin \<and> origin \<notin> ALLOWED_ORIGINS cfg)"
  shows "POST_direct cfg pf remote now request = (Inr (bad ''Origin not allowed'' 401), [])
    \<and> status (bad ''Origin not allowed'' 401) = 401
    \<and> body (bad ''Origin not allowed'' 401)
           = JObj [(''ok'', JBool False), (''error'', JStr ''Origin not allowed'')]"
  using assms by (auto simp: POST_direct_def bad_def)

theorem origin_not_allowed_witness:
  "''https://evil.example'' \<notin> ALLOWED_ORIGINS sample_config
   \<and> POST_direct sample_config sample_platform (answering_remote None) sample_now
       (direct_submission ''https://evil.example'' ''ann@example.com'' numeric_id_product)
     = (Inr (bad ''Origin not allowed'' 401), [])
   \<and> status (bad ''Origin not allowed'' 401) = 401"
proof -
  have n: "''https://evil.example'' \<notin> ALLOWED_ORIGINS sample_config"
    by (simp add: ALLOWED_ORIGINS_def sample_config_def)
  then have "origin_header (direct_submission ''https://evil.example'' ''ann@example.com'' numeric_id_product) = None
     \<or> (\<exists>origin. origin_header (direct_submission ''https://evil.example'' ''ann@example.com'' numeric_id_product)
            = Some origin \<and> origin \<notin> ALLOWED_ORIGINS sample_config)"
    by (simp add: direct_submission_def)
  from origin_not_allowed[OF this, of sample_platform "answering_remote None" sample_now] n
  show ?thesis by simp
qed

subsection \<open>The e-mail check of the direct handler\<close>

lemma truthy_prop_truthy: "truthy (opt_prop b k) \<Longrightarrow> or_else b (JObj []) = b"
  by (cases b) (auto simp: or_else_def split: if_splits)

lemma email_verified_eq:
  assumes "\<not> truthy realEmail \<or> (\<exists>s. realEmail = JStr s)"
    and "realEmail = opt_prop (opt_prop d1 ''customer'') ''email''"
    and "ToString pf customer_email = Inr email_text"
  shows "email_verified pf d1 customer_email =
     Inr (\<not> (\<not> truthy realEmail
          \<or> (\<exists>s. realEmail = JStr s \<and> toLowerCase pf s \<noteq> toLowerCase pf email_text)))"
  using assms by (auto simp: email_verified_def Let_def)

text \<open>
  A \<^verbatim>\<open>customer_id\<close> that cannot be converted to a string (an object with an own
  \<^verbatim>\<open>toString\<close> property) makes the template literal of route.js line 53 throw: the
  handler throws before any remote call. A \<^verbatim>\<open>customer_email\<close> of that kind makes
  line 61 throw after the e-mail query, when an e-mail is on file.
\<close>

lemma customer_id_not_convertible:
  assumes "origin_header request = Some origin" and "origin \<in> ALLOWED_ORIGINS cfg"
    and "json_body request = Some b"
    and "truthy (opt_prop b ''shop'')" and "truthy (opt_prop b ''customer_id'')"
    and "truthy (opt_prop b ''customer_email'')" and "truthy (opt_prop b ''event_handle'')"
    and "truthy (opt_prop (opt_prop b ''product'') ''product_id'')"
    and "ToString pf (opt_prop b ''customer_id'') = Inl e"
  shows "POST_direct cfg pf remote now request = (Inl e, [])"
proof -
  have b: "or_else b (JObj []) = b"
    using assms(4) by (rule truthy_prop_truthy)
  show ?thesis
    using POST_direct_passed[OF assms(1,2,3), of pf remote now] assms(4-9)
    by (simp add: b)
qed

lemma customer_email_not_convertible:
  assumes "origin_header request = Some origin" and "origin \<in> ALLOWED_ORIGINS cfg"
    and "json_body request = Some b"
    and "truthy (opt_prop b ''shop'')" and "truthy (opt_prop b ''customer_id'')"
    and "truthy (opt_prop b ''customer_email'')" and "truthy (opt_prop b ''event_handle'')"
    and "truthy (opt_prop (opt_prop b ''product'') ''product_id'')"
    and "ToString pf (opt_prop b ''customer_id'') = Inr id_text"
    and "shopifyGraphQL remote (CustomerEmail (customerGID id_text)) = Inr d1"
    and "opt_prop (opt_prop d1 ''customer'') ''email'' = JStr s" and "s \<noteq> []"
    and "ToString pf (opt_prop b ''customer_email'') = Inl e"
  shows "POST_direct cfg pf remote now request = (Inl e, [CustomerEmail (customerGID id_text)])"
proof -
  have b: "or_else b (JObj []) = b"
    using assms(4) by (rule truthy_prop_truthy)
  have "email_verified pf d1 (opt_prop b ''customer_email'') = Inl e"
    using assms(11,12,13) by (simp add: email_verified_def)
  then show ?thesis
    using POST_direct_passed[OF assms(1,2,3), of pf remote now] assms(4-10)
    by (simp add: b)
qed

text \<open>
  Claim C8. Take a direct request that passes the origin check and the field check and
  whose \<^verbatim>\<open>customer_id\<close> and \<^verbatim>\<open>customer_email\<close> convert to strings, and let the
  e-mail query return: the customer's e-mail on file is a string, or there is none. Then
  the first remote call of the handler is that query, and the handler answers with
  status 401 exactly when no e-mail is on file or the e-mail on file differs from the
  supplied \<^verbatim>\<open>customer_email\<close> after both are put in lower case; its answer is then
  \<^verbatim>\<open>Customer verification failed\<close>, and the query was its only call. When the two
  agree in lower case the handler goes on to read, merge and write, and what it returns
  is what that tail returns.
\<close>

theorem customer_email_check:
  assumes "origin_header request = Some origin" and "origin \<in> ALLOWED_ORIGINS cfg"
    and "json_body request = Some b"
    and "truthy (opt_prop b ''shop'')" and "truthy (opt_prop b ''customer_id'')"
    and "truthy (opt_prop b ''customer_email'')" and "truthy (opt_prop b ''event_handle'')"
    and "truthy (opt_prop (opt_prop b ''product'') ''product_id'')"
    and "ToString pf (opt_prop b ''customer_id'') = Inr id_text"
    and "ToString pf (opt_prop b ''customer_email'') = Inr email_text"
    and "gid = customerGID id_text"
    and "shopifyGraphQL remote (CustomerEmail gid) = Inr d1"
    and "realEmail = opt_prop (opt_prop d1 ''customer'') ''email''"
    and "\<not> truthy realEmail \<or> (\<exists>s. realEmail = JStr s)"
    and "mismatch \<longleftrightarrow> \<not> truthy realEmail
           \<or> (\<exists>s. realEmail = JStr s \<and> toLowerCase pf s \<noteq> toLowerCase pf email_text)"
  shows "(\<exists>cs. snd (POST_direct cfg pf remote now request) = CustomerEmail gid # cs)
    \<and> ((\<exists>r. fst (POST_direct cfg pf remote now request) = Inr r \<and> status r = 401) \<longleftrightarrow> mismatch)
    \<and> (mismatch \<longrightarrow> POST_direct cfg pf remote now request
          = (Inr (bad ''Customer verification failed'' 401), [CustomerEmail gid]))
    \<and> (\<not> mismatch \<longrightarrow> POST_direct cfg pf remote now request
          = (case read_merge_write pf Direct remote now gid (opt_prop b ''event_handle'')
                    (opt_prop b ''event_name'') (opt_prop b ''product'') of
               (r, cs) \<Rightarrow> (r, CustomerEmail gid # cs)))"
proof -
  have b: "or_else b (JObj []) = b"
    using assms(4) by (rule truthy_prop_truthy)
  have ev: "email_verified pf d1 (opt_prop b ''customer_email'') = Inr (\<not> mismatch)"
    using email_verified_eq[OF assms(14,13,10)] assms(15) by simp
  obtain res cs where t: "read_merge_write pf Direct remote now gid (opt_prop b ''event_handle'')
                    (opt_prop b ''event_name'') (opt_prop b ''product'') = (res, cs)"
    by (cases "read_merge_write pf Direct remote now gid (opt_prop b ''event_handle'')
                    (opt_prop b ''event_name'') (opt_prop b ''product'')") auto
  have P: "POST_direct cfg pf remote now request =
     (if mismatch then (Inr (bad ''Customer verification failed'' 401), [CustomerEmail gid])
      else (res, CustomerEmail gid # cs))"
    using POST_direct_passed[OF assms(1,2,3), of pf remote now] assms(4-9,11,12) ev t
    by (simp add: b)
  have s: "\<not> (\<exists>r. res = Inr r \<and> status r = 401)"
    using rmw_status[of pf Direct remote now gid _ _ _ _ cs] t by fastforce
  show ?thesis
    using P t s by (auto simp: bad_def)
qed

lemma sample_email_reply:
  "shopifyGraphQL (answering_remote None) (CustomerEmail ''gid://shopify/Customer/7'')
   = Inr (JObj [(''customer'',
       JObj [(''id'', JStr ''gid://shopify/Customer/7''), (''email'', JStr ''Ann@Example.com'')])])"
  by (simp add: shopifyGraphQL_def answering_remote_def get_prop_def)

theorem customer_email_check_witness:
  "POST_direct sample_config sample_platform (answering_remote None) sample_now
     (direct_submission ''https://famelia.com'' ''ann@example.COM'' numeric_id_product)
   = (Inr ok_response,
      [CustomerEmail ''gid://shopify/Customer/7'',
       CustomerMetafield ''gid://shopify/Customer/7'',
       MetafieldsSet ''gid://shopify/Customer/7'' (spring_store [spring_entry ''nice''])])
   \<and> POST_direct sample_config sample_platform (answering_remote None) sample_now
     (direct_submission ''https://famelia.com'' ''bob@example.com'' numeric_id_product)
   = (Inr (bad ''Customer verification failed'' 401), [CustomerEmail ''gid://shopify/Customer/7''])"
proof -
  let ?b = "\<lambda>email. JObj
        [(''shop'', JStr ''famelia-wine.myshopify.com''),
         (''customer_id'', JStr ''7''),
         (''customer_email'', JStr email),
         (''event_handle'', JStr ''spring-2024''),
         (''product'', numeric_id_product)]"
  have o: "''https://famelia.com'' \<in> ALLOWED_ORIGINS sample_config"
    by (simp add: ALLOWED_ORIGINS_def)
  have i: "ToString sample_platform (opt_prop (?b email) ''customer_id'') = Inr ''7''" for email
    by simp
  have g: "''gid://shopify/Customer/7'' = customerGID ''7''"
    by (simp add: customerGID_def)
  have r: "read_merge_write sample_platform Direct (answering_remote None) sample_now
      ''gid://shopify/Customer/7'' (JStr ''spring-2024'') JUndefined numeric_id_product
    = (Inr ok_response,
       [CustomerMetafield ''gid://shopify/Customer/7'',
        MetafieldsSet ''gid://shopify/Customer/7'' (spring_store [spring_entry ''nice''])])"
    by (simp add: handler_defs merge_defs sample_defs Let_def)
  have 1: "POST_direct sample_config sample_platform (answering_remote None) sample_now
     (direct_submission ''https://famelia.com'' ''ann@example.COM'' numeric_id_product)
   = (Inr ok_response,
      [CustomerEmail ''gid://shopify/Customer/7'',
       CustomerMetafield ''gid://shopify/Customer/7'',
       MetafieldsSet ''gid://shopify/Customer/7'' (spring_store [spring_entry ''nice''])])"
    using customer_email_check[where
        request = "direct_submission ''https://famelia.com'' ''ann@example.COM'' numeric_id_product"
        and origin = "''https://famelia.com''" and cfg = sample_config
        and b = "?b ''ann@example.COM''" and pf = sample_platform and id_text = "''7''"
        and email_text = "''ann@example.COM''" and gid = "''gid://shopify/Customer/7''"
        and remote = "answering_remote None" and realEmail = "JStr ''Ann@Example.com''"
        and mismatch = False and now = sample_now,
        OF _ o _ _ _ _ _ _ i _ g sample_email_reply] r
    by (simp add: direct_submission_def numeric_id_product_def sample_platform_def
          sample_toLowerCase_def)
  have 2: "POST_direct sample_config sample_platform (answering_remote None) sample_now
     (direct_submission ''https://famelia.com'' ''bob@example.com'' numeric_id_product)
   = (Inr (bad ''Customer verification failed'' 401), [CustomerEmail ''gid://shopify/Customer/7''])"
    using customer_email_check[where
        request = "direct_submission ''https://famelia.com'' ''bob@example.com'' numeric_id_product"
        and origin = "''https://famelia.com''" and cfg = sample_config
        and b = "?b ''bob@example.com''" and pf = sample_platform and id_text = "''7''"
        and email_text = "''bob@example.com''" and gid = "''gid://shopify/Customer/7''"
        and remote = "answering_remote None" and realEmail = "JStr ''Ann@Example.com''"
        and mismatch = True and now = sample_now,
        OF _ o _ _ _ _ _ _ i _ g sample_email_reply]
    by (simp add: direct_submission_def numeric_id_product_def sample_platform_def
          sample_toLowerCase_def)
  from 1 2 show ?thesis by simp
qed

subsection \<open>A stored document that cannot be used\<close>







subsection \<open>What leaves a handler when something fails\<close>

lemma proxy_unsigned:
  assumes "verifyProxySignature cfg pf (signature_header request) (raw request) = Inr False"
  shows "POST_proxy cfg pf remote now request = (Inr (proxy_error ''Bad signature'' 401), [])"
  using assms by (simp add: POST_proxy_def)

lemma proxy_anonymous:
  assumes "verifyProxySignature cfg pf (signature_header request) (raw request) = Inr True"
    and "logged_in_customer_id request = None \<or> logged_in_customer_id request = Some []"
  shows "POST_proxy cfg pf remote now request = (Inr (proxy_error ''Not logged in'' 401), [])"
  using assms by (auto simp: POST_proxy_def)

lemma proxy_incomplete:
  assumes "verifyProxySignature cfg pf (signature_header request) (raw request) = Inr True"
    and "logged_in_customer_id request = Some l" and "l \<noteq> []"
    and "flds = or_else (case JSON_parse pf (raw request) of Some v \<Rightarrow> v | None \<Rightarrow> JObj [])
                    (JObj [])"
    and "\<not> truthy (opt_prop flds ''event_handle'')
         \<or> \<not> truthy (opt_prop (opt_prop flds ''product'') ''product_id'')"
  shows "POST_proxy cfg pf remote now request
         = (Inr (proxy_error ''Missing event or product'' 400), [])"
  using assms by (auto simp: POST_proxy_def Let_def)

lemma direct_foreign:
  assumes "\<forall>origin. origin_header request = Some origin \<longrightarrow> origin \<notin> ALLOWED_ORIGINS cfg"
  shows "POST_direct cfg pf remote now request = (Inr (bad ''Origin not allowed'' 401), [])"
  using assms by (cases "origin_header request") (simp_all add: POST_direct_def)

lemma direct_unparsed:
  assumes "origin_header request = Some origin" and "origin \<in> ALLOWED_ORIGINS cfg"
    and "json_body request = None"
  shows "POST_direct cfg pf remote now request = (Inr (bad ''Invalid JSON'' 400), [])"
  using assms by (simp add: POST_direct_def)

lemma direct_incomplete:
  assumes "origin_header request = Some origin" and "origin \<in> ALLOWED_ORIGINS cfg"
    and "json_body request = Some b" and "flds = or_else b (JObj [])"
    and "\<not> truthy (opt_prop flds ''shop'') \<or> \<not> truthy (opt_prop flds ''customer_id'')
         \<or> \<not> truthy (opt_prop flds ''customer_email'')
         \<or> \<not> truthy (opt_prop flds ''event_handle'')
         \<or> \<not> truthy (opt_prop (opt_prop flds ''product'') ''product_id'')"
  shows "POST_direct cfg pf remote now request = (Inr (bad ''Missing required fields'' 400), [])"
  using assms(1,2,3,5) unfolding assms(4) by (auto simp: POST_direct_def Let_def)

lemma direct_unverified:
  assumes "origin_header request = Some origin" and "origin \<in> ALLOWED_ORIGINS cfg"
    and "json_body request = Some b" and "flds = or_else b (JObj [])"
    and "truthy (opt_prop flds ''shop'')" and "truthy (opt_prop flds ''customer_id'')"
    and "truthy (opt_prop flds ''customer_email'')" and "truthy (opt_prop flds ''event_handle'')"
    and "truthy (opt_prop (opt_prop flds ''product'') ''product_id'')"
    and "ToString pf (opt_prop flds ''customer_id'') = Inr id_text"
    and "shopifyGraphQL remote (CustomerEmail (customerGID id_text)) = Inr d1"
    and "email_verified pf d1 (opt_prop flds ''customer_email'') = Inr False"
  shows "POST_direct cfg pf remote now request
         = (Inr (bad ''Customer verification failed'' 401), [CustomerEmail (customerGID id_text)])"
  using POST_direct_passed[OF assms(1,2,3), of pf remote now] assms(5-12)
  unfolding assms(4) by simp

lemma proxy_user_errors:
  assumes "POST_proxy cfg pf remote now request = (res, cs)"
    and "MetafieldsSet g s \<in> set cs" and "shopifyGraphQL remote (MetafieldsSet g s) = Inr d"
    and "opt_prop (opt_prop d ''metafieldsSet'') ''userErrors'' = JArr xs" and "xs \<noteq> []"
    and "\<forall>x\<in>set xs. x \<noteq> JUndefined \<and> x \<noteq> JNull"
    and "map (\<lambda>x. opt_prop x ''message'') xs = map JStr ms"
  shows "res = Inr (proxy_error (join ''; '' ms) 500)"
  using POST_proxy_write_result[OF assms(1,2,3)] save_result_userErrors[OF assms(4,5,6,7), of pf Proxy]
  by simp

lemma direct_user_errors:
  assumes "POST_direct cfg pf remote now request = (res, cs)"
    and "MetafieldsSet g s \<in> set cs" and "shopifyGraphQL remote (MetafieldsSet g s) = Inr d"
    and "opt_prop (opt_prop d ''metafieldsSet'') ''userErrors'' = JArr xs" and "xs \<noteq> []"
    and "\<forall>x\<in>set xs. x \<noteq> JUndefined \<and> x \<noteq> JNull"
    and "map (\<lambda>x. opt_prop x ''message'') xs = map JStr ms"
  shows "res = Inr (bad (join ''; '' ms) 500)"
  using POST_direct_write_result[OF assms(1,2,3)] save_result_userErrors[OF assms(4,5,6,7), of pf Direct]
  by simp

text \<open>
  Claim C3, as the code has it. Neither handler catches what
  \<^verbatim>\<open>shopifyGraphQL\<close> throws.
  \<^item> Every response a handler returns is \<^verbatim>\<open>{ok:true}\<close>, or has status 400, 401
    or 500 and a body \<^verbatim>\<open>{ok:false, error: message}\<close>.
  \<^item> Trust failures are answered with 401 and no remote call: by the proxy handler a
    signature that does not verify (\<^verbatim>\<open>Bad signature\<close>) and a missing or empty
    \<^verbatim>\<open>logged_in_customer_id\<close> (\<^verbatim>\<open>Not logged in\<close>); by the direct handler an
    origin outside the allow-list (\<^verbatim>\<open>Origin not allowed\<close>). The direct handler also
    answers 401 (\<^verbatim>\<open>Customer verification failed\<close>) after the e-mail query, its one
    remote call, when the e-mail check fails.
  \<^item> Validation failures are answered with 400 and no remote call: by the proxy handler
    a body without event handle or product id (\<^verbatim>\<open>Missing event or product\<close>); by the
    direct handler a body that is not JSON (\<^verbatim>\<open>Invalid JSON\<close>) and a body with a
    required field missing (\<^verbatim>\<open>Missing required fields\<close>).
  \<^item> User errors reported by the write are the one remote failure that is answered: the
    handler that issued the write returns status 500 and the messages joined with
    \<^verbatim>\<open>"; "\<close>.
  \<^item> When a remote call that a handler issued fails, the handler returns no response:
    the error is thrown out of the handler, and the failed call was its last.
  \<^item> \<^verbatim>\<open>shopifyGraphQL\<close> throws the RemoteError when the reply is not a success or
    carries \<^verbatim>\<open>errors\<close>.

  The claim as stated, a 500 response with a JSON body for every remote failure, fails
  for both handlers; a remote service that answers with a non-success status is
  evaluated below.
\<close>

theorem handler_failure_outcomes:
  "(POST_proxy cfg pf remote now preq = (Inr r, cs) \<longrightarrow>
      r = ok_response
      \<or> (status r \<in> {400, 401, 500}
          \<and> (\<exists>msg. body r = JObj [(''ok'', JBool False), (''error'', JStr msg)])))
   \<and> (POST_direct cfg pf remote now dreq = (Inr r', cs') \<longrightarrow>
      r' = ok_response
      \<or> (status r' \<in> {400, 401, 500}
          \<and> (\<exists>msg. body r' = JObj [(''ok'', JBool False), (''error'', JStr msg)])))
   \<and> (verifyProxySignature cfg pf (signature_header preq) (raw preq) = Inr False \<longrightarrow>
        POST_proxy cfg pf remote now preq = (Inr (proxy_error ''Bad signature'' 401), []))
   \<and> (verifyProxySignature cfg pf (signature_header preq) (raw preq) = Inr True
        \<and> (logged_in_customer_id preq = None \<or> logged_in_customer_id preq = Some []) \<longrightarrow>
        POST_proxy cfg pf remote now preq = (Inr (proxy_error ''Not logged in'' 401), []))
   \<and> (verifyProxySignature cfg pf (signature_header preq) (raw preq) = Inr True
        \<and> logged_in_customer_id preq = Some l \<and> l \<noteq> []
        \<and> pfields = or_else (case JSON_parse pf (raw preq) of Some v \<Rightarrow> v | None \<Rightarrow> JObj [])
                      (JObj [])
        \<and> (\<not> truthy (opt_prop pfields ''event_handle'')
            \<or> \<not> truthy (opt_prop (opt_prop pfields ''product'') ''product_id'')) \<longrightarrow>
        POST_proxy cfg pf remote now preq
          = (Inr (proxy_error ''Missing event or product'' 400), []))
   \<and> ((\<forall>origin. origin_header dreq = Some origin \<longrightarrow> origin \<notin> ALLOWED_ORIGINS cfg) \<longrightarrow>
        POST_direct cfg pf remote now dreq = (Inr (bad ''Origin not allowed'' 401), []))
   \<and> (origin_header dreq = Some origin \<and> origin \<in> ALLOWED_ORIGINS cfg
        \<and> json_body dreq = None \<longrightarrow>
        POST_direct cfg pf remote now dreq = (Inr (bad ''Invalid JSON'' 400), []))
   \<and> (origin_header dreq = Some origin \<and> origin \<in> ALLOWED_ORIGINS cfg
        \<and> json_body dreq = Some b \<and> dfields = or_else b (JObj [])
        \<and> (\<not> truthy (opt_prop dfields ''shop'') \<or> \<not> truthy (opt_prop dfields ''customer_id'')
            \<or> \<not> truthy (opt_prop dfields ''customer_email'')
            \<or> \<not> truthy (opt_prop dfields ''event_handle'')
            \<or> \<not> truthy (opt_prop (opt_prop dfields ''product'') ''product_id'')) \<longrightarrow>
        POST_direct cfg pf remote now dreq = (Inr (bad ''Missing required fields'' 400), []))
   \<and> (origin_header dreq = Some origin \<and> origin \<in> ALLOWED_ORIGINS cfg
        \<and> json_body dreq = Some b \<and> dfields = or_else b (JObj [])
        \<and> truthy (opt_prop dfields ''shop'') \<and> truthy (opt_prop dfields ''customer_id'')
        \<and> truthy (opt_prop dfields ''customer_email'') \<and> truthy (opt_prop dfields ''event_handle'')
        \<and> truthy (opt_prop (opt_prop dfields ''product'') ''product_id'')
        \<and> ToString pf (opt_prop dfields ''customer_id'') = Inr id_text
        \<and> shopifyGraphQL remote (CustomerEmail (customerGID id_text)) = Inr d1
        \<and> email_verified pf d1 (opt_prop dfields ''customer_email'') = Inr False \<longrightarrow>
        POST_direct cfg pf remote now dreq
          = (Inr (bad ''Customer verification failed'' 401), [CustomerEmail (customerGID id_text)]))
   \<and> (POST_proxy cfg pf remote now preq = (res, calls) \<and> MetafieldsSet g s \<in> set calls
        \<and> shopifyGraphQL remote (MetafieldsSet g s) = Inr d
        \<and> opt_prop (opt_prop d ''metafieldsSet'') ''userErrors'' = JArr xs \<and> xs \<noteq> []
        \<and> (\<forall>x\<in>set xs. x \<noteq> JUndefined \<and> x \<noteq> JNull)
        \<and> map (\<lambda>x. opt_prop x ''message'') xs = map JStr ms \<longrightarrow>
        res = Inr (proxy_error (join ''; '' ms) 500))
   \<and> (POST_direct cfg pf remote now dreq = (res', calls') \<and> MetafieldsSet g' s' \<in> set calls'
        \<and> shopifyGraphQL remote (MetafieldsSet g' s') = Inr d'
        \<and> opt_prop (opt_prop d' ''metafieldsSet'') ''userErrors'' = JArr xs' \<and> xs' \<noteq> []
        \<and> (\<forall>x\<in>set xs'. x \<noteq> JUndefined \<and> x \<noteq> JNull)
        \<and> map (\<lambda>x. opt_prop x ''message'') xs' = map JStr ms' \<longrightarrow>
        res' = Inr (bad (join ''; '' ms') 500))
   \<and> (POST_proxy cfg pf remote now preq = (res, calls) \<and> c \<in> set calls
        \<and> shopifyGraphQL remote c = Inl e \<longrightarrow> res = Inl e \<and> last calls = c)
   \<and> (POST_direct cfg pf remote now dreq = (res', calls') \<and> c' \<in> set calls'
        \<and> shopifyGraphQL remote c' = Inl e' \<longrightarrow> res' = Inl e' \<and> last calls' = c')
   \<and> (remote q = Replied ok (Some json) \<and> json \<noteq> JUndefined \<and> json \<noteq> JNull
        \<and> (\<not> ok \<or> truthy (opt_prop json ''errors'')) \<longrightarrow>
        shopifyGraphQL remote q = Inl (RemoteError (or_else (opt_prop json ''errors'') json)))
   \<and> status (proxy_error message code) = code
   \<and> body (proxy_error message code) = JObj [(''ok'', JBool False), (''error'', JStr message)]
   \<and> status (bad message code) = code
   \<and> body (bad message code) = JObj [(''ok'', JBool False), (''error'', JStr message)]"
proof (intro conjI impI)
  assume "POST_proxy cfg pf remote now preq = (Inr r, cs)"
  then show "r = ok_response
      \<or> (status r \<in> {400, 401, 500}
          \<and> (\<exists>msg. body r = JObj [(''ok'', JBool False), (''error'', JStr msg)]))"
    by (rule POST_proxy_shape)
next
  assume "POST_direct cfg pf remote now dreq = (Inr r', cs')"
  then show "r' = ok_response
      \<or> (status r' \<in> {400, 401, 500}
          \<and> (\<exists>msg. body r' = JObj [(''ok'', JBool False), (''error'', JStr msg)]))"
    by (rule POST_direct_shape)
next
  assume "verifyProxySignature cfg pf (signature_header preq) (raw preq) = Inr False"
  then show "POST_proxy cfg pf remote now preq = (Inr (proxy_error ''Bad signature'' 401), [])"
    by (rule proxy_unsigned)
next
  assume "verifyProxySignature cfg pf (signature_header preq) (raw preq) = Inr True
        \<and> (logged_in_customer_id preq = None \<or> logged_in_customer_id preq = Some [])"
  then show "POST_proxy cfg pf remote now preq = (Inr (proxy_error ''Not logged in'' 401), [])"
    using proxy_anonymous[of cfg pf preq remote now] by blast
next
  assume "verifyProxySignature cfg pf (signature_header preq) (raw preq) = Inr True
        \<and> logged_in_customer_id preq = Some l \<and> l \<noteq> []
        \<and> pfields = or_else (case JSON_parse pf (raw preq) of Some v \<Rightarrow> v | None \<Rightarrow> JObj [])
                      (JObj [])
        \<and> (\<not> truthy (opt_prop pfields ''event_handle'')
            \<or> \<not> truthy (opt_prop (opt_prop pfields ''product'') ''product_id''))"
  then show "POST_proxy cfg pf remote now preq
          = (Inr (proxy_error ''Missing event or product'' 400), [])"
    using proxy_incomplete[of cfg pf preq l pfields remote now] by blast
next
  assume "\<forall>origin. origin_header dreq = Some origin \<longrightarrow> origin \<notin> ALLOWED_ORIGINS cfg"
  then show "POST_direct cfg pf remote now dreq = (Inr (bad ''Origin not allowed'' 401), [])"
    by (rule direct_foreign)
next
  assume "origin_header dreq = Some origin \<and> origin \<in> ALLOWED_ORIGINS cfg
        \<and> json_body dreq = None"
  then show "POST_direct cfg pf remote now dreq = (Inr (bad ''Invalid JSON'' 400), [])"
    using direct_unparsed[of dreq origin cfg pf remote now] by blast
next
  assume "origin_header dreq = Some origin \<and> origin \<in> ALLOWED_ORIGINS cfg
        \<and> json_body dreq = Some b \<and> dfields = or_else b (JObj [])
        \<and> (\<not> truthy (opt_prop dfields ''shop'') \<or> \<not> truthy (opt_prop dfields ''customer_id'')
            \<or> \<not> truthy (opt_prop dfields ''customer_email'')
            \<or> \<not> truthy (opt_prop dfields ''event_handle'')
            \<or> \<not> truthy (opt_prop (opt_prop dfields ''product'') ''product_id''))"
  then show "POST_direct cfg pf remote now dreq = (Inr (bad ''Missing required fields'' 400), [])"
    using direct_incomplete[of dreq origin cfg b dfields pf remote now] by blast
next
  assume "origin_header dreq = Some origin \<and> origin \<in> ALLOWED_ORIGINS cfg
        \<and> json_body dreq = Some b \<and> dfields = or_else b (JObj [])
        \<and> truthy (opt_prop dfields ''shop'') \<and> truthy (opt_prop dfields ''customer_id'')
        \<and> truthy (opt_prop dfields ''customer_email'') \<and> truthy (opt_prop dfields ''event_handle'')
        \<and> truthy (opt_prop (opt_prop dfields ''product'') ''product_id'')
        \<and> ToString pf (opt_prop dfields ''customer_id'') = Inr id_text
        \<and> shopifyGraphQL remote (CustomerEmail (customerGID id_text)) = Inr d1
        \<and> email_verified pf d1 (opt_prop dfields ''customer_email'') = Inr False"
  then show "POST_direct cfg pf remote now dreq
          = (Inr (bad ''Customer verification failed'' 401), [CustomerEmail (customerGID id_text)])"
    using direct_unverified[of dreq origin cfg b dfields pf id_text remote d1 now] by blast
next
  assume "POST_proxy cfg pf remote now preq = (res, calls) \<and> MetafieldsSet g s \<in> set calls
        \<and> shopifyGraphQL remote (MetafieldsSet g s) = Inr d
        \<and> opt_prop (opt_prop d ''metafieldsSet'') ''userErrors'' = JArr xs \<and> xs \<noteq> []
        \<and> (\<forall>x\<in>set xs. x \<noteq> JUndefined \<and> x \<noteq> JNull)
        \<and> map (\<lambda>x. opt_prop x ''message'') xs = map JStr ms"
  then show "res = Inr (proxy_error (join ''; '' ms) 500)"
    using proxy_user_errors[of cfg pf remote now preq res calls g s d xs ms] by blast
next
  assume "POST_direct cfg pf remote now dreq = (res', calls') \<and> MetafieldsSet g' s' \<in> set calls'
        \<and> shopifyGraphQL remote (MetafieldsSet g' s') = Inr d'
        \<and> opt_prop (opt_prop d' ''metafieldsSet'') ''userErrors'' = JArr xs' \<and> xs' \<noteq> []
        \<and> (\<forall>x\<in>set xs'. x \<noteq> JUndefined \<and> x \<noteq> JNull)
        \<and> map (\<lambda>x. opt_prop x ''message'') xs' = map JStr ms'"
  then show "res' = Inr (bad (join ''; '' ms') 500)"
    using direct_user_errors[of cfg pf remote now dreq res' calls' g' s' d' xs' ms'] by blast
next
  assume a: "POST_proxy cfg pf remote now preq = (res, calls) \<and> c \<in> set calls
        \<and> shopifyGraphQL remote c = Inl e"
  then show "res = Inl e" "last calls = c"
    using POST_proxy_failed_call[of cfg pf remote now preq res calls c e] by simp_all
next
  assume a: "POST_direct cfg pf remote now dreq = (res', calls') \<and> c' \<in> set calls'
        \<and> shopifyGraphQL remote c' = Inl e'"
  then show "res' = Inl e'" "last calls' = c'"
    using POST_direct_failed_call[of cfg pf remote now dreq res' calls' c' e'] by simp_all
next
  assume "remote q = Replied ok (Some json) \<and> json \<noteq> JUndefined \<and> json \<noteq> JNull
        \<and> (\<not> ok \<or> truthy (opt_prop json ''errors''))"
  then show "shopifyGraphQL remote q = Inl (RemoteError (or_else (opt_prop json ''errors'') json))"
    using shopifyGraphQL_throws[of remote q ok json] by blast
qed (simp_all add: proxy_error_def bad_def)

lemma proxy_refused:
  "POST_proxy sample_config sample_platform refusing_remote sample_now
     (proxy_submission numeric_id_text)
   = (Inl (RemoteError (JStr ''Not Found'')), [CustomerMetafield ''gid://shopify/Customer/7''])"
  by (simp add: handler_defs merge_defs sample_defs Let_def)

lemma direct_refused:
  "POST_direct sample_config sample_platform refusing_remote sample_now
     (direct_submission ''https://famelia.com'' ''ann@example.COM'' numeric_id_product)
   = (Inl (RemoteError (JStr ''Not Found'')), [CustomerEmail ''gid://shopify/Customer/7''])"
  by (simp add: handler_defs merge_defs sample_defs Let_def)

text \<open>
  The remote service answers with a non-success status: both handlers throw the
  RemoteError after their first call and return no response.
\<close>

theorem remote_failure_counterexample:
  "POST_proxy sample_config sample_platform refusing_remote sample_now
     (proxy_submission numeric_id_text)
   = (Inl (RemoteError (JStr ''Not Found'')), [CustomerMetafield ''gid://shopify/Customer/7''])
   \<and> POST_direct sample_config sample_platform refusing_remote sample_now
     (direct_submission ''https://famelia.com'' ''ann@example.COM'' numeric_id_product)
   = (Inl (RemoteError (JStr ''Not Found'')), [CustomerEmail ''gid://shopify/Customer/7''])"
  using proxy_refused direct_refused by (rule conjI)

text \<open>The calls of the two handlers when the write reports user errors.\<close>

lemma proxy_complained_calls:
  "snd (POST_proxy sample_config sample_platform complaining_remote sample_now
     (proxy_submission numeric_id_text))
   = [CustomerMetafield ''gid://shopify/Customer/7'',
      MetafieldsSet ''gid://shopify/Customer/7'' (spring_store [spring_entry ''nice''])]"
  by (simp add: handler_defs merge_defs sample_defs Let_def)

lemma direct_complained_calls:
  "snd (POST_direct sample_config sample_platform complaining_remote sample_now
     (direct_submission ''https://famelia.com'' ''ann@example.COM'' numeric_id_product))
   = [CustomerEmail ''gid://shopify/Customer/7'',
      CustomerMetafield ''gid://shopify/Customer/7'',
      MetafieldsSet ''gid://shopify/Customer/7'' (spring_store [spring_entry ''nice''])]"
  by (simp add: handler_defs merge_defs sample_defs Let_def)

lemma complaint:
  "shopifyGraphQL complaining_remote (MetafieldsSet g s)
   = Inr (JObj [(''metafieldsSet'',
       JObj [(''userErrors'',
         JArr [JObj [(''field'', JNull), (''message'', JStr ''Value is too long'')],
               JObj [(''field'', JNull), (''message'', JStr ''Owner is invalid'')]])])])"
  by (simp add: shopifyGraphQL_def complaining_remote_def get_prop_def)

theorem handler_failure_outcomes_witness:
  "POST_proxy sample_config sample_platform refusing_remote sample_now
      (signed_request ''forged'' (units numeric_id_text))
     = (Inr (proxy_error ''Bad signature'' 401), [])
   \<and> POST_proxy sample_config sample_platform refusing_remote sample_now
      ((proxy_submission numeric_id_text)\<lparr>logged_in_customer_id := None\<rparr>)
     = (Inr (proxy_error ''Not logged in'' 401), [])
   \<and> POST_proxy sample_config sample_platform refusing_remote sample_now (proxy_submission ''{}'')
     = (Inr (proxy_error ''Missing event or product'' 400), [])
   \<and> POST_direct sample_config sample_platform refusing_remote sample_now
      (direct_submission ''https://example.org'' ''ann@example.COM'' numeric_id_product)
     = (Inr (bad ''Origin not allowed'' 401), [])
   \<and> POST_direct sample_config sample_platform refusing_remote sample_now
      \<lparr>origin_header = Some ''https://famelia.com'', json_body = None\<rparr>
     = (Inr (bad ''Invalid JSON'' 400), [])
   \<and> POST_direct sample_config sample_platform refusing_remote sample_now
      \<lparr>origin_header = Some ''https://famelia.com'', json_body = Some (JObj [])\<rparr>
     = (Inr (bad ''Missing required fields'' 400), [])
   \<and> POST_direct sample_config sample_platform (answering_remote None) sample_now
      (direct_submission ''https://famelia.com'' ''bob@example.com'' numeric_id_product)
     = (Inr (bad ''Customer verification failed'' 401), [CustomerEmail ''gid://shopify/Customer/7''])
   \<and> fst (POST_proxy sample_config sample_platform complaining_remote sample_now
            (proxy_submission numeric_id_text))
     = Inr (proxy_error ''Value is too long; Owner is invalid'' 500)
   \<and> fst (POST_direct sample_config sample_platform complaining_remote sample_now
            (direct_submission ''https://famelia.com'' ''ann@example.COM'' numeric_id_product))
     = Inr (bad ''Value is too long; Owner is invalid'' 500)
   \<and> fst (POST_proxy sample_config sample_platform refusing_remote sample_now
            (proxy_submission numeric_id_text))
     = Inl (RemoteError (JStr ''Not Found''))
   \<and> fst (POST_direct sample_config sample_platform refusing_remote sample_now
            (direct_submission ''https://famelia.com'' ''ann@example.COM'' numeric_id_product))
     = Inl (RemoteError (JStr ''Not Found''))
   \<and> shopifyGraphQL refusing_remote (CustomerMetafield ''gid://shopify/Customer/7'')
     = Inl (RemoteError (JStr ''Not Found''))"
proof -
  let ?gid = "''gid://shopify/Customer/7''"
  let ?c = "CustomerMetafield ?gid"
  let ?c' = "CustomerEmail ?gid"
  let ?w = "MetafieldsSet ?gid (spring_store [spring_entry ''nice''])"
  let ?json = "JObj [(''errors'', JStr ''Not Found'')]"
  let ?xs = "[JObj [(''field'', JNull), (''message'', JStr ''Value is too long'')],
              JObj [(''field'', JNull), (''message'', JStr ''Owner is invalid'')]]"
  let ?d = "JObj [(''metafieldsSet'', JObj [(''userErrors'', JArr ?xs)])]"
  let ?P = "\<lambda>remote. POST_proxy sample_config sample_platform remote sample_now"
  let ?D = "\<lambda>remote. POST_direct sample_config sample_platform remote sample_now"
  let ?ann = "direct_submission ''https://famelia.com'' ''ann@example.COM'' numeric_id_product"
  let ?bob = "direct_submission ''https://famelia.com'' ''bob@example.com'' numeric_id_product"
  let ?b = "\<lambda>email. JObj
        [(''shop'', JStr ''famelia-wine.myshopify.com''),
         (''customer_id'', JStr ''7''),
         (''customer_email'', JStr email),
         (''event_handle'', JStr ''spring-2024''),
         (''product'', numeric_id_product)]"
  note t = handler_failure_outcomes[where cfg = sample_config and pf = sample_platform
      and now = sample_now]
  have o: "''https://famelia.com'' \<in> ALLOWED_ORIGINS sample_config"
    by (simp add: ALLOWED_ORIGINS_def)
  have g: "shopifyGraphQL refusing_remote ?c = Inl (RemoteError (JStr ''Not Found''))"
    "shopifyGraphQL refusing_remote ?c' = Inl (RemoteError (JStr ''Not Found''))"
    by (simp_all add: shopifyGraphQL_def refusing_remote_def get_prop_def or_else_def)
  have 1: "?P refusing_remote (signed_request ''forged'' (units numeric_id_text))
     = (Inr (proxy_error ''Bad signature'' 401), [])"
    using t[where remote = refusing_remote
        and preq = "signed_request ''forged'' (units numeric_id_text)",
        THEN conjunct2, THEN conjunct2, THEN conjunct1]
    by (simp add: verifyProxySignature_def timingSafeEqual_def utf8_def raw_def utf8_decode_def
          encode_code_point_def sample_defs)
  have 2: "?P refusing_remote ((proxy_submission numeric_id_text)\<lparr>logged_in_customer_id := None\<rparr>)
     = (Inr (proxy_error ''Not logged in'' 401), [])"
    using t[where remote = refusing_remote
        and preq = "(proxy_submission numeric_id_text)\<lparr>logged_in_customer_id := None\<rparr>",
        THEN conjunct2, THEN conjunct2, THEN conjunct2, THEN conjunct1]
    by (simp add: verifyProxySignature_def timingSafeEqual_def utf8_def raw_def utf8_decode_def
          encode_code_point_def sample_defs)
  have 3: "?P refusing_remote (proxy_submission ''{}'')
     = (Inr (proxy_error ''Missing event or product'' 400), [])"
    using t[where remote = refusing_remote and preq = "proxy_submission ''{}''"
        and l = "''7''" and pfields = "JObj []",
        THEN conjunct2, THEN conjunct2, THEN conjunct2, THEN conjunct2,
        THEN conjunct1]
    by (simp add: verifyProxySignature_def timingSafeEqual_def utf8_def raw_def utf8_decode_def
          encode_code_point_def sample_defs or_else_def)
  have 4: "?D refusing_remote
      (direct_submission ''https://example.org'' ''ann@example.COM'' numeric_id_product)
     = (Inr (bad ''Origin not allowed'' 401), [])"
    using t[where remote = refusing_remote and dreq =
        "direct_submission ''https://example.org'' ''ann@example.COM'' numeric_id_product",
        THEN conjunct2, THEN conjunct2, THEN conjunct2, THEN conjunct2,
        THEN conjunct2, THEN conjunct1]
    by (simp add: direct_submission_def ALLOWED_ORIGINS_def sample_config_def)
  have 5: "?D refusing_remote \<lparr>origin_header = Some ''https://famelia.com'', json_body = None\<rparr>
     = (Inr (bad ''Invalid JSON'' 400), [])"
    using t[where remote = refusing_remote and origin = "''https://famelia.com''"
        and dreq = "\<lparr>origin_header = Some ''https://famelia.com'', json_body = None\<rparr>",
        THEN conjunct2, THEN conjunct2, THEN conjunct2, THEN conjunct2,
        THEN conjunct2, THEN conjunct2, THEN conjunct1] o
    by simp
  have 6: "?D refusing_remote
      \<lparr>origin_header = Some ''https://famelia.com'', json_body = Some (JObj [])\<rparr>
     = (Inr (bad ''Missing required fields'' 400), [])"
    using t[where remote = refusing_remote and origin = "''https://famelia.com''"
        and dreq = "\<lparr>origin_header = Some ''https://famelia.com'', json_body = Some (JObj [])\<rparr>"
        and b = "JObj []" and dfields = "JObj []",
        THEN conjunct2, THEN conjunct2, THEN conjunct2, THEN conjunct2,
        THEN conjunct2, THEN conjunct2, THEN conjunct2, THEN conjunct1] o
    by (simp add: or_else_def)
  have 7: "?D (answering_remote None) ?bob
     = (Inr (bad ''Customer verification failed'' 401), [?c'])"
    using t[where remote = "answering_remote None" and origin = "''https://famelia.com''"
        and dreq = ?bob and b = "?b ''bob@example.com''" and dfields = "?b ''bob@example.com''"
        and id_text = "''7''"
        and ?d1.0 = "JObj [(''customer'',
           JObj [(''id'', JStr ?gid), (''email'', JStr ''Ann@Example.com'')])]",
        THEN conjunct2, THEN conjunct2, THEN conjunct2, THEN conjunct2,
        THEN conjunct2, THEN conjunct2, THEN conjunct2, THEN conjunct2,
        THEN conjunct1] o
    by (simp add: direct_submission_def numeric_id_product_def or_else_def customerGID_def
          shopifyGraphQL_def answering_remote_def get_prop_def email_verified_def
          sample_platform_def sample_toLowerCase_def)
  have 8: "fst (?P complaining_remote (proxy_submission numeric_id_text))
     = Inr (proxy_error ''Value is too long; Owner is invalid'' 500)"
    using t[where remote = complaining_remote and preq = "proxy_submission numeric_id_text"
        and res = "fst (?P complaining_remote (proxy_submission numeric_id_text))"
        and calls = "snd (?P complaining_remote (proxy_submission numeric_id_text))"
        and g = ?gid and s = "spring_store [spring_entry ''nice'']" and d = ?d and xs = ?xs
        and ms = "[''Value is too long'', ''Owner is invalid'']",
        THEN conjunct2, THEN conjunct2, THEN conjunct2, THEN conjunct2,
        THEN conjunct2, THEN conjunct2, THEN conjunct2, THEN conjunct2,
        THEN conjunct2, THEN conjunct1]
    by (simp add: prod_eq_iff proxy_complained_calls complaint)
  have 9: "fst (?D complaining_remote ?ann)
     = Inr (bad ''Value is too long; Owner is invalid'' 500)"
    using t[where remote = complaining_remote and dreq = ?ann
        and res' = "fst (?D complaining_remote ?ann)"
        and calls' = "snd (?D complaining_remote ?ann)"
        and g' = ?gid and s' = "spring_store [spring_entry ''nice'']" and d' = ?d and xs' = ?xs
        and ms' = "[''Value is too long'', ''Owner is invalid'']",
        THEN conjunct2, THEN conjunct2, THEN conjunct2, THEN conjunct2,
        THEN conjunct2, THEN conjunct2, THEN conjunct2, THEN conjunct2,
        THEN conjunct2, THEN conjunct2, THEN conjunct1]
    by (simp add: prod_eq_iff direct_complained_calls complaint)
  have 10: "fst (?P refusing_remote (proxy_submission numeric_id_text))
     = Inl (RemoteError (JStr ''Not Found''))"
    using t[where remote = refusing_remote and preq = "proxy_submission numeric_id_text"
        and res = "fst (?P refusing_remote (proxy_submission numeric_id_text))"
        and calls = "[?c]" and c = ?c and e = "RemoteError (JStr ''Not Found'')",
        THEN conjunct2, THEN conjunct2, THEN conjunct2, THEN conjunct2,
        THEN conjunct2, THEN conjunct2, THEN conjunct2, THEN conjunct2,
        THEN conjunct2, THEN conjunct2, THEN conjunct2, THEN conjunct1]
      g proxy_refused by simp
  have 11: "fst (?D refusing_remote ?ann) = Inl (RemoteError (JStr ''Not Found''))"
    using t[where remote = refusing_remote and dreq = ?ann
        and res' = "fst (?D refusing_remote ?ann)"
        and calls' = "[?c']" and c' = ?c' and e' = "RemoteError (JStr ''Not Found'')",
        THEN conjunct2, THEN conjunct2, THEN conjunct2, THEN conjunct2,
        THEN conjunct2, THEN conjunct2, THEN conjunct2, THEN conjunct2,
        THEN conjunct2, THEN conjunct2, THEN conjunct2, THEN conjunct2,
        THEN conjunct1]
      g direct_refused by simp
  have 12: "shopifyGraphQL refusing_remote ?c = Inl (RemoteError (JStr ''Not Found''))"
    using t[where remote = refusing_remote and q = ?c and ok = False and json = ?json,
        THEN conjunct2, THEN conjunct2, THEN conjunct2, THEN conjunct2,
        THEN conjunct2, THEN conjunct2, THEN conjunct2, THEN conjunct2,
        THEN conjunct2, THEN conjunct2, THEN conjunct2, THEN conjunct2,
        THEN conjunct2, THEN conjunct1]
    by (simp add: refusing_remote_def or_else_def)
  from 1 2 3 4 5 6 7 8 9 10 11 12 show ?thesis by simp
qed

section \<open>Resubmissions\<close>

subsection \<open>What a merge that returns has done\<close>

lemma upd_field_twice: "upd_field k v (upd_field k w fs) = upd_field k v fs"
  by (induction fs) auto

lemma wine_matches_iff:
  assumes "product \<noteq> JUndefined" "product \<noteq> JNull"
    and "comparand pf h (opt_prop product ''product_id'') = Inr c"
  shows "wine_matches pf h product w = Inr b \<longleftrightarrow>
     (w \<noteq> JUndefined \<and> w \<noteq> JNull \<and> b = strict_eq (opt_prop w ''product_id'') c)"
  using assms by (auto simp: wine_matches_def get_prop_def)

lemma comparand_total:
  assumes "ToNumber pf pid = Inr n"
  shows "\<exists>c. comparand pf h pid = Inr c"
  using assms by (cases h) (simp_all add: comparand_def)

lemma merge_result:
  assumes m: "merge pf h now store event_handle event_name product = Inr store'"
    and th: "truthy event_handle"
  obtains
    (new) fs es entry where
      "store = JObj fs" "map_of fs ''events'' = Some (JArr es)"
      "findIndex (event_matches event_handle) es = Inr None"
      "make_entry pf now product = Inr entry"
      "store' = JObj (upd_field ''events'' (JArr (es @ [JObj
            [(''id'', event_handle),
             (''name'', or_else event_name event_handle),
             (''date'', JStr (take 10 now)),
             (''collection_handle'', event_handle),
             (''wines'', JArr [entry])]])) fs)"
  | (old) fs es i efs ws idx entry where
      "store = JObj fs" "map_of fs ''events'' = Some (JArr es)"
      "findIndex (event_matches event_handle) es = Inr (Some i)"
      "es ! i = JObj efs" "map_of efs ''wines'' = Some (JArr ws)"
      "findIndex (wine_matches pf h product) ws = Inr idx"
      "make_entry pf now product = Inr entry"
      "store' = JObj (upd_field ''events''
         (JArr (es[i := JObj (upd_field ''wines''
            (JArr (case idx of None \<Rightarrow> ws @ [entry] | Some j \<Rightarrow> ws[j := entry])) efs)])) fs)"
proof -
  from m obtain fs es found where s: "store = JObj fs" "map_of fs ''events'' = Some (JArr es)"
    and fi: "findIndex (event_matches event_handle) es = Inr found"
    by (rule merge_events_array)
  have ev: "get_prop store ''events'' = Inr (JArr es)"
    using s by (simp add: get_prop_def)
  show thesis
  proof (cases found)
    case None
    with fi have nf: "findIndex (event_matches event_handle) es = Inr None" by simp
    from m obtain entry where "make_entry pf now product = Inr entry"
      "store' = set_prop store ''events''
         (JArr (es @ [JObj
            [(''id'', event_handle),
             (''name'', or_else event_name event_handle),
             (''date'', JStr (take 10 now)),
             (''collection_handle'', event_handle),
             (''wines'', JArr [entry])]]))"
      by (auto simp: merge_not_found[OF ev nf] ebind_eq_Inr)
    with s nf show thesis by (intro new[of fs es entry]) simp_all
  next
    case (Some i)
    with fi have f: "findIndex (event_matches event_handle) es = Inr (Some i)" by simp
    then have "event_matches event_handle (es ! i) = Inr True" by (simp add: findIndex_Some)
    then have t: "truthy (es ! i)" using th by (rule matched_event_truthy)
    from ev f t m obtain efs ws idx entry where
      "es ! i = JObj efs" "map_of efs ''wines'' = Some (JArr ws)"
      "findIndex (wine_matches pf h product) ws = Inr idx"
      "make_entry pf now product = Inr entry"
      "store' = set_prop store ''events''
       (JArr (es[i := JObj (upd_field ''wines''
          (JArr (case idx of None \<Rightarrow> ws @ [entry] | Some j \<Rightarrow> ws[j := entry])) efs)]))"
      by (rule merge_found_result)
    with s f show thesis by (intro old[of fs es i efs ws idx entry]) simp_all
  qed
qed

text \<open>
  A submission that finds its event and its entry replaces that entry at its position;
  the other entries, the other properties of the event and the other events stay.
\<close>

lemma merge_replaces_in_place:
  assumes "store = JObj fs" and "map_of fs ''events'' = Some (JArr es)"
    and f: "findIndex (event_matches event_handle) es = Inr (Some i)"
    and th: "truthy event_handle"
    and "es ! i = JObj efs" and "map_of efs ''wines'' = Some (JArr ws)"
    and "findIndex (wine_matches pf h product) ws = Inr (Some j)"
    and "make_entry pf now product = Inr entry"
  shows "merge pf h now store event_handle event_name product =
     Inr (JObj (upd_field ''events''
       (JArr (es[i := JObj (upd_field ''wines'' (JArr (ws[j := entry])) efs)])) fs))"
proof -
  have ev: "get_prop store ''events'' = Inr (JArr es)"
    using assms(1,2) by (simp add: get_prop_def)
  from f have "event_matches event_handle (es ! i) = Inr True" by (simp add: findIndex_Some)
  then have t: "truthy (es ! i)" using th by (rule matched_event_truthy)
  from merge_found[OF ev f t, of pf h now event_name product] assms(5-8)
  have "merge pf h now store event_handle event_name product =
     Inr (set_prop store ''events''
       (JArr (es[i := JObj (upd_field ''wines'' (JArr (ws[j := entry])) efs)])))"
    by (simp add: get_prop_def)
  then show ?thesis using assms(1) by simp
qed

subsection \<open>Merging the same submission again\<close>

text \<open>
  The stored entry is found again by its own submission when the number that is stored
  is strictly equal to what the handler compares with. The direct handler compares with
  \<^verbatim>\<open>Number(product.product_id)\<close>, so this holds unless that is NaN; the proxy
  handler compares with \<^verbatim>\<open>product.product_id\<close>, so it holds when the submitted id
  is a number other than NaN, and for no other submitted id. Under that condition a
  second merge of the same submission changes nothing, and neither does any number of
  further ones when the document is read back as it was written, that is, when it holds
  no infinite number and no \<^verbatim>\<open>undefined\<close>.
\<close>

lemma entry_matches_itself:
  assumes me: "make_entry pf now product = Inr entry"
    and tn: "ToNumber pf (opt_prop product ''product_id'') = Inr n"
    and cm: "comparand pf h (opt_prop product ''product_id'') = Inr c"
    and key: "strict_eq (JNum n) c"
  shows "wine_matches pf h product entry = Inr True"
proof -
  from me obtain n' note' where p: "product \<noteq> JUndefined" "product \<noteq> JNull"
    and n': "ToNumber pf (opt_prop product ''product_id'') = Inr n'"
    and e: "entry = JObj
       [(''product_id'', JNum n'),
        (''handle'', or_else (opt_prop product ''handle'') (JStr '''')),
        (''title'', or_else (opt_prop product ''title'') (JStr '''')),
        (''rating'', (case opt_prop product ''rating'' of JNum n \<Rightarrow> JNum n | _ \<Rightarrow> JNull)),
        (''note'', note'),
        (''updated_at'', JStr now)]"
    by (rule make_entry_Inr)
  from n' tn have "n' = n" by simp
  then show ?thesis
    using key by (simp add: wine_matches_iff[OF p cm] e)
qed

lemma merge_idempotent:
  assumes m: "merge pf h now store event_handle event_name product = Inr store'"
    and th: "truthy event_handle"
    and se: "strict_eq event_handle event_handle"
    and tn: "ToNumber pf (opt_prop product ''product_id'') = Inr n"
    and cm: "comparand pf h (opt_prop product ''product_id'') = Inr c"
    and key: "strict_eq (JNum n) c"
  shows "merge pf h now store' event_handle event_name product = Inr store'"
  using m th
proof (cases rule: merge_result)
  case (new fs es entry)
  define ne where "ne = JObj
            [(''id'', event_handle),
             (''name'', or_else event_name event_handle),
             (''date'', JStr (take 10 now)),
             (''collection_handle'', event_handle),
             (''wines'', JArr [entry])]"
  have s1: "store' = JObj (upd_field ''events'' (JArr (es @ [ne])) fs)"
    using new(5) by (simp add: ne_def)
  have ev1: "get_prop store' ''events'' = Inr (JArr (es @ [ne]))"
    by (simp add: s1 get_prop_def map_of_upd_field)
  have miss: "\<forall>x\<in>set es. event_matches event_handle x = Inr False"
    using new(3) by (simp add: findIndex_None)
  have hit: "event_matches event_handle ne = Inr True"
    using se by (simp add: event_matches_iff ne_def)
  have f1: "findIndex (event_matches event_handle) (es @ [ne]) = Inr (Some (length es))"
    using miss hit by (simp add: findIndex_Some nth_append)
  have t1: "truthy ((es @ [ne]) ! length es)" by (simp add: ne_def)
  have w: "findIndex (wine_matches pf h product) [entry] = Inr (Some 0)"
    using entry_matches_itself[OF new(4) tn cm key] by simp
  have "merge pf h now store' event_handle event_name product =
      Inr (set_prop store' ''events'' (JArr ((es @ [ne])[length es := ne])))"
    using w new(4) by (simp add: merge_found[OF ev1 f1 t1]) (simp add: ne_def get_prop_def)
  then show ?thesis by (simp add: s1 upd_field_twice)
next
  case (old fs es i efs ws idx entry)
  define ws1 where "ws1 = (case idx of None \<Rightarrow> ws @ [entry] | Some j \<Rightarrow> ws[j := entry])"
  define evt1 where "evt1 = JObj (upd_field ''wines'' (JArr ws1) efs)"
  define j1 where "j1 = (case idx of None \<Rightarrow> length ws | Some j \<Rightarrow> j)"
  have s1: "store' = JObj (upd_field ''events'' (JArr (es[i := evt1])) fs)"
    using old(8) by (simp add: evt1_def ws1_def)
  have ev1: "get_prop store' ''events'' = Inr (JArr (es[i := evt1]))"
    by (simp add: s1 get_prop_def map_of_upd_field)
  from old(3) have il: "i < length es"
    and hit: "event_matches event_handle (es ! i) = Inr True"
    and miss: "\<forall>j<i. event_matches event_handle (es ! j) = Inr False"
    by (simp_all add: findIndex_Some)
  have hit1: "event_matches event_handle evt1 = Inr True"
    using hit old(4) by (simp add: event_matches_iff evt1_def map_of_upd_field)
  have f1: "findIndex (event_matches event_handle) (es[i := evt1]) = Inr (Some i)"
    using il hit1 miss by (simp add: findIndex_Some)
  have t1: "truthy (es[i := evt1] ! i)" using il by (simp add: evt1_def)
  have em: "wine_matches pf h product entry = Inr True"
    using old(7) tn cm key by (rule entry_matches_itself)
  have w: "findIndex (wine_matches pf h product) ws1 = Inr (Some j1) \<and> ws1[j1 := entry] = ws1"
  proof (cases idx)
    case None
    with old(6) have "\<forall>x\<in>set ws. wine_matches pf h product x = Inr False"
      by (simp add: findIndex_None)
    with None em show ?thesis
      by (simp add: ws1_def j1_def findIndex_Some nth_append)
  next
    case (Some j)
    with old(6) have "j < length ws" "\<forall>k<j. wine_matches pf h product (ws ! k) = Inr False"
      by (simp_all add: findIndex_Some)
    with Some em show ?thesis
      by (simp add: ws1_def j1_def findIndex_Some)
  qed
  have g: "get_prop (es[i := evt1] ! i) ''wines'' = Inr (JArr ws1)"
    using il by (simp add: evt1_def get_prop_def map_of_upd_field)
  have "merge pf h now store' event_handle event_name product =
      Inr (set_prop store' ''events'' (JArr (es[i := evt1, i := set_prop evt1 ''wines'' (JArr ws1)])))"
    using w old(7) g il by (simp add: merge_found[OF ev1 f1 t1])
  then show ?thesis by (simp add: s1 upd_field_twice evt1_def)
qed

lemma merge_times_idempotent:
  assumes m: "merge pf h now store event_handle event_name product = Inr store'"
    and th: "truthy event_handle"
    and se: "strict_eq event_handle event_handle"
    and tn: "ToNumber pf (opt_prop product ''product_id'') = Inr n"
    and cm: "comparand pf h (opt_prop product ''product_id'') = Inr c"
    and key: "strict_eq (JNum n) c"
    and readback: "stored store' = store'"
  shows "merge_times (Suc k) pf h now store event_handle event_name product = Inr store'"
proof -
  have again: "merge pf h now store' event_handle event_name product = Inr store'"
    using m th se tn cm key by (rule merge_idempotent)
  have "merge_times j pf h now store' event_handle event_name product = Inr store'" for j
    by (induction j) (simp_all add: again readback)
  with m readback show ?thesis by simp
qed

subsection \<open>The uniqueness invariants\<close>

text \<open>
  Under the same condition a merge keeps the store a store document with at most one
  event per \<^verbatim>\<open>collection_handle\<close> and at most one entry per \<^verbatim>\<open>product_id\<close>
  within an event, and on such a store the merge throws nothing once the entry literal
  evaluates.
\<close>

lemma strict_eq_string: "is_string a \<Longrightarrow> strict_eq a (JStr s) \<longleftrightarrow> a = JStr s"
  by (cases a) auto

lemma strict_eq_id: "is_id a \<Longrightarrow> n \<noteq> NaN \<Longrightarrow> strict_eq a (JNum n) \<longleftrightarrow> a = JNum n"
  by (cases a) auto

lemma findIndex_total:
  "\<forall>x\<in>set xs. \<exists>b. p x = Inr b \<Longrightarrow> \<exists>r. findIndex p xs = Inr r"
  by (induction xs) auto

lemma is_object_not_nullish: "is_object v \<Longrightarrow> v \<noteq> JUndefined \<and> v \<noteq> JNull \<and> truthy v"
  by (cases v) auto

lemma store_invariantD:
  assumes "store_invariant store"
  obtains fs es where "store = JObj fs" "map_of fs ''events'' = Some (JArr es)"
    "list_all is_object es" "list_all is_string (event_handles es)"
    "distinct (event_handles es)"
    "list_all (\<lambda>e. wines_invariant (opt_prop e ''wines'')) es"
proof -
  from assms obtain es where e: "opt_prop store ''events'' = JArr es"
    and r: "list_all is_object es" "list_all is_string (event_handles es)"
      "distinct (event_handles es)"
      "list_all (\<lambda>e. wines_invariant (opt_prop e ''wines'')) es"
    by (auto simp: store_invariant_def split: jsval.splits)
  from e obtain fs where "store = JObj fs" "map_of fs ''events'' = Some (JArr es)"
    by (cases store) (auto split: option.splits if_splits)
  then show thesis using r by (rule that)
qed

lemma wines_invariantD:
  assumes "wines_invariant v"
  obtains ws where "v = JArr ws" "list_all is_object ws" "list_all is_id (product_ids ws)"
    "distinct (product_ids ws)"
  using assms by (auto simp: wines_invariant_def split: jsval.splits)

lemma entry_is_wine:
  assumes "make_entry pf now product = Inr entry"
    and "ToNumber pf (opt_prop product ''product_id'') = Inr n"
  shows "is_object entry" and "opt_prop entry ''product_id'' = JNum n"
  using assms by (auto elim!: make_entry_Inr)

lemma merge_keeps_invariant:
  assumes inv: "store_invariant store"
    and m: "merge pf h now store (JStr handle) event_name product = Inr store'"
    and ne: "handle \<noteq> []"
    and tn: "ToNumber pf (opt_prop product ''product_id'') = Inr n"
    and key: "comparand pf h (opt_prop product ''product_id'') = Inr (JNum n)"
    and num: "n \<noteq> NaN"
  shows "store_invariant store'"
proof -
  from inv obtain fs0 es0 where i0: "store = JObj fs0" "map_of fs0 ''events'' = Some (JArr es0)"
    "list_all is_object es0" "list_all is_string (event_handles es0)"
    "distinct (event_handles es0)"
    "list_all (\<lambda>e. wines_invariant (opt_prop e ''wines'')) es0"
    by (rule store_invariantD)
  have th: "truthy (JStr handle)" using ne by simp
  define num_id where "num_id = JNum n"
  from m th show ?thesis
  proof (cases rule: merge_result)
    case (new fs es entry)
    with i0 have [simp]: "es = es0" by simp
    have "\<forall>x\<in>set es0. opt_prop x ''collection_handle'' \<noteq> JStr handle"
    proof
      fix x assume x: "x \<in> set es0"
      with new(3) have "event_matches (JStr handle) x = Inr False" by (simp add: findIndex_None)
      then have "\<not> strict_eq (opt_prop x ''collection_handle'') (JStr handle)"
        by (simp add: event_matches_iff)
      moreover have "is_string (opt_prop x ''collection_handle'')"
        using i0(4) x by (auto simp: list_all_iff event_handles_def)
      ultimately show "opt_prop x ''collection_handle'' \<noteq> JStr handle"
        by (simp add: strict_eq_string)
    qed
    then have d: "JStr handle \<notin> set (event_handles es0)"
      by (auto simp: event_handles_def)
    have w: "wines_invariant (JArr [entry])"
      using entry_is_wine[OF new(4) tn] num
      by (simp add: wines_invariant_def product_ids_def)
    show ?thesis
      using i0(3-6) d w
      by (simp add: new(5) store_invariant_def map_of_upd_field event_handles_def)
  next
    case (old fs es i efs ws idx entry)
    with i0 have [simp]: "es = es0" by simp
    define ws1 where "ws1 = (case idx of None \<Rightarrow> ws @ [entry] | Some j \<Rightarrow> ws[j := entry])"
    define evt1 where "evt1 = JObj (upd_field ''wines'' (JArr ws1) efs)"
    from old(3) have il: "i < length es0" by (simp add: findIndex_Some)
    from make_entry_Inr[OF old(7)] have p: "product \<noteq> JUndefined" "product \<noteq> JNull" by auto
    have "wines_invariant (opt_prop (es0 ! i) ''wines'')"
      using i0(6) il by (simp add: list_all_length)
    with old(4,5) have wi: "list_all is_object ws" "list_all is_id (product_ids ws)"
      "distinct (product_ids ws)"
      by (auto elim!: wines_invariantD)
    have e: "is_object entry" "opt_prop entry ''product_id'' = num_id"
      using entry_is_wine[OF old(7) tn] by (simp_all add: num_id_def)
    have w1: "wines_invariant (JArr ws1)"
    proof (cases idx)
      case None
      have "\<forall>x\<in>set ws. opt_prop x ''product_id'' \<noteq> num_id"
      proof
        fix x assume x: "x \<in> set ws"
        with old(6) None have "wine_matches pf h product x = Inr False"
          by (simp add: findIndex_None)
        then have "\<not> strict_eq (opt_prop x ''product_id'') num_id"
          by (simp add: wine_matches_iff[OF p key] num_id_def)
        moreover have "is_id (opt_prop x ''product_id'')"
          using wi(2) x by (auto simp: list_all_iff product_ids_def)
        ultimately show "opt_prop x ''product_id'' \<noteq> num_id"
          using num by (simp add: strict_eq_id num_id_def)
      qed
      then have "num_id \<notin> set (product_ids ws)" by (auto simp: product_ids_def)
      with None wi e num show ?thesis
        by (simp add: wines_invariant_def ws1_def product_ids_def num_id_def)
    next
      case (Some j)
      with old(6) have jl: "j < length ws" and "wine_matches pf h product (ws ! j) = Inr True"
        by (simp_all add: findIndex_Some)
      then have "strict_eq (opt_prop (ws ! j) ''product_id'') num_id"
        by (simp add: wine_matches_iff[OF p key] num_id_def)
      moreover have "is_id (opt_prop (ws ! j) ''product_id'')"
        using wi(2) jl by (simp add: list_all_length product_ids_def)
      ultimately have same: "opt_prop (ws ! j) ''product_id'' = num_id"
        using num by (simp add: strict_eq_id num_id_def)
      have ids: "product_ids (ws[j := entry]) = product_ids ws"
        using jl same e(2) by (simp add: product_ids_def map_update list_update_same_conv)
      have "list_all is_object (ws[j := entry])"
        using wi(1) e(1) jl by (auto simp: list_all_length nth_list_update)
      with Some wi ids show ?thesis
        by (simp add: wines_invariant_def ws1_def)
    qed
    have hs: "event_handles (es0[i := evt1]) = event_handles es0"
      using il old(4) by (simp add: event_handles_def map_update list_update_same_conv evt1_def map_of_upd_field)
    have ob: "list_all is_object (es0[i := evt1])"
      using i0(3) il by (auto simp: list_all_length nth_list_update evt1_def)
    have wv: "list_all (\<lambda>e. wines_invariant (opt_prop e ''wines'')) (es0[i := evt1])"
      using i0(6) w1 il by (auto simp: list_all_length nth_list_update evt1_def map_of_upd_field)
    have "store' = JObj (upd_field ''events'' (JArr (es0[i := evt1])) fs)"
      using old(8) by (simp add: evt1_def ws1_def)
    then show ?thesis
      using hs ob wv i0(4,5) by (simp add: store_invariant_def map_of_upd_field)
  qed
qed

lemma merge_total:
  assumes inv: "store_invariant store"
    and me: "make_entry pf now product = Inr entry"
  shows "\<exists>store'. merge pf h now store event_handle event_name product = Inr store'"
proof -
  from inv obtain fs es where i0: "store = JObj fs" "map_of fs ''events'' = Some (JArr es)"
    "list_all is_object es"
    "list_all (\<lambda>e. wines_invariant (opt_prop e ''wines'')) es"
    by (rule store_invariantD)
  have ev: "get_prop store ''events'' = Inr (JArr es)"
    using i0 by (simp add: get_prop_def)
  from make_entry_Inr[OF me] obtain n where p: "product \<noteq> JUndefined" "product \<noteq> JNull"
    and "ToNumber pf (opt_prop product ''product_id'') = Inr n" by auto
  then obtain c where cm: "comparand pf h (opt_prop product ''product_id'') = Inr c"
    using comparand_total by blast
  have "\<forall>x\<in>set es. \<exists>b. event_matches event_handle x = Inr b"
    using i0(3) by (auto simp: list_all_iff event_matches_iff dest: is_object_not_nullish)
  then obtain found where f: "findIndex (event_matches event_handle) es = Inr found"
    using findIndex_total by blast
  show ?thesis
  proof (cases found)
    case None
    with f me show ?thesis by (simp add: merge_not_found[OF ev])
  next
    case (Some i)
    with f have fi: "findIndex (event_matches event_handle) es = Inr (Some i)" by simp
    then have il: "i < length es" by (simp add: findIndex_Some)
    then have t: "truthy (es ! i)" and ne: "es ! i \<noteq> JUndefined" "es ! i \<noteq> JNull"
      using i0(3) by (auto simp: list_all_length dest: is_object_not_nullish)
    have "wines_invariant (opt_prop (es ! i) ''wines'')"
      using i0(4) il by (simp add: list_all_length)
    then obtain ws where w: "opt_prop (es ! i) ''wines'' = JArr ws" "list_all is_object ws"
      by (auto elim!: wines_invariantD)
    have "\<forall>x\<in>set ws. \<exists>b. wine_matches pf h product x = Inr b"
      using w(2) by (auto simp: list_all_iff wine_matches_iff[OF p cm] dest: is_object_not_nullish)
    then obtain idx where "findIndex (wine_matches pf h product) ws = Inr idx"
      using findIndex_total by blast
    with me w ne show ?thesis
      by (simp add: merge_found[OF ev fi t] get_prop_def)
  qed
qed

subsection \<open>The proxy handler and an id submitted as a string\<close>

lemma proxy_string_id_merge:
  "merge sample_platform Proxy sample_now (spring_store [spring_entry ''nice''])
     (JStr ''spring-2024'') JUndefined string_id_product
   = Inr (spring_store [spring_entry ''nice'', spring_entry ''nicer''])"
  by (simp add: merge_defs sample_defs)

lemma direct_string_id_merge:
  "merge sample_platform Direct sample_now (spring_store [spring_entry ''nice''])
     (JStr ''spring-2024'') JUndefined string_id_product
   = Inr (spring_store [spring_entry ''nicer''])"
  by (simp add: merge_defs sample_defs)

lemma proxy_string_id_request:
  "POST_proxy sample_config sample_platform (answering_remote (Some stored_spring_text)) sample_now
     (proxy_submission string_id_text)
   = (Inr ok_response,
      [CustomerMetafield ''gid://shopify/Customer/7'',
       MetafieldsSet ''gid://shopify/Customer/7''
         (spring_store [spring_entry ''nice'', spring_entry ''nicer''])])"
  by (simp add: handler_defs merge_defs sample_defs Let_def)

text \<open>
  Claim C1. The merge is to keep at most one event per \<^verbatim>\<open>collection_handle\<close> and
  at most one entry per \<^verbatim>\<open>product_id\<close> within an event. The proxy handler
  (part_000) breaks this for an id submitted as a string: line 78 compares the stored
  \<^verbatim>\<open>product_id\<close> with \<^verbatim>\<open>product.product_id\<close> as submitted, line 80 stores
  \<^verbatim>\<open>Number(product.product_id)\<close>. With the entry for product 101 stored and
  \<^verbatim>\<open>"101"\<close> submitted, the store satisfies the invariant, the merge appends a
  second entry whose \<^verbatim>\<open>product_id\<close> is 101, the merged store does not satisfy the
  invariant, and the handler writes that store and answers \<^verbatim>\<open>{ok:true}\<close>. The
  direct handler (route.js line 85) compares with \<^verbatim>\<open>Number(product.product_id)\<close>
  and replaces the entry on the same input.
\<close>

theorem proxy_string_id_duplicates:
  "store_invariant (spring_store [spring_entry ''nice''])
   \<and> merge sample_platform Proxy sample_now (spring_store [spring_entry ''nice''])
       (JStr ''spring-2024'') JUndefined string_id_product
     = Inr (spring_store [spring_entry ''nice'', spring_entry ''nicer''])
   \<and> opt_prop (spring_entry ''nice'') ''product_id'' = JNum (Fin 101)
   \<and> opt_prop (spring_entry ''nicer'') ''product_id'' = JNum (Fin 101)
   \<and> \<not> store_invariant (spring_store [spring_entry ''nice'', spring_entry ''nicer''])
   \<and> POST_proxy sample_config sample_platform (answering_remote (Some stored_spring_text)) sample_now
       (proxy_submission string_id_text)
     = (Inr ok_response,
        [CustomerMetafield ''gid://shopify/Customer/7'',
         MetafieldsSet ''gid://shopify/Customer/7''
           (spring_store [spring_entry ''nice'', spring_entry ''nicer''])])
   \<and> merge sample_platform Direct sample_now (spring_store [spring_entry ''nice''])
       (JStr ''spring-2024'') JUndefined string_id_product
     = Inr (spring_store [spring_entry ''nicer''])"
proof -
  have "store_invariant (spring_store [spring_entry ''nice''])"
    by (simp add: store_invariant_def wines_invariant_def event_handles_def product_ids_def
          spring_store_def spring_event_def tasting_event_def spring_entry_def wine_entry_def)
  moreover have "\<not> store_invariant (spring_store [spring_entry ''nice'', spring_entry ''nicer''])"
    by (simp add: store_invariant_def wines_invariant_def event_handles_def product_ids_def
          spring_store_def spring_event_def tasting_event_def spring_entry_def wine_entry_def)
  moreover have "opt_prop (spring_entry ''nice'') ''product_id'' = JNum (Fin 101)"
    "opt_prop (spring_entry ''nicer'') ''product_id'' = JNum (Fin 101)"
    by (simp_all add: spring_entry_def wine_entry_def)
  ultimately show ?thesis
    using proxy_string_id_merge proxy_string_id_request direct_string_id_merge by simp
qed

text \<open>The store that the proxy handler writes on that request breaks the invariant.\<close>

theorem proxy_string_id_duplicates_witness:
  "snd (POST_proxy sample_config sample_platform (answering_remote (Some stored_spring_text))
          sample_now (proxy_submission string_id_text))
     = [CustomerMetafield ''gid://shopify/Customer/7'',
        MetafieldsSet ''gid://shopify/Customer/7''
          (spring_store [spring_entry ''nice'', spring_entry ''nicer''])]
   \<and> \<not> store_invariant (spring_store [spring_entry ''nice'', spring_entry ''nicer''])"
  using proxy_string_id_duplicates by simp

text \<open>
  Claim C2. A submission for a pair of event and product that already has an entry is
  to replace that entry in place, so that merging it again changes nothing. The proxy
  handler breaks this for an id submitted as a string, by the comparison of part_000
  line 78: with the entry for product 101 stored and \<^verbatim>\<open>"101"\<close> submitted, the first
  merge appends instead of replacing, leaving the stored entry as it was, and every
  further merge of the same submission appends once more, so that two merges do not
  give the store of one. The direct handler replaces the entry in place on the same
  input, and a second merge gives the same store.
\<close>

theorem proxy_string_id_not_idempotent:
  "merge_times 1 sample_platform Proxy sample_now (spring_store [spring_entry ''nice''])
       (JStr ''spring-2024'') JUndefined string_id_product
     = Inr (spring_store [spring_entry ''nice'', spring_entry ''nicer''])
   \<and> merge_times 2 sample_platform Proxy sample_now (spring_store [spring_entry ''nice''])
       (JStr ''spring-2024'') JUndefined string_id_product
     = Inr (spring_store [spring_entry ''nice'', spring_entry ''nicer'', spring_entry ''nicer''])
   \<and> spring_store [spring_entry ''nice'', spring_entry ''nicer'', spring_entry ''nicer'']
       \<noteq> spring_store [spring_entry ''nice'', spring_entry ''nicer'']
   \<and> merge_times 1 sample_platform Direct sample_now (spring_store [spring_entry ''nice''])
       (JStr ''spring-2024'') JUndefined string_id_product
     = Inr (spring_store [spring_entry ''nicer''])
   \<and> merge_times 2 sample_platform Direct sample_now (spring_store [spring_entry ''nice''])
       (JStr ''spring-2024'') JUndefined string_id_product
     = Inr (spring_store [spring_entry ''nicer''])"
proof -
  have two: "2 = Suc (Suc 0)" by simp
  have p2: "merge sample_platform Proxy sample_now
       (spring_store [spring_entry ''nice'', spring_entry ''nicer''])
       (JStr ''spring-2024'') JUndefined string_id_product
     = Inr (spring_store [spring_entry ''nice'', spring_entry ''nicer'', spring_entry ''nicer''])"
    by (simp add: merge_defs sample_defs)
  have d2: "merge sample_platform Direct sample_now (spring_store [spring_entry ''nicer''])
       (JStr ''spring-2024'') JUndefined string_id_product
     = Inr (spring_store [spring_entry ''nicer''])"
    by (simp add: merge_defs sample_defs)
  have n: "spring_store [spring_entry ''nice'', spring_entry ''nicer'', spring_entry ''nicer'']
       \<noteq> spring_store [spring_entry ''nice'', spring_entry ''nicer'']"
    by (simp add: spring_store_def spring_event_def tasting_event_def)
  have r: "stored (spring_store [spring_entry ''nice'', spring_entry ''nicer''])
       = spring_store [spring_entry ''nice'', spring_entry ''nicer'']"
    "stored (spring_store [spring_entry ''nice'', spring_entry ''nicer'', spring_entry ''nicer''])
       = spring_store [spring_entry ''nice'', spring_entry ''nicer'', spring_entry ''nicer'']"
    "stored (spring_store [spring_entry ''nicer'']) = spring_store [spring_entry ''nicer'']"
    by (simp_all add: spring_store_def spring_event_def tasting_event_def spring_entry_def
          wine_entry_def)
  show ?thesis
    using n by (simp add: two proxy_string_id_merge direct_string_id_merge p2 d2 r)
qed

end
